theory Spec2Isabelle
  imports Complex_Main "HOL-Library.Multiset" "HOL-Library.AList" "HOL-Library.Sublist"
begin

section \<open>Place discovery: the \<open>POST /api/search-nearby\<close> handler\<close>

text \<open>
  The development embeds the first server file of \<open>src/unnamed/part_004\<close>:
  \<open>calculateDistance\<close>, \<open>searchNearbyPlaces\<close> and the handler of
  \<open>POST /api/search-nearby\<close> with its inlined free-text searches, its normalisation
  of provider records, its de-duplication and its ranking.

  Conventions of the embedding.
  \<^item> JavaScript numbers are modelled by \<open>real\<close> (coordinates, ratings, distances before
    rounding) and by \<open>int\<close> (radii and rounded distances); IEEE rounding and \<open>NaN\<close> are not
    modelled. A property read that may yield \<open>undefined\<close> is an \<open>option\<close>.
  \<^item> A JavaScript string is modelled by the \<open>string\<close> of the bytes of its UTF-8 encoding:
    a character beyond ASCII is two or three bytes, so the no-break space U+00A0 is the
    two bytes \<open>C2 A0\<close>. The operations the handler applies (\<open>trim\<close>, \<open>split\<close>, \<open>includes\<close>,
    a test for a leading ASCII digit, comparison) agree on the two representations.
  \<^item> The search provider is a function from the number of calls issued so far and the
    call to either an error class or the response body; the handler threads the list of
    calls it has issued, so that "no provider call was made" is a statement about that list.
  \<^item> An exception is a value: \<open>Inl\<close> or \<open>None\<close>, caught where the source catches it.
\<close>

subsection \<open>String primitives\<close>

fun starts_with :: "string \<Rightarrow> string \<Rightarrow> bool" where
  "starts_with s [] = True"
| "starts_with [] (y # ys) = False"
| "starts_with (x # xs) (y # ys) = (x = y \<and> starts_with xs ys)"

text \<open>
  The white space and line terminators of ECMAScript, each as the bytes of its UTF-8
  encoding: U+0009 to U+000D, U+0020, U+00A0, U+1680, U+2000 to U+200A, U+2028, U+2029,
  U+202F, U+205F, U+3000 and U+FEFF.
\<close>

definition white_space :: "string list" where
  "white_space =
     [[CHR 0x09], [CHR 0x0A], [CHR 0x0B], [CHR 0x0C], [CHR 0x0D], [CHR 0x20],
      [CHR 0xC2, CHR 0xA0],
      [CHR 0xE1, CHR 0x9A, CHR 0x80],
      [CHR 0xE2, CHR 0x80, CHR 0x80], [CHR 0xE2, CHR 0x80, CHR 0x81],
      [CHR 0xE2, CHR 0x80, CHR 0x82], [CHR 0xE2, CHR 0x80, CHR 0x83],
      [CHR 0xE2, CHR 0x80, CHR 0x84], [CHR 0xE2, CHR 0x80, CHR 0x85],
      [CHR 0xE2, CHR 0x80, CHR 0x86], [CHR 0xE2, CHR 0x80, CHR 0x87],
      [CHR 0xE2, CHR 0x80, CHR 0x88], [CHR 0xE2, CHR 0x80, CHR 0x89],
      [CHR 0xE2, CHR 0x80, CHR 0x8A],
      [CHR 0xE2, CHR 0x80, CHR 0xA8], [CHR 0xE2, CHR 0x80, CHR 0xA9],
      [CHR 0xE2, CHR 0x80, CHR 0xAF],
      [CHR 0xE2, CHR 0x81, CHR 0x9F],
      [CHR 0xE3, CHR 0x80, CHR 0x80],
      [CHR 0xEF, CHR 0xBB, CHR 0xBF]]"

text \<open>Removing, from the front of a string, every leading occurrence of one of the given sequences.\<close>

fun strip_leading :: "string list \<Rightarrow> string \<Rightarrow> string" where
  "strip_leading ws [] = []"
| "strip_leading ws (c # s) =
     (case find (starts_with (c # s)) ws of
        None \<Rightarrow> c # s
      | Some w \<Rightarrow> strip_leading ws (drop (length w - 1) s))"

text \<open>
  \<open>String.prototype.trim\<close>: white space is removed from the front and, on the reversed
  string with the reversed sequences, from the end.
\<close>

definition trim :: "string \<Rightarrow> string" where
  "trim s = rev (strip_leading (map rev white_space) (rev (strip_leading white_space s)))"

text \<open>\<open>s.split(',')\<close>: the empty string splits into one empty part.\<close>

fun split_on :: "char \<Rightarrow> string \<Rightarrow> string list" where
  "split_on c [] = [[]]"
| "split_on c (x # xs) =
     (if x = c then [] # split_on c xs
      else (case split_on c xs of [] \<Rightarrow> [[x]] | w # ws \<Rightarrow> (x # w) # ws))"

definition is_digit :: "char \<Rightarrow> bool" where
  "is_digit c \<longleftrightarrow> c \<in> set ''0123456789''"

text \<open>\<open>s.match(/^\d+/)\<close> is truthy exactly when \<open>s\<close> starts with a digit.\<close>

definition match_leading_digits :: "string \<Rightarrow> bool" where
  "match_leading_digits s = (case s of [] \<Rightarrow> False | c # _ \<Rightarrow> is_digit c)"

text \<open>\<open>s.includes(t)\<close>: \<open>t\<close> occurs in \<open>s\<close> as a contiguous substring.\<close>

fun includes_str :: "string \<Rightarrow> string \<Rightarrow> bool" where
  "includes_str [] t = (t = [])"
| "includes_str (x # xs) t = (starts_with (x # xs) t \<or> includes_str xs t)"

text \<open>Decimal rendering of a natural number, and \<open>Number.prototype.toFixed(4)\<close>.\<close>

fun show_nat :: "nat \<Rightarrow> string" where
  "show_nat n =
     (if n < 10 then [''0123456789'' ! n]
      else show_nat (n div 10) @ [''0123456789'' ! (n mod 10)])"

declare show_nat.simps [simp del]

definition toFixed4 :: "real \<Rightarrow> string" where
  "toFixed4 x =
     (let n = nat \<lfloor>\<bar>x\<bar> * 10000 + 1 / 2\<rfloor>;
          frac = show_nat (n mod 10000)
      in (if x < 0 then ''-'' else '''') @ show_nat (n div 10000) @ ''.''
         @ drop (length frac) ''0000'' @ frac)"

subsection \<open>Geo math\<close>

text \<open>\<open>Math.atan2(y, x)\<close> on the reals.\<close>

definition atan2 :: "real \<Rightarrow> real \<Rightarrow> real" where
  "atan2 y x =
     (if 0 < x then arctan (y / x)
      else if x < 0 then (if 0 \<le> y then arctan (y / x) + pi else arctan (y / x) - pi)
      else if 0 < y then pi / 2
      else if y < 0 then - (pi / 2)
      else 0)"

text \<open>The haversine distance in metres, as \<open>calculateDistance\<close> computes it.\<close>

definition calculateDistance :: "real \<Rightarrow> real \<Rightarrow> real \<Rightarrow> real \<Rightarrow> real" where
  "calculateDistance lat1 lon1 lat2 lon2 =
     (let R = 6371000;
          phi1 = lat1 * pi / 180;
          phi2 = lat2 * pi / 180;
          dphi = (lat2 - lat1) * pi / 180;
          dlam = (lon2 - lon1) * pi / 180;
          a = sin (dphi / 2) * sin (dphi / 2)
              + cos phi1 * cos phi2 * sin (dlam / 2) * sin (dlam / 2);
          c = 2 * atan2 (sqrt a) (sqrt (1 - a))
      in R * c)"

text \<open>\<open>Math.round\<close>: the nearest integer, halves rounded up.\<close>

definition Math_round :: "real \<Rightarrow> int" where
  "Math_round x = \<lfloor>x + 1 / 2\<rfloor>"

subsection \<open>Data model\<close>

record latlng =
  latitude :: real
  longitude :: real

record photo =
  photo_name :: string
  widthPx :: nat
  heightPx :: nat

text \<open>
  An element of \<open>allPlacesForCategory\<close>. The list mixes two shapes of JavaScript object:
  the records of the provider (\<open>displayName.text\<close>, \<open>formattedAddress\<close>, \<open>types\<close>, ...)
  and the objects the handler builds from a free-text response (\<open>name\<close>, \<open>address\<close>,
  \<open>distance\<close>, ...). The final normalisation reads both through the same property
  names, so one record with every property optional models both. A \<open>location\<close> object,
  when present, carries both coordinates as numbers.
\<close>

record raw_place =
  raw_id :: "string option"
  raw_displayName_text :: "string option"
  raw_name :: "string option"
  raw_formattedAddress :: "string option"
  raw_address :: "string option"
  raw_location :: "latlng option"
  raw_rating :: "real option"
  raw_userRatingCount :: "nat option"
  raw_photos :: "photo list option"
  raw_websiteUri :: "string option"
  raw_types :: "string list option"
  raw_distance :: "real option"

text \<open>
  The object the handler returns for a place. The field \<open>mapsUrl\<close>, a URL built from the
  coordinates and the name, is left out.
\<close>

record place =
  place_id :: "string option"
  name :: string
  address :: string
  location :: latlng
  rating :: real
  userRatingCount :: nat
  distance :: int
  photos :: "photo list"
  websiteUri :: string
  types :: "string list"

text \<open>
  An entry of \<open>manualRecommendations\<close>, and the entry with its computed distance. The
  route that stores a recommendation requires both coordinates, so \<open>location\<close> is always
  present. Fields that the handler only copies (description, images, provenance) are left
  out, except \<open>featured\<close>.
\<close>

record recommendation =
  rec_id :: string
  rec_name :: string
  rec_address :: string
  rec_location :: latlng
  rec_rating :: real
  rec_userRatingCount :: nat
  rec_featured :: bool

type_synonym recommended = "recommendation \<times> int"

text \<open>
  The configuration read from the environment at start-up, and the request body. A
  coordinate or radius that the body omits is \<open>None\<close>. The radius is an integer, as the
  page of the repository sends it (\<open>currentRadius = parseInt(radius)\<close>); a radius that is
  a fraction or not a number is not modelled.

  \<open>parseInt\<close> converts its argument to a string and reads the leading integer. A number
  below \<open>10\<^sup>2\<^sup>1\<close> in magnitude prints as its digits, so \<open>parseInt\<close> returns it. A larger
  number prints in exponential notation (\<open>1e+21\<close>), of which \<open>parseInt\<close> reads the sign and
  the digits before the point or the \<open>e\<close>. Which digits a double prints is not modelled:
  that reading is the parameter \<open>parseInt_exponential\<close> of the environment.
\<close>

record env =
  api_key_present :: bool
  DEFAULT_SEARCH_RADIUS :: int
  MAX_SEARCH_RADIUS :: int
  parseInt_exponential :: "int \<Rightarrow> int"

definition parseInt_number :: "env \<Rightarrow> int \<Rightarrow> int" where
  "parseInt_number e n = (if \<bar>n\<bar> < 10 ^ 21 then n else parseInt_exponential e n)"

record request =
  req_latitude :: "real option"
  req_longitude :: "real option"
  req_radius :: "int option"

definition PLACE_TYPES :: "(string \<times> string list) list" where
  "PLACE_TYPES =
     [(''restaurants'', [''restaurant'']),
      (''landmarks'', [''tourist_attraction'']),
      (''coffee'', [''cafe'']),
      (''culture'', [''museum''])]"

subsection \<open>JavaScript truthiness and defaults\<close>

text \<open>\<open>x || d\<close> for a string and for a number: the empty string and zero are falsy.\<close>

definition str_or :: "string option \<Rightarrow> string \<Rightarrow> string" where
  "str_or x d = (case x of None \<Rightarrow> d | Some s \<Rightarrow> if s = [] then d else s)"

definition num_or :: "'a::zero option \<Rightarrow> 'a \<Rightarrow> 'a" where
  "num_or x d = (case x of None \<Rightarrow> d | Some v \<Rightarrow> if v = 0 then d else v)"

text \<open>\<open>s && s.trim().length > 0\<close>.\<close>

definition nonblank :: "string option \<Rightarrow> bool" where
  "nonblank x = (case x of None \<Rightarrow> False | Some s \<Rightarrow> 0 < length (trim s))"

subsection \<open>Name resolution of the final normalisation\<close>

text \<open>
  The object literal \<open>typeMap\<close>. The lookup \<open>typeMap[type]\<close> finds the nine properties of
  the literal and, for other keys, the properties that the literal inherits from
  \<open>Object.prototype\<close>: eleven functions and, under \<open>__proto__\<close>, the prototype itself, all
  of them truthy. The template literal then prints a function as
  \<open>function f() { [native code] }\<close>, where \<open>f\<close> is the name of the property except for
  \<open>constructor\<close>, which is the function \<open>Object\<close>, and prints the prototype as
  \<open>[object Object]\<close> (Node 18).
\<close>

definition typeMap_own :: "string \<Rightarrow> string option" where
  "typeMap_own t =
     map_of
       [(''restaurant'', ''Restaurant''),
        (''tourist_attraction'', ''Landmark''),
        (''cafe'', ''Coffee Shop''),
        (''museum'', ''Museum''),
        (''art_gallery'', ''Art Gallery''),
        (''library'', ''Library''),
        (''cultural_center'', ''Cultural Center''),
        (''establishment'', ''Establishment''),
        (''point_of_interest'', ''Point of Interest'')] t"

definition Object_prototype :: "string \<Rightarrow> string option" where
  "Object_prototype t =
     (if t = ''__proto__'' then Some ''[object Object]''
      else if t = ''constructor'' then Some ''function Object() { [native code] }''
      else if t \<in> set [''__defineGetter__'', ''__defineSetter__'', ''hasOwnProperty'',
                        ''__lookupGetter__'', ''__lookupSetter__'', ''isPrototypeOf'',
                        ''propertyIsEnumerable'', ''toString'', ''valueOf'', ''toLocaleString'']
      then Some (''function '' @ t @ ''() { [native code] }'')
      else None)"

definition typeMap :: "string \<Rightarrow> string option" where
  "typeMap t = (case typeMap_own t of Some label \<Rightarrow> Some label | None \<Rightarrow> Object_prototype t)"

text \<open>The loop over \<open>addressParts\<close>; \<open>placeName\<close> keeps its initial value when no part fits.\<close>

fun name_from_address_parts :: "string list \<Rightarrow> string" where
  "name_from_address_parts [] = ''Unknown Place''"
| "name_from_address_parts (part # parts) =
     (let trimmedPart = trim part
      in if 0 < length trimmedPart \<and> \<not> match_leading_digits trimmedPart
            \<and> \<not> includes_str trimmedPart ''Vietnam'' \<and> \<not> includes_str trimmedPart ''Hanoi''
         then trimmedPart
         else name_from_address_parts parts)"

text \<open>The loop over \<open>place.types\<close>.\<close>

fun name_from_types :: "latlng \<Rightarrow> string list \<Rightarrow> string" where
  "name_from_types loc [] = ''Unknown Place''"
| "name_from_types loc (t # ts) =
     (case typeMap t of
        Some label \<Rightarrow> label @ '' at '' @ toFixed4 (latitude loc) @ '','' @ toFixed4 (longitude loc)
      | None \<Rightarrow> name_from_types loc ts)"

text \<open>The \<open>if\<close> / \<open>else if\<close> chain that sets \<open>placeName\<close>.\<close>

definition resolve_placeName :: "raw_place \<Rightarrow> latlng \<Rightarrow> string" where
  "resolve_placeName p loc =
     (if nonblank (raw_displayName_text p) then trim (str_or (raw_displayName_text p) [])
      else if nonblank (raw_name p) then trim (str_or (raw_name p) [])
      else if nonblank (raw_formattedAddress p)
        then name_from_address_parts (split_on CHR '','' (str_or (raw_formattedAddress p) []))
      else if (case raw_types p of None \<Rightarrow> False | Some ts \<Rightarrow> 0 < length ts)
        then name_from_types loc (case raw_types p of None \<Rightarrow> [] | Some ts \<Rightarrow> ts)
      else ''Unknown Place'')"

text \<open>
  The callback of the final \<open>map\<close>. Reading \<open>place.location.latitude\<close> throws a
  \<open>TypeError\<close> when \<open>place.location\<close> is undefined: the result is \<open>None\<close>.
\<close>

definition to_place :: "real \<Rightarrow> real \<Rightarrow> raw_place \<Rightarrow> place option" where
  "to_place lat lon p =
     (case raw_location p of
        None \<Rightarrow> None
      | Some loc \<Rightarrow>
          Some \<lparr> place_id = raw_id p,
                 name = resolve_placeName p loc,
                 address = str_or (raw_formattedAddress p) [],
                 location = loc,
                 rating = num_or (raw_rating p) 0,
                 userRatingCount = num_or (raw_userRatingCount p) 0,
                 distance = Math_round (calculateDistance lat lon (latitude loc) (longitude loc)),
                 photos = (case raw_photos p of None \<Rightarrow> [] | Some ps \<Rightarrow> ps),
                 websiteUri = str_or (raw_websiteUri p) [],
                 types = (case raw_types p of None \<Rightarrow> [] | Some ts \<Rightarrow> ts) \<rparr>)"

subsection \<open>The search provider\<close>

text \<open>
  The error classes of a provider call: HTTP 403, 400 and 429, and everything else
  (no connection, time-out). \<open>searchNearbyPlaces\<close> rethrows each of them as an \<open>Error\<close>.
\<close>

datatype provider_error = PermissionDenied | InvalidRequest | RateLimited | Transient

text \<open>
  The calls the handler issues: \<open>places:searchNearby\<close> and \<open>places:searchText\<close> with the
  centre, the radius of the circle and the included types or the text query, and the
  geocoding request the handler sends as a connectivity test when it found nothing. The
  constant \<open>maxResultCount\<close> is left out.
\<close>

datatype api_call =
    SearchNearby real real int "string list"
  | SearchText real real int string
  | GeocodeProbe real real

text \<open>
  A provider answers the \<open>n\<close>-th call of an invocation (counted from zero) with an error
  or with a body whose \<open>places\<close> property may be missing.
\<close>

type_synonym provider = "nat \<Rightarrow> api_call \<Rightarrow> provider_error + raw_place list option"

definition searchNearbyPlaces ::
  "env \<Rightarrow> provider \<Rightarrow> api_call list \<Rightarrow> real \<Rightarrow> real \<Rightarrow> int \<Rightarrow> string list
    \<Rightarrow> api_call list \<times> (provider_error + raw_place list)" where
  "searchNearbyPlaces e prov calls lat lon radius tys =
     (let call = SearchNearby lat lon (min radius (MAX_SEARCH_RADIUS e)) tys
      in (calls @ [call],
          case prov (length calls) call of
            Inl err \<Rightarrow> Inl err
          | Inr body \<Rightarrow> Inr (case body of None \<Rightarrow> [] | Some ps \<Rightarrow> ps)))"

subsection \<open>Free-text searches\<close>

definition truthy_str :: "string option \<Rightarrow> bool" where
  "truthy_str x = (case x of None \<Rightarrow> False | Some s \<Rightarrow> s \<noteq> [])"

text \<open>The name extraction inside the \<open>map\<close> over a free-text response.\<close>

definition text_placeName :: "string \<Rightarrow> raw_place \<Rightarrow> string" where
  "text_placeName placeholder p =
     (if truthy_str (raw_displayName_text p) then str_or (raw_displayName_text p) []
      else if truthy_str (raw_name p) then str_or (raw_name p) []
      else if truthy_str (raw_formattedAddress p) then
        (case split_on CHR '','' (str_or (raw_formattedAddress p) []) of
           [] \<Rightarrow> placeholder
         | part0 # _ \<Rightarrow> if 0 < length (trim part0) then trim part0 else placeholder)
      else placeholder)"

text \<open>The object built for each record of a free-text response.\<close>

definition text_record :: "real \<Rightarrow> real \<Rightarrow> string \<Rightarrow> raw_place \<Rightarrow> raw_place" where
  "text_record lat lon placeholder p =
     \<lparr> raw_id = raw_id p,
       raw_displayName_text = None,
       raw_name = Some (text_placeName placeholder p),
       raw_formattedAddress = None,
       raw_address = Some (str_or (raw_formattedAddress p) ''Address not available''),
       raw_location =
         Some (case raw_location p of None \<Rightarrow> \<lparr>latitude = 0, longitude = 0\<rparr> | Some l \<Rightarrow> l),
       raw_rating = Some (num_or (raw_rating p) 0),
       raw_userRatingCount = Some (num_or (raw_userRatingCount p) 0),
       raw_photos = Some (case raw_photos p of None \<Rightarrow> [] | Some ps \<Rightarrow> ps),
       raw_websiteUri = Some (str_or (raw_websiteUri p) []),
       raw_types = None,
       raw_distance =
         Some (calculateDistance lat lon
                 (case raw_location p of None \<Rightarrow> 0 | Some l \<Rightarrow> latitude l)
                 (case raw_location p of None \<Rightarrow> 0 | Some l \<Rightarrow> longitude l)) \<rparr>"

text \<open>The filter applied to the objects of one free-text response.\<close>

definition text_keep :: "int \<Rightarrow> string \<Rightarrow> raw_place \<Rightarrow> bool" where
  "text_keep searchRadius placeholder q \<longleftrightarrow>
     (case raw_distance q of None \<Rightarrow> False | Some d \<Rightarrow> d \<le> real_of_int searchRadius)
     \<and> raw_name q \<noteq> Some placeholder"

text \<open>
  One free-text search with its own \<open>try\<close>/\<open>catch\<close>: an error of the call is logged and
  nothing is pushed.
\<close>

definition textSearch ::
  "env \<Rightarrow> provider \<Rightarrow> api_call list \<Rightarrow> real \<Rightarrow> real \<Rightarrow> int \<Rightarrow> string \<Rightarrow> string
    \<Rightarrow> api_call list \<times> raw_place list" where
  "textSearch e prov calls lat lon searchRadius query placeholder =
     (let call = SearchText lat lon (min searchRadius (MAX_SEARCH_RADIUS e)) query
      in (calls @ [call],
          case prov (length calls) call of
            Inl err \<Rightarrow> []
          | Inr body \<Rightarrow>
              (case body of
                 None \<Rightarrow> []
               | Some ps \<Rightarrow>
                   filter (text_keep searchRadius placeholder)
                     (map (text_record lat lon placeholder) ps))))"

subsection \<open>Sub-queries of a category\<close>

text \<open>
  The branches on the category name: the types of the first, tag-based search and the
  free-text searches that follow it, each with the placeholder name of its conversion.
\<close>

definition search_strategies :: "string \<Rightarrow> string list \<Rightarrow> string list \<times> (string \<times> string) list" where
  "search_strategies category tys =
     (if category = ''landmarks'' then
        ([''tourist_attraction''],
         [(''historical landmark monument temple pagoda'', ''Unknown Landmark''),
          (''temple pagoda church cathedral mosque shrine'', ''Unknown Religious Site'')])
      else if category = ''restaurants'' then
        ([''restaurant''],
         [(''restaurant dining food eat meal'', ''Unknown Restaurant''),
          (''pho banh mi vietnamese asian italian french cafe bistro'', ''Unknown Restaurant'')])
      else if category = ''culture'' then
        ([''museum''],
         [(''museum gallery cultural center art exhibition heritage'', ''Unknown Cultural Site''),
          (''theater opera house concert hall performance venue'', ''Unknown Venue'')])
      else if category = ''coffee'' then
        ([''cafe''], [(''coffee shop'', ''Unknown Coffee Shop'')])
      else (tys, []))"

fun run_text_searches ::
  "env \<Rightarrow> provider \<Rightarrow> real \<Rightarrow> real \<Rightarrow> int \<Rightarrow> (string \<times> string) list
    \<Rightarrow> api_call list \<Rightarrow> raw_place list \<Rightarrow> api_call list \<times> raw_place list" where
  "run_text_searches e prov lat lon searchRadius [] calls allPlaces = (calls, allPlaces)"
| "run_text_searches e prov lat lon searchRadius ((query, placeholder) # rest) calls allPlaces =
     (case textSearch e prov calls lat lon searchRadius query placeholder of
        (calls', found) \<Rightarrow> run_text_searches e prov lat lon searchRadius rest calls' (allPlaces @ found))"

subsection \<open>De-duplication and ranking\<close>

text \<open>
  The \<open>Map\<close> named \<open>uniquePlaces\<close>, as the list of its entries in insertion order:
  \<open>forEach\<close> adds a place only when its id is not yet a key.
\<close>

fun fill_uniquePlaces ::
  "(string option \<times> place) list \<Rightarrow> place list \<Rightarrow> (string option \<times> place) list" where
  "fill_uniquePlaces m [] = m"
| "fill_uniquePlaces m (p # ps) =
     fill_uniquePlaces (if place_id p \<in> fst ` set m then m else m @ [(place_id p, p)]) ps"

definition dedup :: "place list \<Rightarrow> place list" where
  "dedup ps = map snd (fill_uniquePlaces [] ps)"

text \<open>
  \<open>Array.prototype.sort\<close> is stable (ECMAScript 2019; the image runs Node 18). For a
  comparator that orders the elements consistently the result is the one of the stable
  insertion sort below, where \<open>cmp a b \<le> 0\<close> keeps \<open>a\<close> before \<open>b\<close>.
\<close>

fun insert_by :: "('a \<Rightarrow> 'a \<Rightarrow> real) \<Rightarrow> 'a \<Rightarrow> 'a list \<Rightarrow> 'a list" where
  "insert_by cmp x [] = [x]"
| "insert_by cmp x (y # ys) = (if cmp x y \<le> 0 then x # y # ys else y # insert_by cmp x ys)"

definition sort_by :: "('a \<Rightarrow> 'a \<Rightarrow> real) \<Rightarrow> 'a list \<Rightarrow> 'a list" where
  "sort_by cmp xs = foldr (insert_by cmp) xs []"

text \<open>The comparator of the places of a category, and the one of the recommendations.\<close>

definition compare_places :: "place \<Rightarrow> place \<Rightarrow> real" where
  "compare_places a b =
     (if rating a \<noteq> rating b then rating b - rating a
      else real_of_int (distance a - distance b))"

definition compare_recommended :: "recommended \<Rightarrow> recommended \<Rightarrow> real" where
  "compare_recommended a b = real_of_int (snd a - snd b)"

subsection \<open>One category\<close>

definition dedup_categories :: "string list" where
  "dedup_categories = [''landmarks'', ''restaurants'', ''culture'', ''coffee'']"

text \<open>
  The final \<open>map\<close> and \<open>filter\<close> over \<open>allPlacesForCategory\<close>, the de-duplication and the
  sort. \<open>None\<close> is the \<open>TypeError\<close> of a record without \<open>location\<close>.
\<close>

definition finalize_category :: "real \<Rightarrow> real \<Rightarrow> string \<Rightarrow> raw_place list \<Rightarrow> place list option" where
  "finalize_category lat lon category allPlaces =
     (case those (map (to_place lat lon) allPlaces) of
        None \<Rightarrow> None
      | Some ps \<Rightarrow>
          (let named = filter (\<lambda>p. name p \<noteq> ''Unknown Place'') ps;
               unique = (if category \<in> set dedup_categories then dedup named else named)
           in Some (sort_by compare_places unique)))"

text \<open>
  The body of the \<open>try\<close> of one category. The tag-based search comes first and is not
  wrapped: its error leaves the \<open>try\<close> at once. The result \<open>None\<close> is the \<open>catch\<close>, which
  sets \<open>results[category] = []\<close>.
\<close>

definition search_category ::
  "env \<Rightarrow> provider \<Rightarrow> real \<Rightarrow> real \<Rightarrow> int \<Rightarrow> string \<Rightarrow> string list \<Rightarrow> api_call list
    \<Rightarrow> api_call list \<times> place list option" where
  "search_category e prov lat lon searchRadius category tys calls =
     (case search_strategies category tys of
        (primary, texts) \<Rightarrow>
          (case searchNearbyPlaces e prov calls lat lon searchRadius primary of
             (calls1, Inl err) \<Rightarrow> (calls1, None)
           | (calls1, Inr nearby) \<Rightarrow>
               (case run_text_searches e prov lat lon searchRadius texts calls1 nearby of
                  (calls2, allPlaces) \<Rightarrow> (calls2, finalize_category lat lon category allPlaces))))"

text \<open>The loop over \<open>Object.entries(PLACE_TYPES)\<close> with \<open>results\<close> and \<open>totalPlacesFound\<close>.\<close>

fun search_categories ::
  "env \<Rightarrow> provider \<Rightarrow> real \<Rightarrow> real \<Rightarrow> int \<Rightarrow> (string \<times> string list) list
    \<Rightarrow> api_call list \<times> (string \<times> place list) list \<times> nat
    \<Rightarrow> api_call list \<times> (string \<times> place list) list \<times> nat" where
  "search_categories e prov lat lon searchRadius [] st = st"
| "search_categories e prov lat lon searchRadius ((category, tys) # rest) (calls, results, totalPlacesFound) =
     (case search_category e prov lat lon searchRadius category tys calls of
        (calls', None) \<Rightarrow>
          search_categories e prov lat lon searchRadius rest
            (calls', AList.update category [] results, totalPlacesFound)
      | (calls', Some ps) \<Rightarrow>
          search_categories e prov lat lon searchRadius rest
            (calls', AList.update category ps results, totalPlacesFound + length ps))"

subsection \<open>Manual recommendations\<close>

definition recommendationsWithDistance ::
  "real \<Rightarrow> real \<Rightarrow> int \<Rightarrow> recommendation list \<Rightarrow> recommended list" where
  "recommendationsWithDistance lat lon searchRadius recs =
     sort_by compare_recommended
       (filter (\<lambda>r. snd r \<le> searchRadius)
          (map (\<lambda>r. (r, Math_round (calculateDistance lat lon
                                        (latitude (rec_location r)) (longitude (rec_location r)))))
             recs))"

subsection \<open>The handler\<close>

text \<open>
  The body of a successful response: \<open>radius\<close>, the key \<open>recommend\<close> of \<open>results\<close>
  (\<open>None\<close> when the key is absent), the other keys of \<open>results\<close> in insertion order, and
  \<open>debug.totalPlacesFound\<close>. No key of \<open>PLACE_TYPES\<close> is \<open>recommend\<close>, so the two parts of
  \<open>results\<close> do not interfere.
\<close>

record ok_body =
  ok_radius :: int
  ok_recommend :: "recommended list option"
  ok_results :: "(string \<times> place list) list"
  ok_totalPlacesFound :: nat

datatype response =
    Status400_coordinates_required
  | Status500_key_not_configured
  | Status200 ok_body

text \<open>
  The handler returns the calls it issued and its response. \<open>!latitude\<close> holds for a
  missing latitude and for the number zero.
\<close>

definition search_nearby ::
  "env \<Rightarrow> recommendation list \<Rightarrow> provider \<Rightarrow> request \<Rightarrow> api_call list \<times> response" where
  "search_nearby e manualRecommendations prov req =
     (let radius = (case req_radius req of None \<Rightarrow> DEFAULT_SEARCH_RADIUS e | Some r \<Rightarrow> r)
      in case req_latitude req of
           None \<Rightarrow> ([], Status400_coordinates_required)
         | Some lat \<Rightarrow>
            (case req_longitude req of
               None \<Rightarrow> ([], Status400_coordinates_required)
             | Some lon \<Rightarrow>
                 if lat = 0 \<or> lon = 0 then ([], Status400_coordinates_required)
                 else if \<not> api_key_present e then ([], Status500_key_not_configured)
                 else
                   (let searchRadius = min (parseInt_number e radius) (MAX_SEARCH_RADIUS e);
                        found = recommendationsWithDistance lat lon searchRadius manualRecommendations;
                        recommend =
                          (if 0 < length manualRecommendations \<and> 0 < length found
                           then Some found else None)
                    in case search_categories e prov lat lon searchRadius PLACE_TYPES ([], [], 0) of
                         (calls, results, totalPlacesFound) \<Rightarrow>
                           ((if totalPlacesFound = 0 then calls @ [GeocodeProbe lat lon] else calls),
                            Status200 \<lparr> ok_radius = searchRadius,
                                        ok_recommend = recommend,
                                        ok_results = results,
                                        ok_totalPlacesFound = totalPlacesFound \<rparr>))))"

subsection \<open>The plan of a category\<close>

text \<open>
  The calls a category issues when no call fails: the tag-based search, then its
  free-text searches in order. The handler has no such function; the list serves to
  state which calls an invocation can issue.
\<close>

definition planned_calls :: "env \<Rightarrow> real \<Rightarrow> real \<Rightarrow> int \<Rightarrow> string \<times> string list \<Rightarrow> api_call list" where
  "planned_calls e lat lon searchRadius ct =
     SearchNearby lat lon (min searchRadius (MAX_SEARCH_RADIUS e)) (fst (search_strategies (fst ct) (snd ct)))
     # map (\<lambda>t. SearchText lat lon (min searchRadius (MAX_SEARCH_RADIUS e)) (fst t))
         (snd (search_strategies (fst ct) (snd ct)))"

subsection \<open>The four-tier fallback of the specification\<close>

text \<open>
  Following the specification, not the source: the name is the trimmed display name; if
  that is empty the trimmed plain name; if that is empty the first comma-separated
  segment of the formatted address that, trimmed, is not empty, does not start with a
  digit and is not excluded; if there is none the label of the first recognised type
  (one of the nine of \<open>typeMap_own\<close>) with the coordinates to four decimal places; and no
  name if that fails too. The
  exclusion of a segment is a parameter: the specification excludes a segment that equals
  the country or city token (\<open>is_token\<close>), the source one that contains such a token
  (\<open>mentions_token\<close>).
\<close>

definition is_token :: "string \<Rightarrow> bool" where
  "is_token s \<longleftrightarrow> s = ''Vietnam'' \<or> s = ''Hanoi''"

definition mentions_token :: "string \<Rightarrow> bool" where
  "mentions_token s \<longleftrightarrow> includes_str s ''Vietnam'' \<or> includes_str s ''Hanoi''"

definition segment_ok :: "(string \<Rightarrow> bool) \<Rightarrow> string \<Rightarrow> bool" where
  "segment_ok excluded s \<longleftrightarrow> s \<noteq> [] \<and> \<not> match_leading_digits s \<and> \<not> excluded s"

definition tag_label :: "latlng \<Rightarrow> string list \<Rightarrow> string option" where
  "tag_label loc ts =
     (case find (\<lambda>t. typeMap_own t \<noteq> None) ts of
        None \<Rightarrow> None
      | Some t \<Rightarrow>
          map_option
            (\<lambda>label. label @ '' at '' @ toFixed4 (latitude loc) @ '','' @ toFixed4 (longitude loc))
            (typeMap_own t))"

definition four_tier_name :: "(string \<Rightarrow> bool) \<Rightarrow> raw_place \<Rightarrow> latlng \<Rightarrow> string option" where
  "four_tier_name excluded p loc =
     (let tier1 = trim (case raw_displayName_text p of None \<Rightarrow> [] | Some s \<Rightarrow> s);
          tier2 = trim (case raw_name p of None \<Rightarrow> [] | Some s \<Rightarrow> s);
          tier3 = find (segment_ok excluded)
                    (map trim (split_on CHR '',''
                       (case raw_formattedAddress p of None \<Rightarrow> [] | Some s \<Rightarrow> s)));
          tier4 = tag_label loc (case raw_types p of None \<Rightarrow> [] | Some ts \<Rightarrow> ts)
      in if tier1 \<noteq> [] then Some tier1
         else if tier2 \<noteq> [] then Some tier2
         else if tier3 \<noteq> None then tier3
         else tier4)"

subsection \<open>Reading an outcome\<close>

text \<open>
  Projections of the pair the handler returns: the HTTP status, the list under a
  category key of \<open>results\<close> (empty when the key is absent or the request failed) and the
  list under \<open>recommend\<close>.
\<close>

definition status_of :: "api_call list \<times> response \<Rightarrow> nat" where
  "status_of out =
     (case snd out of
        Status400_coordinates_required \<Rightarrow> 400
      | Status500_key_not_configured \<Rightarrow> 500
      | Status200 body \<Rightarrow> 200)"

definition results_of :: "api_call list \<times> response \<Rightarrow> string \<Rightarrow> place list" where
  "results_of out category =
     (case snd out of
        Status200 body \<Rightarrow> (case map_of (ok_results body) category of None \<Rightarrow> [] | Some ps \<Rightarrow> ps)
      | _ \<Rightarrow> [])"

definition recommend_of :: "api_call list \<times> response \<Rightarrow> recommended list option" where
  "recommend_of out = (case snd out of Status200 body \<Rightarrow> ok_recommend body | _ \<Rightarrow> None)"

text \<open>The radius a call carries.\<close>

definition call_radius :: "api_call \<Rightarrow> int option" where
  "call_radius call =
     (case call of
        SearchNearby lat lon r tys \<Rightarrow> Some r
      | SearchText lat lon r q \<Rightarrow> Some r
      | GeocodeProbe lat lon \<Rightarrow> None)"

section \<open>Example inputs\<close>

text \<open>
  The inputs at which the theorems below are instantiated: the default hotel location of
  the server as the centre, a point a quarter of a meridian further south, and provider
  records at either place. The environment reads a number in exponential notation as
  \<open>1\<close> or \<open>-1\<close>, which is what \<open>parseInt\<close> returns for \<open>1e+21\<close> and \<open>-1e+21\<close>; the
  theorems below use it at no other number of that size.
\<close>

definition example_env :: env where
  "example_env =
     \<lparr> api_key_present = True, DEFAULT_SEARCH_RADIUS = 2000, MAX_SEARCH_RADIUS = 10000,
       parseInt_exponential = (\<lambda>n. if n < 0 then - 1 else 1) \<rparr>"

definition hotel :: latlng where
  "hotel = \<lparr> latitude = 21.034087, longitude = 105.85114 \<rparr>"

definition far_away :: latlng where
  "far_away = \<lparr> latitude = - 68.965913, longitude = 105.85114 \<rparr>"

definition hotel_request :: "int \<Rightarrow> request" where
  "hotel_request r =
     \<lparr> req_latitude = Some 21.034087, req_longitude = Some 105.85114, req_radius = Some r \<rparr>"

definition empty_record :: raw_place where
  "empty_record =
     \<lparr> raw_id = None, raw_displayName_text = None, raw_name = None,
       raw_formattedAddress = None, raw_address = None, raw_location = None,
       raw_rating = None, raw_userRatingCount = None, raw_photos = None,
       raw_websiteUri = None, raw_types = None, raw_distance = None \<rparr>"

definition pho_record :: raw_place where
  "pho_record =
     empty_record \<lparr> raw_id := Some ''p1'', raw_displayName_text := Some ''Pho 10'',
                    raw_formattedAddress := Some ''10 Ly Quoc Su, Hanoi'',
                    raw_location := Some hotel, raw_rating := Some 4.5 \<rparr>"

definition bun_record :: raw_place where
  "bun_record =
     empty_record \<lparr> raw_id := Some ''p2'', raw_displayName_text := Some '' Bun Cha 34 '',
                    raw_location := Some hotel, raw_rating := Some 4.7 \<rparr>"

definition pho_again :: raw_place where
  "pho_again =
     empty_record \<lparr> raw_id := Some ''p1'', raw_displayName_text := Some ''Pho 10 Ly Quoc Su'',
                    raw_formattedAddress := Some ''10 Ly Quoc Su, Hanoi'',
                    raw_location := Some hotel, raw_rating := Some 4.9 \<rparr>"

definition address_only :: raw_place where
  "address_only =
     empty_record \<lparr> raw_id := Some ''p3'', raw_formattedAddress := Some ''12 Hang Bac, Hanoi'',
                    raw_location := Some hotel \<rparr>"

definition giang_record :: raw_place where
  "giang_record =
     empty_record \<lparr> raw_id := Some ''c1'', raw_displayName_text := Some ''Cafe Giang'',
                    raw_location := Some hotel, raw_rating := Some 4.6 \<rparr>"

definition quarter_record :: raw_place where
  "quarter_record =
     empty_record \<lparr> raw_id := Some ''p4'',
                    raw_formattedAddress := Some ''12 Hang Bac, Old Quarter, Hanoi'',
                    raw_location := Some hotel \<rparr>"

definition tagged_record :: raw_place where
  "tagged_record =
     empty_record \<lparr> raw_id := Some ''p5'', raw_location := Some hotel,
                    raw_types := Some [''food'', ''cafe''] \<rparr>"

definition constructor_record :: raw_place where
  "constructor_record =
     empty_record \<lparr> raw_id := Some ''p6'', raw_location := Some hotel,
                    raw_types := Some [''constructor''] \<rparr>"

definition numbered_record :: raw_place where
  "numbered_record =
     empty_record \<lparr> raw_id := Some ''p7'', raw_formattedAddress := Some ''36, Hanoi, Vietnam'',
                    raw_location := Some hotel, raw_types := Some [''cafe''] \<rparr>"

definition kiosk_record :: raw_place where
  "kiosk_record =
     empty_record \<lparr> raw_id := Some ''l0'', raw_displayName_text := Some ''Lakeside Kiosk'',
                    raw_location := Some hotel, raw_rating := Some 3.9 \<rparr>"

definition lake_record :: raw_place where
  "lake_record =
     empty_record \<lparr> raw_id := Some ''l1'', raw_displayName_text := Some ''Hoan Kiem Lake'',
                    raw_location := Some hotel, raw_rating := Some 4.6 \<rparr>"

definition opera_record :: raw_place where
  "opera_record =
     empty_record \<lparr> raw_id := Some ''l2'',
                    raw_formattedAddress := Some ''Hanoi Opera House, Trang Tien'',
                    raw_location := Some hotel, raw_rating := Some 4.6 \<rparr>"

definition temple_record :: raw_place where
  "temple_record =
     empty_record \<lparr> raw_id := Some ''l3'', raw_displayName_text := Some ''Bach Ma Temple'',
                    raw_location := Some hotel, raw_rating := Some 4.6 \<rparr>"

definition far_record :: raw_place where
  "far_record =
     empty_record \<lparr> raw_id := Some ''f1'', raw_displayName_text := Some ''Polar Diner'',
                    raw_location := Some far_away \<rparr>"

text \<open>
  A provider that answers the tag-based restaurant search and one free-text restaurant
  search with records, and that answers the tag-based cafe search with \<open>RateLimited\<close> the
  first time the handler issues it (its seventh call) and with a record at any other time.
\<close>

definition example_provider :: provider where
  "example_provider n call =
     (case call of
        SearchNearby lat lon r tys \<Rightarrow>
          if tys = [''restaurant''] then Inr (Some [pho_record, bun_record])
          else if tys = [''cafe''] then
            (if n = 6 then Inl RateLimited else Inr (Some [giang_record]))
          else Inr (Some [])
      | SearchText lat lon r q \<Rightarrow>
          if q = ''restaurant dining food eat meal'' then Inr (Some [pho_again, address_only])
          else if q = ''coffee shop'' then Inr (Some [giang_record])
          else Inr None
      | GeocodeProbe lat lon \<Rightarrow> Inr None)"

text \<open>A provider without places, and one whose tag-based restaurant search returns a far record.\<close>

definition silent_provider :: provider where
  "silent_provider n call = Inr (Some [])"

definition far_provider :: provider where
  "far_provider n call =
     (case call of
        SearchNearby lat lon r tys \<Rightarrow>
          if tys = [''restaurant''] then Inr (Some [far_record]) else Inr (Some [])
      | SearchText lat lon r q \<Rightarrow> Inr (Some [])
      | GeocodeProbe lat lon \<Rightarrow> Inr None)"

text \<open>
  A provider that answers the tag-based landmark search with a record of rating 3.9
  followed by two records of rating 4.6, and the first free-text landmark search with a
  third record of rating 4.6; all four lie at the centre.
\<close>

definition landmark_provider :: provider where
  "landmark_provider n call =
     (case call of
        SearchNearby lat lon r tys \<Rightarrow>
          if tys = [''tourist_attraction''] then Inr (Some [kiosk_record, lake_record, opera_record])
          else Inr (Some [])
      | SearchText lat lon r q \<Rightarrow>
          if q = ''historical landmark monument temple pagoda'' then Inr (Some [temple_record])
          else Inr (Some [])
      | GeocodeProbe lat lon \<Rightarrow> Inr None)"

text \<open>
  A provider that answers the tag-based cafe search with a record that has only numbered
  and city segments in its address, and a record whose only type is \<open>constructor\<close>.
\<close>

definition unnamed_provider :: provider where
  "unnamed_provider n call =
     (case call of
        SearchNearby lat lon r tys \<Rightarrow>
          if tys = [''cafe''] then Inr (Some [numbered_record, constructor_record])
          else Inr (Some [])
      | SearchText lat lon r q \<Rightarrow> Inr (Some [])
      | GeocodeProbe lat lon \<Rightarrow> Inr None)"

text \<open>A provider whose every call is rate limited.\<close>

definition limited_provider :: provider where
  "limited_provider n call = Inl RateLimited"

text \<open>
  The example provider, except that its tag-based cafe search for the hotel succeeds
  with no records.
\<close>

definition zero_cafe_provider :: provider where
  "zero_cafe_provider n call =
     (if call = SearchNearby 21.034087 105.85114 1000 [''cafe''] then Inr (Some [])
      else example_provider n call)"

definition walk_rec :: recommendation where
  "walk_rec =
     \<lparr> rec_id = ''rec_001'', rec_name = ''Hanoi Old Quarter Walking Tour'',
       rec_address = ''36 Streets, Hoan Kiem, Hanoi, Vietnam'', rec_location = hotel,
       rec_rating = 4.8, rec_userRatingCount = 127, rec_featured = True \<rparr>"

definition temple_rec :: recommendation where
  "temple_rec =
     \<lparr> rec_id = ''rec_001'', rec_name = ''Ngoc Son Temple'',
       rec_address = ''Hoan Kiem Lake, Hanoi, Vietnam'', rec_location = hotel,
       rec_rating = 4.9, rec_userRatingCount = 89, rec_featured = True \<rparr>"

definition polar_rec :: recommendation where
  "polar_rec =
     \<lparr> rec_id = ''rec_003'', rec_name = ''Polar Station'',
       rec_address = ''Antarctica'', rec_location = far_away,
       rec_rating = 5, rec_userRatingCount = 1, rec_featured = False \<rparr>"

text \<open>
  The outcome of the handler for the hotel, radius 1000, the recommendations
  \<open>polar_rec\<close> and \<open>walk_rec\<close> and \<open>example_provider\<close>.
\<close>

definition bun_place :: place where
  "bun_place =
     \<lparr> place_id = Some ''p2'', name = ''Bun Cha 34'', address = [], location = hotel,
       rating = 4.7, userRatingCount = 0, distance = 0, photos = [], websiteUri = [],
       types = [] \<rparr>"

definition pho_place :: place where
  "pho_place =
     \<lparr> place_id = Some ''p1'', name = ''Pho 10'', address = ''10 Ly Quoc Su, Hanoi'',
       location = hotel, rating = 4.5, userRatingCount = 0, distance = 0, photos = [],
       websiteUri = [], types = [] \<rparr>"

definition hang_bac_place :: place where
  "hang_bac_place =
     \<lparr> place_id = Some ''p3'', name = ''12 Hang Bac'', address = [], location = hotel,
       rating = 0, userRatingCount = 0, distance = 0, photos = [], websiteUri = [],
       types = [] \<rparr>"

text \<open>The places that the handler returns for \<open>landmark_provider\<close>.\<close>

definition kiosk_place :: place where
  "kiosk_place =
     \<lparr> place_id = Some ''l0'', name = ''Lakeside Kiosk'', address = [], location = hotel,
       rating = 3.9, userRatingCount = 0, distance = 0, photos = [], websiteUri = [],
       types = [] \<rparr>"

definition lake_place :: place where
  "lake_place =
     \<lparr> place_id = Some ''l1'', name = ''Hoan Kiem Lake'', address = [], location = hotel,
       rating = 4.6, userRatingCount = 0, distance = 0, photos = [], websiteUri = [],
       types = [] \<rparr>"

definition trang_tien_place :: place where
  "trang_tien_place =
     \<lparr> place_id = Some ''l2'', name = ''Trang Tien'', address = ''Hanoi Opera House, Trang Tien'',
       location = hotel, rating = 4.6, userRatingCount = 0, distance = 0, photos = [],
       websiteUri = [], types = [] \<rparr>"

definition temple_place :: place where
  "temple_place =
     \<lparr> place_id = Some ''l3'', name = ''Bach Ma Temple'', address = [], location = hotel,
       rating = 4.6, userRatingCount = 0, distance = 0, photos = [], websiteUri = [],
       types = [] \<rparr>"

definition landmark_calls :: "api_call list" where
  "landmark_calls =
     [SearchNearby 21.034087 105.85114 1000 [''restaurant''],
      SearchText 21.034087 105.85114 1000 ''restaurant dining food eat meal'',
      SearchText 21.034087 105.85114 1000 ''pho banh mi vietnamese asian italian french cafe bistro'',
      SearchNearby 21.034087 105.85114 1000 [''tourist_attraction''],
      SearchText 21.034087 105.85114 1000 ''historical landmark monument temple pagoda'',
      SearchText 21.034087 105.85114 1000 ''temple pagoda church cathedral mosque shrine'',
      SearchNearby 21.034087 105.85114 1000 [''cafe''],
      SearchText 21.034087 105.85114 1000 ''coffee shop'',
      SearchNearby 21.034087 105.85114 1000 [''museum''],
      SearchText 21.034087 105.85114 1000 ''museum gallery cultural center art exhibition heritage'',
      SearchText 21.034087 105.85114 1000 ''theater opera house concert hall performance venue'']"

definition landmark_body :: ok_body where
  "landmark_body =
     \<lparr> ok_radius = 1000,
       ok_recommend = None,
       ok_results =
         [(''restaurants'', []),
          (''landmarks'', [lake_place, trang_tien_place, temple_place, kiosk_place]),
          (''coffee'', []), (''culture'', [])],
       ok_totalPlacesFound = 4 \<rparr>"

definition example_calls :: "api_call list" where
  "example_calls =
     [SearchNearby 21.034087 105.85114 1000 [''restaurant''],
      SearchText 21.034087 105.85114 1000 ''restaurant dining food eat meal'',
      SearchText 21.034087 105.85114 1000 ''pho banh mi vietnamese asian italian french cafe bistro'',
      SearchNearby 21.034087 105.85114 1000 [''tourist_attraction''],
      SearchText 21.034087 105.85114 1000 ''historical landmark monument temple pagoda'',
      SearchText 21.034087 105.85114 1000 ''temple pagoda church cathedral mosque shrine'',
      SearchNearby 21.034087 105.85114 1000 [''cafe''],
      SearchNearby 21.034087 105.85114 1000 [''museum''],
      SearchText 21.034087 105.85114 1000 ''museum gallery cultural center art exhibition heritage'',
      SearchText 21.034087 105.85114 1000 ''theater opera house concert hall performance venue'']"

definition example_body :: ok_body where
  "example_body =
     \<lparr> ok_radius = 1000,
       ok_recommend = Some [(walk_rec, 0)],
       ok_results =
         [(''restaurants'', [bun_place, pho_place, hang_bac_place]),
          (''landmarks'', []), (''coffee'', []), (''culture'', [])],
       ok_totalPlacesFound = 3 \<rparr>"

section \<open>Auxiliary lemmas\<close>

subsection \<open>Distance and rounding\<close>

lemma calculateDistance_self: "calculateDistance lat lon lat lon = 0"
  by (simp add: calculateDistance_def atan2_def)

lemma Math_round_zero: "Math_round 0 = 0"
  by (simp add: Math_round_def)

lemma Math_round_le: "x \<le> real_of_int r \<Longrightarrow> Math_round x \<le> r"
  unfolding Math_round_def by linarith

text \<open>
  A quarter of a meridian: the distance to the point ninety degrees further south on the
  same meridian is \<open>6371000 * \<pi> / 2\<close> metres, about ten thousand kilometres.
\<close>

lemma calculateDistance_quarter:
  "calculateDistance lat lon (lat - 90) lon = 3185500 * pi"
proof -
  have s: "sin (pi / 4) * sin (pi / 4) = 1 / 2"
    by (simp add: sin_45)
  have a: "sin ((lat - 90 - lat) * pi / 180 / 2) * sin ((lat - 90 - lat) * pi / 180 / 2) = 1 / 2"
    using s by simp
  have q: "sqrt (1 / 2) > 0" by simp
  have "atan2 (sqrt (1 / 2)) (sqrt (1 - 1 / 2)) = pi / 4"
    using q by (simp add: atan2_def arctan_one)
  then show ?thesis
    unfolding calculateDistance_def Let_def a by simp
qed

lemma far_distance_eq:
  "calculateDistance 21.034087 105.85114 (- 68.965913) 105.85114 = 3185500 * pi"
  using calculateDistance_quarter [of "21.034087" "105.85114"] by simp

lemma far_distance_large: "6000000 < Math_round (3185500 * pi)"
proof -
  have "2 \<le> pi" by (rule pi_ge_two)
  then have "real_of_int 6000001 \<le> 3185500 * pi + 1 / 2" by simp
  then have "6000001 \<le> \<lfloor>3185500 * pi + 1 / 2\<rfloor>" by (simp only: le_floor_iff)
  then show ?thesis by (simp add: Math_round_def)
qed


lemma far_not_within: "r \<le> 6000000 \<Longrightarrow> \<not> Math_round (3185500 * pi) \<le> r"
  using far_distance_large by linarith

subsection \<open>The stable sort\<close>

lemma set_insert_by: "set (insert_by cmp x xs) = insert x (set xs)"
  by (induction xs) auto

lemma mset_insert_by: "mset (insert_by cmp x xs) = add_mset x (mset xs)"
  by (induction xs) auto

lemma mset_sort_by: "mset (sort_by cmp xs) = mset xs"
  by (induction xs) (auto simp: sort_by_def mset_insert_by)

lemma set_sort_by: "set (sort_by cmp xs) = set xs"
  by (metis mset_sort_by set_mset_mset)

lemma sort_by_Cons: "sort_by cmp (x # xs) = insert_by cmp x (sort_by cmp xs)"
  by (simp add: sort_by_def)

lemma sort_by_Nil: "sort_by cmp [] = []"
  by (simp add: sort_by_def)

text \<open>
  For a comparator that is total and transitive the result is sorted; elements that the
  comparator cannot tell apart keep their order; a sorted list is left unchanged.
\<close>

lemma sorted_insert_by:
  assumes tot: "\<And>a b. cmp a b \<le> 0 \<or> cmp b a \<le> 0"
    and tr: "\<And>a b c. cmp a b \<le> 0 \<Longrightarrow> cmp b c \<le> 0 \<Longrightarrow> cmp a c \<le> 0"
  shows "sorted_wrt (\<lambda>a b. cmp a b \<le> 0) xs \<Longrightarrow> sorted_wrt (\<lambda>a b. cmp a b \<le> 0) (insert_by cmp x xs)"
proof (induction xs)
  case Nil
  then show ?case by simp
next
  case (Cons y ys)
  show ?case
  proof (cases "cmp x y \<le> 0")
    case True
    with Cons.prems tr show ?thesis by auto
  next
    case False
    with tot have "cmp y x \<le> 0" by blast
    with False Cons show ?thesis by (auto simp: set_insert_by)
  qed
qed

lemma sorted_sort_by:
  assumes tot: "\<And>a b. cmp a b \<le> 0 \<or> cmp b a \<le> 0"
    and tr: "\<And>a b c. cmp a b \<le> 0 \<Longrightarrow> cmp b c \<le> 0 \<Longrightarrow> cmp a c \<le> 0"
  shows "sorted_wrt (\<lambda>a b. cmp a b \<le> 0) (sort_by cmp xs)"
proof (induction xs)
  case Nil
  show ?case by (simp add: sort_by_Nil)
next
  case (Cons x xs)
  from sorted_insert_by [of cmp "sort_by cmp xs" x] tot tr Cons
  show ?case by (simp add: sort_by_Cons)
qed

lemma filter_insert_by:
  assumes "\<And>y. P x \<Longrightarrow> P y \<Longrightarrow> cmp x y \<le> 0"
  shows "filter P (insert_by cmp x xs) = (if P x then x # filter P xs else filter P xs)"
  using assms by (induction xs) auto

lemma filter_sort_by:
  assumes "\<And>x y. P x \<Longrightarrow> P y \<Longrightarrow> cmp x y \<le> 0"
  shows "filter P (sort_by cmp xs) = filter P xs"
proof (induction xs)
  case Nil
  show ?case by (simp add: sort_by_Nil)
next
  case (Cons x xs)
  have "filter P (insert_by cmp x (sort_by cmp xs))
        = (if P x then x # filter P (sort_by cmp xs) else filter P (sort_by cmp xs))"
    by (rule filter_insert_by) (rule assms)
  with Cons show ?case by (simp add: sort_by_Cons)
qed

lemma sort_by_sorted:
  "sorted_wrt (\<lambda>a b. cmp a b \<le> 0) xs \<Longrightarrow> sort_by cmp xs = xs"
proof (induction xs)
  case Nil
  show ?case by (simp add: sort_by_Nil)
next
  case (Cons x xs)
  then have "sort_by cmp xs = xs" by simp
  moreover have "insert_by cmp x xs = x # xs"
    using Cons.prems by (cases xs) auto
  ultimately show ?case by (simp add: sort_by_Cons)
qed

lemma compare_places_le:
  "compare_places a b \<le> 0 \<longleftrightarrow> rating b < rating a \<or> (rating a = rating b \<and> distance a \<le> distance b)"
  by (auto simp: compare_places_def)

lemma compare_places_total: "compare_places a b \<le> 0 \<or> compare_places b a \<le> 0"
  unfolding compare_places_le by linarith

lemma compare_places_trans:
  "compare_places a b \<le> 0 \<Longrightarrow> compare_places b c \<le> 0 \<Longrightarrow> compare_places a c \<le> 0"
  unfolding compare_places_le by linarith

lemma compare_recommended_le: "compare_recommended a b \<le> 0 \<longleftrightarrow> snd a \<le> snd b"
  by (simp add: compare_recommended_def)

subsection \<open>De-duplication\<close>

text \<open>
  The keys of \<open>uniquePlaces\<close> are the ids of its values and are pairwise different; its
  values are the places at the positions of the input whose id is new.
\<close>

lemma fill_uniquePlaces_keys:
  "distinct (map fst m) \<Longrightarrow> list_all (\<lambda>x. fst x = place_id (snd x)) m \<Longrightarrow>
   distinct (map fst (fill_uniquePlaces m ps)) \<and>
   list_all (\<lambda>x. fst x = place_id (snd x)) (fill_uniquePlaces m ps)"
proof (induction ps arbitrary: m)
  case Nil
  then show ?case by simp
next
  case (Cons p ps)
  let ?m = "if place_id p \<in> fst ` set m then m else m @ [(place_id p, p)]"
  have "distinct (map fst ?m)"
    using Cons.prems(1) by simp
  moreover have "list_all (\<lambda>x. fst x = place_id (snd x)) ?m"
    using Cons.prems(2) by simp
  ultimately show ?case
    using Cons.IH [of ?m] by simp
qed

lemma keys_are_ids:
  "list_all (\<lambda>x. fst x = place_id (snd x)) m \<Longrightarrow> map place_id (map snd m) = map fst m"
  by (induction m) simp_all

lemma distinct_dedup: "distinct (map place_id (dedup ps))"
proof -
  have "distinct (map fst (fill_uniquePlaces [] ps))"
    and "list_all (\<lambda>x. fst x = place_id (snd x)) (fill_uniquePlaces [] ps)"
    using fill_uniquePlaces_keys [of "[]" ps] by simp_all
  then show ?thesis
    unfolding dedup_def using keys_are_ids by metis
qed

lemma first_occurrences_Cons:
  "map ((!) (p # ps))
     (filter (\<lambda>i. place_id ((p # ps) ! i) \<notin> S \<union> place_id ` set (take i (p # ps)))
        [0..<length (p # ps)])
   = (if place_id p \<in> S then [] else [p])
     @ map ((!) ps)
         (filter (\<lambda>i. place_id (ps ! i) \<notin> insert (place_id p) S \<union> place_id ` set (take i ps))
            [0..<length ps])"
proof -
  have upt: "[0..<length (p # ps)] = 0 # map Suc [0..<length ps]"
    by (simp add: upt_conv_Cons map_Suc_upt del: upt_Suc)
  have pred: "(\<lambda>i. place_id (ps ! i) \<notin> insert (place_id p) S \<union> place_id ` set (take i ps))
     = (\<lambda>i. place_id (ps ! i) \<notin> S \<and> place_id (ps ! i) \<noteq> place_id p
             \<and> place_id (ps ! i) \<notin> place_id ` set (take i ps))"
    by (rule ext) blast
  show ?thesis
    unfolding upt pred by (simp add: filter_map comp_def)
qed

lemma fill_uniquePlaces_values:
  "map snd (fill_uniquePlaces m ps) =
   map snd m @ map ((!) ps)
     (filter (\<lambda>i. place_id (ps ! i) \<notin> fst ` set m \<union> place_id ` set (take i ps)) [0..<length ps])"
proof (induction ps arbitrary: m)
  case Nil
  show ?case by simp
next
  case (Cons p ps)
  show ?case
  proof (cases "place_id p \<in> fst ` set m")
    case True
    then have eq: "insert (place_id p) (fst ` set m) = fst ` set m" by blast
    have "fill_uniquePlaces m (p # ps) = fill_uniquePlaces m ps"
      using True by simp
    moreover note first_occurrences_Cons [of p ps "fst ` set m"]
    ultimately show ?thesis
      using True Cons.IH [of m] by (simp only: eq if_True append_Nil)
  next
    case False
    have eq: "fst ` set (m @ [(place_id p, p)]) = insert (place_id p) (fst ` set m)"
      by simp
    have "fill_uniquePlaces m (p # ps) = fill_uniquePlaces (m @ [(place_id p, p)]) ps"
      using False by simp
    moreover note first_occurrences_Cons [of p ps "fst ` set m"]
    moreover have "map snd (m @ [(place_id p, p)]) = map snd m @ [p]" by simp
    ultimately show ?thesis
      using False Cons.IH [of "m @ [(place_id p, p)]"]
      by (simp only: eq if_False append_assoc)
  qed
qed

lemma dedup_first_occurrences:
  "dedup ps = map ((!) ps) (filter (\<lambda>i. place_id (ps ! i) \<notin> place_id ` set (take i ps)) [0..<length ps])"
  unfolding dedup_def fill_uniquePlaces_values by simp

lemma set_dedup_subset: "set (dedup ps) \<subseteq> set ps"
proof
  fix x
  assume "x \<in> set (dedup ps)"
  then obtain i where "i < length ps" "x = ps ! i"
    unfolding dedup_first_occurrences by auto
  then show "x \<in> set ps" by simp
qed

subsection \<open>Sub-queries and normalisation of a category\<close>

lemma textSearch_calls:
  "fst (textSearch e prov calls lat lon r q ph) = calls @ [SearchText lat lon (min r (MAX_SEARCH_RADIUS e)) q]"
  by (simp add: textSearch_def Let_def)

lemma textSearch_records:
  "x \<in> set (snd (textSearch e prov calls lat lon r q ph)) \<Longrightarrow>
   \<exists>raw. x = text_record lat lon ph raw \<and> text_keep r ph x"
  by (auto simp: textSearch_def Let_def split: sum.splits option.splits)

lemma run_text_searches_calls:
  "fst (run_text_searches e prov lat lon r texts calls acc)
   = calls @ map (\<lambda>t. SearchText lat lon (min r (MAX_SEARCH_RADIUS e)) (fst t)) texts"
proof (induction texts arbitrary: calls acc)
  case Nil
  show ?case by simp
next
  case (Cons t texts)
  obtain q ph where t: "t = (q, ph)" by (cases t)
  obtain calls' found where ts: "textSearch e prov calls lat lon r q ph = (calls', found)"
    by (cases "textSearch e prov calls lat lon r q ph")
  have "calls' = calls @ [SearchText lat lon (min r (MAX_SEARCH_RADIUS e)) q]"
    using textSearch_calls [of e prov calls lat lon r q ph] ts by simp
  then show ?case
    using Cons.IH [of calls' "acc @ found"] by (simp add: t ts)
qed

lemma run_text_searches_records:
  "x \<in> set (snd (run_text_searches e prov lat lon r texts calls acc)) \<Longrightarrow>
   x \<in> set acc \<or> (\<exists>ph raw. x = text_record lat lon ph raw \<and> text_keep r ph x)"
proof (induction texts arbitrary: calls acc)
  case Nil
  then show ?case by simp
next
  case (Cons t texts)
  obtain q ph where t: "t = (q, ph)" by (cases t)
  obtain calls' found where ts: "textSearch e prov calls lat lon r q ph = (calls', found)"
    by (cases "textSearch e prov calls lat lon r q ph")
  from Cons.prems have "x \<in> set (snd (run_text_searches e prov lat lon r texts calls' (acc @ found)))"
    by (simp add: t ts)
  then have "x \<in> set (acc @ found) \<or> (\<exists>ph raw. x = text_record lat lon ph raw \<and> text_keep r ph x)"
    by (rule Cons.IH)
  moreover have "x \<in> set found \<Longrightarrow> \<exists>raw. x = text_record lat lon ph raw \<and> text_keep r ph x"
    using textSearch_records [of x e prov calls lat lon r q ph] ts by simp
  ultimately show ?case by auto
qed

lemma run_text_searches_keeps:
  "\<exists>extra. snd (run_text_searches e prov lat lon r texts calls acc) = acc @ extra"
proof (induction texts arbitrary: calls acc)
  case Nil
  show ?case by simp
next
  case (Cons t texts)
  obtain q ph where t: "t = (q, ph)" by (cases t)
  obtain calls' found where ts: "textSearch e prov calls lat lon r q ph = (calls', found)"
    by (cases "textSearch e prov calls lat lon r q ph")
  from Cons.IH [of calls' "acc @ found"] obtain extra where
    "snd (run_text_searches e prov lat lon r texts calls' (acc @ found)) = (acc @ found) @ extra"
    by blast
  then show ?case by (simp add: t ts)
qed

lemma those_map_Some:
  "those (map f xs) = Some ys \<Longrightarrow> y \<in> set ys \<Longrightarrow> \<exists>x\<in>set xs. f x = Some y"
proof (induction xs arbitrary: ys)
  case Nil
  then show ?case by simp
next
  case (Cons x xs)
  then show ?case by (auto split: option.splits)
qed

lemma finalize_category_shape:
  assumes "finalize_category lat lon c allPlaces = Some ps"
  shows "\<exists>named. ps = sort_by compare_places (if c \<in> set dedup_categories then dedup named else named)
           \<and> (\<forall>p\<in>set named. name p \<noteq> ''Unknown Place''
                 \<and> (\<exists>x\<in>set allPlaces. to_place lat lon x = Some p))"
proof -
  from assms obtain qs where qs: "those (map (to_place lat lon) allPlaces) = Some qs"
    and ps: "ps = sort_by compare_places
                    (if c \<in> set dedup_categories
                     then dedup (filter (\<lambda>p. name p \<noteq> ''Unknown Place'') qs)
                     else filter (\<lambda>p. name p \<noteq> ''Unknown Place'') qs)"
    by (auto simp: finalize_category_def Let_def split: option.splits)
  let ?named = "filter (\<lambda>p. name p \<noteq> ''Unknown Place'') qs"
  have "\<forall>p\<in>set ?named. name p \<noteq> ''Unknown Place'' \<and> (\<exists>x\<in>set allPlaces. to_place lat lon x = Some p)"
  proof
    fix p assume "p \<in> set ?named"
    then have "name p \<noteq> ''Unknown Place''" and "p \<in> set qs" by simp_all
    with those_map_Some [OF qs] show "name p \<noteq> ''Unknown Place'' \<and> (\<exists>x\<in>set allPlaces. to_place lat lon x = Some p)"
      by blast
  qed
  with ps show ?thesis by blast
qed

lemma finalize_category_members:
  assumes "finalize_category lat lon c allPlaces = Some ps" and "p \<in> set ps"
  shows "name p \<noteq> ''Unknown Place'' \<and> (\<exists>x\<in>set allPlaces. to_place lat lon x = Some p)"
proof -
  from finalize_category_shape [OF assms(1)] obtain named where
    ps: "ps = sort_by compare_places (if c \<in> set dedup_categories then dedup named else named)"
    and named: "\<forall>p\<in>set named. name p \<noteq> ''Unknown Place''
                 \<and> (\<exists>x\<in>set allPlaces. to_place lat lon x = Some p)"
    by blast
  from assms(2) ps have "p \<in> set (if c \<in> set dedup_categories then dedup named else named)"
    by (simp add: set_sort_by)
  then have "p \<in> set named"
    using set_dedup_subset [of named] by (auto split: if_splits)
  with named show ?thesis by blast
qed

lemma search_category_error:
  assumes "prov (length calls) (SearchNearby lat lon (min r (MAX_SEARCH_RADIUS e)) (fst (search_strategies c tys))) = Inl err"
  shows "search_category e prov lat lon r c tys calls
         = (calls @ [SearchNearby lat lon (min r (MAX_SEARCH_RADIUS e)) (fst (search_strategies c tys))], None)"
  using assms
  by (cases "search_strategies c tys") (simp add: search_category_def searchNearbyPlaces_def Let_def)

lemma search_category_calls:
  "fst (search_category e prov lat lon r c tys calls)
   = calls @ (case prov (length calls) (hd (planned_calls e lat lon r (c, tys))) of
                Inl err \<Rightarrow> [hd (planned_calls e lat lon r (c, tys))]
              | Inr body \<Rightarrow> planned_calls e lat lon r (c, tys))"
proof (cases "search_strategies c tys")
  case (Pair primary texts)
  let ?call = "SearchNearby lat lon (min r (MAX_SEARCH_RADIUS e)) primary"
  show ?thesis
  proof (cases "prov (length calls) ?call")
    case (Inl err)
    then show ?thesis
      by (simp add: search_category_def searchNearbyPlaces_def Let_def Pair planned_calls_def)
  next
    case (Inr body)
    obtain calls2 allPlaces where run:
      "run_text_searches e prov lat lon r texts (calls @ [?call]) (case body of None \<Rightarrow> [] | Some ps \<Rightarrow> ps)
       = (calls2, allPlaces)"
      by (cases "run_text_searches e prov lat lon r texts (calls @ [?call]) (case body of None \<Rightarrow> [] | Some ps \<Rightarrow> ps)")
    have "calls2 = (calls @ [?call]) @ map (\<lambda>t. SearchText lat lon (min r (MAX_SEARCH_RADIUS e)) (fst t)) texts"
      using run_text_searches_calls [of e prov lat lon r texts "calls @ [?call]" "case body of None \<Rightarrow> [] | Some ps \<Rightarrow> ps"] run
      by simp
    then show ?thesis
      by (simp add: search_category_def searchNearbyPlaces_def Let_def Pair planned_calls_def Inr run)
  qed
qed

lemma search_category_Some:
  assumes "search_category e prov lat lon r c tys calls = (calls', Some ps)"
  shows "\<exists>body allPlaces.
           prov (length calls) (hd (planned_calls e lat lon r (c, tys))) = Inr body
           \<and> finalize_category lat lon c allPlaces = Some ps
           \<and> (\<forall>x\<in>set allPlaces. x \<in> set (case body of None \<Rightarrow> [] | Some xs \<Rightarrow> xs)
                 \<or> (\<exists>ph raw. x = text_record lat lon ph raw \<and> text_keep r ph x))"
proof (cases "search_strategies c tys")
  case (Pair primary texts)
  let ?call = "SearchNearby lat lon (min r (MAX_SEARCH_RADIUS e)) primary"
  show ?thesis
  proof (cases "prov (length calls) ?call")
    case (Inl err)
    with assms show ?thesis
      by (simp add: search_category_def searchNearbyPlaces_def Let_def Pair)
  next
    case (Inr body)
    let ?nearby = "case body of None \<Rightarrow> [] | Some xs \<Rightarrow> xs"
    obtain calls2 allPlaces where run:
      "run_text_searches e prov lat lon r texts (calls @ [?call]) ?nearby = (calls2, allPlaces)"
      by (cases "run_text_searches e prov lat lon r texts (calls @ [?call]) ?nearby")
    from assms have fin: "finalize_category lat lon c allPlaces = Some ps"
      by (simp add: search_category_def searchNearbyPlaces_def Let_def Pair Inr run)
    have "\<forall>x\<in>set allPlaces. x \<in> set ?nearby \<or> (\<exists>ph raw. x = text_record lat lon ph raw \<and> text_keep r ph x)"
      using run_text_searches_records [of _ e prov lat lon r texts "calls @ [?call]" ?nearby] run
      by simp
    with fin Inr show ?thesis
      by (auto simp: planned_calls_def Pair)
  qed
qed

text \<open>
  The list that a category sorts: the records of the tag-based search followed by those
  of the free-text searches, normalised, without the unnamed ones and de-duplicated.
\<close>

lemma search_category_presort:
  assumes "search_category e prov lat lon r c tys calls = (calls', Some ps)"
    and "c \<in> set dedup_categories"
  shows "\<exists>rbody allPlaces normalised.
           prov (length calls)
             (SearchNearby lat lon (min r (MAX_SEARCH_RADIUS e)) (fst (search_strategies c tys)))
             = Inr rbody
           \<and> run_text_searches e prov lat lon r (snd (search_strategies c tys))
                (calls @ [SearchNearby lat lon (min r (MAX_SEARCH_RADIUS e))
                            (fst (search_strategies c tys))])
                (case rbody of None \<Rightarrow> [] | Some xs \<Rightarrow> xs)
               = (calls', allPlaces)
           \<and> those (map (to_place lat lon) allPlaces) = Some normalised
           \<and> ps = sort_by compare_places
                    (dedup (filter (\<lambda>p. name p \<noteq> ''Unknown Place'') normalised))"
proof (cases "search_strategies c tys")
  case (Pair primary texts)
  let ?call = "SearchNearby lat lon (min r (MAX_SEARCH_RADIUS e)) primary"
  show ?thesis
  proof (cases "prov (length calls) ?call")
    case (Inl err)
    with assms(1) show ?thesis
      by (simp add: search_category_def searchNearbyPlaces_def Let_def Pair)
  next
    case (Inr rbody)
    let ?nearby = "case rbody of None \<Rightarrow> [] | Some xs \<Rightarrow> xs"
    obtain calls2 allPlaces where run:
      "run_text_searches e prov lat lon r texts (calls @ [?call]) ?nearby = (calls2, allPlaces)"
      by (cases "run_text_searches e prov lat lon r texts (calls @ [?call]) ?nearby")
    from assms(1) have c2: "calls2 = calls'"
      and fin: "finalize_category lat lon c allPlaces = Some ps"
      by (simp_all add: search_category_def searchNearbyPlaces_def Let_def Pair Inr run)
    from fin assms(2) obtain normalised where
      n: "those (map (to_place lat lon) allPlaces) = Some normalised"
      and ps: "ps = sort_by compare_places
                      (dedup (filter (\<lambda>p. name p \<noteq> ''Unknown Place'') normalised))"
      by (auto simp: finalize_category_def Let_def split: option.splits)
    from Inr run c2 n ps show ?thesis
      by (simp add: Pair)
  qed
qed

lemma set_update_subset: "set (AList.update k v al) \<subseteq> insert (k, v) (set al)"
  by (induction al) auto

lemma search_categories_results:
  assumes "search_categories e prov lat lon r cats (calls, results, tot) = (calls', results', tot')"
    and "(c, ps) \<in> set results'"
  shows "(c, ps) \<in> set results \<or> ps = []
         \<or> (\<exists>tys cs cs'. (c, tys) \<in> set cats \<and> search_category e prov lat lon r c tys cs = (cs', Some ps))"
  using assms
proof (induction cats arbitrary: calls results tot)
  case Nil
  then show ?case by simp
next
  case (Cons ct cats)
  obtain c0 tys0 where ct: "ct = (c0, tys0)" by (cases ct)
  obtain calls1 res where sc: "search_category e prov lat lon r c0 tys0 calls = (calls1, res)"
    by (cases "search_category e prov lat lon r c0 tys0 calls")
  show ?case
  proof (cases res)
    case None
    with Cons.prems sc ct have
      "search_categories e prov lat lon r cats (calls1, AList.update c0 [] results, tot) = (calls', results', tot')"
      by simp
    from Cons.IH [OF this Cons.prems(2)] set_update_subset [of c0 "[]" results]
    show ?thesis by (auto simp: ct)
  next
    case (Some qs)
    with Cons.prems sc ct have
      "search_categories e prov lat lon r cats (calls1, AList.update c0 qs results, tot + length qs) = (calls', results', tot')"
      by simp
    from Cons.IH [OF this Cons.prems(2)] set_update_subset [of c0 qs results] sc Some
    show ?thesis by (auto simp: ct)
  qed
qed

lemma search_categories_keys:
  "search_categories e prov lat lon r cats (calls, results, tot) = (calls', results', tot') \<Longrightarrow>
   fst ` set results' = fst ` set results \<union> fst ` set cats"
proof (induction cats arbitrary: calls results tot)
  case Nil
  then show ?case by simp
next
  case (Cons ct cats)
  obtain c0 tys0 where ct: "ct = (c0, tys0)" by (cases ct)
  obtain calls1 res where sc: "search_category e prov lat lon r c0 tys0 calls = (calls1, res)"
    by (cases "search_category e prov lat lon r c0 tys0 calls")
  show ?case
  proof (cases res)
    case None
    with Cons.prems sc ct have
      "search_categories e prov lat lon r cats (calls1, AList.update c0 [] results, tot) = (calls', results', tot')"
      by simp
    from Cons.IH [OF this] show ?thesis by (auto simp: ct dom_update)
  next
    case (Some qs)
    with Cons.prems sc ct have
      "search_categories e prov lat lon r cats (calls1, AList.update c0 qs results, tot + length qs) = (calls', results', tot')"
      by simp
    from Cons.IH [OF this] show ?thesis by (auto simp: ct dom_update)
  qed
qed

lemma search_categories_calls:
  "\<exists>ys. fst (search_categories e prov lat lon r cats (calls, results, tot)) = calls @ ys
        \<and> subseq ys (concat (map (planned_calls e lat lon r) cats))"
proof (induction cats arbitrary: calls results tot)
  case Nil
  show ?case by simp
next
  case (Cons ct cats)
  obtain c0 tys0 where ct: "ct = (c0, tys0)" by (cases ct)
  obtain calls1 res where sc: "search_category e prov lat lon r c0 tys0 calls = (calls1, res)"
    by (cases "search_category e prov lat lon r c0 tys0 calls")
  from search_category_calls [of e prov lat lon r c0 tys0 calls] sc
  obtain zs where zs: "calls1 = calls @ zs" "subseq zs (planned_calls e lat lon r (c0, tys0))"
    by (cases "prov (length calls) (hd (planned_calls e lat lon r (c0, tys0)))")
       (auto simp: planned_calls_def)
  obtain results1 tot1 where step:
    "search_categories e prov lat lon r (ct # cats) (calls, results, tot)
     = search_categories e prov lat lon r cats (calls1, results1, tot1)"
    using sc by (cases res) (auto simp: ct)
  from Cons.IH [of calls1 results1 tot1] obtain ys where
    ys: "fst (search_categories e prov lat lon r cats (calls1, results1, tot1)) = calls1 @ ys"
        "subseq ys (concat (map (planned_calls e lat lon r) cats))"
    by blast
  have "subseq (zs @ ys) (planned_calls e lat lon r (c0, tys0) @ concat (map (planned_calls e lat lon r) cats))"
    using zs(2) ys(2) by (rule list_emb_append_mono)
  then show ?case
    using step ys(1) zs(1) by (auto simp: ct)
qed

subsection \<open>The handler\<close>

lemma search_nearby_rejects:
  "req_latitude req = None \<or> req_longitude req = None
   \<or> req_latitude req = Some 0 \<or> req_longitude req = Some 0 \<Longrightarrow>
   search_nearby e recs prov req = ([], Status400_coordinates_required)"
  by (auto simp: search_nearby_def Let_def split: option.splits)

lemma search_nearby_valid:
  assumes "req_latitude req = Some lat" "req_longitude req = Some lon" "lat \<noteq> 0" "lon \<noteq> 0"
    and "api_key_present e"
  shows "\<exists>calls0 results tot.
           search_categories e prov lat lon
             (min (parseInt_number e (case req_radius req of None \<Rightarrow> DEFAULT_SEARCH_RADIUS e | Some r \<Rightarrow> r)) (MAX_SEARCH_RADIUS e))
             PLACE_TYPES ([], [], 0) = (calls0, results, tot)
           \<and> search_nearby e recs prov req =
               ((if tot = 0 then calls0 @ [GeocodeProbe lat lon] else calls0),
                Status200 \<lparr> ok_radius = min (parseInt_number e (case req_radius req of None \<Rightarrow> DEFAULT_SEARCH_RADIUS e | Some r \<Rightarrow> r)) (MAX_SEARCH_RADIUS e),
                            ok_recommend =
                              (let found = recommendationsWithDistance lat lon
                                   (min (parseInt_number e (case req_radius req of None \<Rightarrow> DEFAULT_SEARCH_RADIUS e | Some r \<Rightarrow> r)) (MAX_SEARCH_RADIUS e)) recs
                               in if 0 < length recs \<and> 0 < length found then Some found else None),
                            ok_results = results,
                            ok_totalPlacesFound = tot \<rparr>)"
proof -
  let ?r = "min (parseInt_number e (case req_radius req of None \<Rightarrow> DEFAULT_SEARCH_RADIUS e | Some r \<Rightarrow> r)) (MAX_SEARCH_RADIUS e)"
  obtain calls0 results tot where
    sc: "search_categories e prov lat lon ?r PLACE_TYPES ([], [], 0) = (calls0, results, tot)"
    by (cases "search_categories e prov lat lon ?r PLACE_TYPES ([], [], 0)") auto
  then show ?thesis
    using assms by (simp add: search_nearby_def Let_def)
qed

lemma search_nearby_Status200:
  assumes "search_nearby e recs prov req = (calls, Status200 body)"
  shows "\<exists>lat lon calls0.
           req_latitude req = Some lat \<and> req_longitude req = Some lon \<and> lat \<noteq> 0 \<and> lon \<noteq> 0
           \<and> api_key_present e
           \<and> ok_radius body = min (parseInt_number e (case req_radius req of None \<Rightarrow> DEFAULT_SEARCH_RADIUS e | Some r \<Rightarrow> r)) (MAX_SEARCH_RADIUS e)
           \<and> search_categories e prov lat lon (ok_radius body) PLACE_TYPES ([], [], 0)
               = (calls0, ok_results body, ok_totalPlacesFound body)
           \<and> calls = (if ok_totalPlacesFound body = 0 then calls0 @ [GeocodeProbe lat lon] else calls0)
           \<and> ok_recommend body =
               (let found = recommendationsWithDistance lat lon (ok_radius body) recs
                in if 0 < length recs \<and> 0 < length found then Some found else None)"
proof -
  from assms obtain lat lon where c: "req_latitude req = Some lat" "req_longitude req = Some lon"
    by (auto simp: search_nearby_def Let_def split: option.splits)
  from assms c have nz: "lat \<noteq> 0" "lon \<noteq> 0" and key: "api_key_present e"
    by (auto simp: search_nearby_def Let_def split: if_splits)
  from search_nearby_valid [OF c nz key, of prov recs] assms
  show ?thesis using c nz key by auto
qed

text \<open>The first call of the loop is the tag-based search of the first category.\<close>

lemma search_categories_first_call:
  "\<exists>ys. fst (search_categories e prov lat lon r ((c, tys) # cats) ([], results, tot))
        = hd (planned_calls e lat lon r (c, tys)) # ys"
proof -
  obtain calls1 res where sc: "search_category e prov lat lon r c tys [] = (calls1, res)"
    by (cases "search_category e prov lat lon r c tys []")
  from search_category_calls [of e prov lat lon r c tys "[]"] sc
  obtain zs where zs: "calls1 = hd (planned_calls e lat lon r (c, tys)) # zs"
    by (cases "prov (length ([]::api_call list)) (hd (planned_calls e lat lon r (c, tys)))")
       (auto simp: planned_calls_def)
  obtain results1 tot1 where step:
    "search_categories e prov lat lon r ((c, tys) # cats) ([], results, tot)
     = search_categories e prov lat lon r cats (calls1, results1, tot1)"
    using sc by (cases res) auto
  from search_categories_calls [of e prov lat lon r cats calls1 results1 tot1] obtain ys where
    "fst (search_categories e prov lat lon r cats (calls1, results1, tot1)) = calls1 @ ys"
    by blast
  with step zs show ?thesis by simp
qed

subsection \<open>The lists of a successful response\<close>

text \<open>
  A list under a category key is empty (the category threw) or the result of
  \<open>search_category\<close> for an entry of \<open>PLACE_TYPES\<close>.
\<close>

lemma category_list_cases:
  assumes "search_nearby e recs prov req = (calls, Status200 body)"
    and "(c, ps) \<in> set (ok_results body)"
  shows "ps = [] \<or> (\<exists>lat lon tys cs cs'. req_latitude req = Some lat \<and> req_longitude req = Some lon
            \<and> (c, tys) \<in> set PLACE_TYPES
            \<and> search_category e prov lat lon (ok_radius body) c tys cs = (cs', Some ps))"
proof -
  from search_nearby_Status200 [OF assms(1)] obtain lat lon calls0 where
    c: "req_latitude req = Some lat" "req_longitude req = Some lon"
    and sc: "search_categories e prov lat lon (ok_radius body) PLACE_TYPES ([], [], 0)
             = (calls0, ok_results body, ok_totalPlacesFound body)"
    by blast
  from search_categories_results [OF sc assms(2)] c show ?thesis by auto
qed

lemma category_list_ranked:
  assumes "search_nearby e recs prov req = (calls, Status200 body)"
    and "(c, ps) \<in> set (ok_results body)"
  shows "\<exists>unique. ps = sort_by compare_places unique"
proof -
  from category_list_cases [OF assms] show ?thesis
  proof
    assume "ps = []"
    then have "ps = sort_by compare_places []" by (simp add: sort_by_Nil)
    then show ?thesis by blast
  next
    assume "\<exists>lat lon tys cs cs'. req_latitude req = Some lat \<and> req_longitude req = Some lon
            \<and> (c, tys) \<in> set PLACE_TYPES
            \<and> search_category e prov lat lon (ok_radius body) c tys cs = (cs', Some ps)"
    then obtain lat lon tys cs cs' where
      "search_category e prov lat lon (ok_radius body) c tys cs = (cs', Some ps)" by blast
    from search_category_Some [OF this] obtain allPlaces where
      "finalize_category lat lon c allPlaces = Some ps" by blast
    from finalize_category_shape [OF this] show ?thesis by blast
  qed
qed

lemma sorted_ranked:
  "sorted_wrt (\<lambda>a b. rating b < rating a \<or> (rating a = rating b \<and> distance a \<le> distance b))
     (sort_by compare_places xs)"
  using sorted_sort_by [of compare_places xs] compare_places_total compare_places_trans
  by (simp add: compare_places_le)

lemma distinct_map_sort_by:
  "distinct (map f (sort_by cmp xs)) = distinct (map f xs)"
proof -
  have "mset (map f (sort_by cmp xs)) = mset (map f xs)"
    by (simp add: mset_sort_by)
  then show ?thesis by (rule mset_eq_imp_distinct_iff)
qed

lemma dedup_categories_cover: "(c, tys) \<in> set PLACE_TYPES \<Longrightarrow> c \<in> set dedup_categories"
  by (auto simp: PLACE_TYPES_def dedup_categories_def)

lemma category_list_deduplicated:
  assumes "search_nearby e recs prov req = (calls, Status200 body)"
    and "(c, ps) \<in> set (ok_results body)"
  shows "\<exists>merged. ps = sort_by compare_places (dedup merged)"
proof -
  from category_list_cases [OF assms] show ?thesis
  proof
    assume "ps = []"
    then have "ps = sort_by compare_places (dedup [])" by (simp add: sort_by_Nil dedup_def)
    then show ?thesis by blast
  next
    assume "\<exists>lat lon tys cs cs'. req_latitude req = Some lat \<and> req_longitude req = Some lon
            \<and> (c, tys) \<in> set PLACE_TYPES
            \<and> search_category e prov lat lon (ok_radius body) c tys cs = (cs', Some ps)"
    then obtain lat lon tys cs cs' where
      c: "(c, tys) \<in> set PLACE_TYPES"
      and sc: "search_category e prov lat lon (ok_radius body) c tys cs = (cs', Some ps)" by blast
    from search_category_Some [OF sc] obtain allPlaces where
      "finalize_category lat lon c allPlaces = Some ps" by blast
    from finalize_category_shape [OF this] dedup_categories_cover [OF c]
    show ?thesis by auto
  qed
qed

lemma recommend_ids:
  "map (rec_id \<circ> fst) (filter (\<lambda>x. snd x \<le> r) (map (\<lambda>x. (x, f x)) recs))
   = map rec_id (filter (\<lambda>x. f x \<le> r) recs)"
  by (induction recs) auto

lemma distinct_recommend_ids:
  assumes "distinct (map rec_id recs)"
  shows "distinct (map (rec_id \<circ> fst) (recommendationsWithDistance lat lon r recs))"
  unfolding recommendationsWithDistance_def distinct_map_sort_by recommend_ids
  using assms by (rule distinct_map_filter)

lemma text_record_within:
  assumes "text_keep r ph (text_record lat lon ph raw)"
    and "to_place lat lon (text_record lat lon ph raw) = Some p"
  shows "distance p \<le> r"
proof -
  let ?la = "case raw_location raw of None \<Rightarrow> 0 | Some l \<Rightarrow> latitude l"
  let ?lo = "case raw_location raw of None \<Rightarrow> 0 | Some l \<Rightarrow> longitude l"
  from assms(1) have "calculateDistance lat lon ?la ?lo \<le> real_of_int r"
    by (simp add: text_keep_def text_record_def)
  then have "Math_round (calculateDistance lat lon ?la ?lo) \<le> r"
    by (rule Math_round_le)
  moreover from assms(2) have "distance p = Math_round (calculateDistance lat lon ?la ?lo)"
    by (cases "raw_location raw") (auto simp: to_place_def text_record_def)
  ultimately show ?thesis by simp
qed

lemma recommended_within:
  "x \<in> set (recommendationsWithDistance lat lon r recs) \<Longrightarrow> snd x \<le> r"
  by (simp add: recommendationsWithDistance_def set_sort_by)

lemma sorted_recommended:
  "sorted (map snd (sort_by compare_recommended xs))"
proof -
  have "sorted_wrt (\<lambda>a b. compare_recommended a b \<le> 0) (sort_by compare_recommended xs)"
    by (rule sorted_sort_by) (auto simp: compare_recommended_le)
  then show ?thesis
    by (simp add: compare_recommended_le sorted_map)
qed

subsection \<open>The calls of an invocation\<close>

text \<open>
  The calls of an invocation form a subsequence of the plans of the four categories,
  followed by the connectivity test when nothing was found; these calls are pairwise
  different.
\<close>

lemma planned_distinct:
  "distinct (concat (map (planned_calls e lat lon r) PLACE_TYPES) @ [GeocodeProbe lat lon])"
  by (simp add: PLACE_TYPES_def planned_calls_def search_strategies_def)

lemma subseq_distinct:
  assumes "subseq xs ys" and "distinct ys"
  shows "distinct xs"
proof -
  from assms(1) have "xs \<in> set (subseqs ys)" by (simp add: set_subseqs_eq)
  then show ?thesis using assms(2) by (rule subseqs_distinctD)
qed

lemma search_nearby_calls_distinct: "distinct (fst (search_nearby e recs prov req))"
proof (cases "\<exists>body. snd (search_nearby e recs prov req) = Status200 body")
  case True
  then obtain calls body where run: "search_nearby e recs prov req = (calls, Status200 body)"
    by (cases "search_nearby e recs prov req") auto
  from search_nearby_Status200 [OF run] obtain lat lon calls0 where
    sc: "search_categories e prov lat lon (ok_radius body) PLACE_TYPES ([], [], 0)
         = (calls0, ok_results body, ok_totalPlacesFound body)"
    and calls: "calls = (if ok_totalPlacesFound body = 0 then calls0 @ [GeocodeProbe lat lon] else calls0)"
    by blast
  from search_categories_calls [of e prov lat lon "ok_radius body" PLACE_TYPES "[]" "[]" 0] sc
  have "subseq calls0 (concat (map (planned_calls e lat lon (ok_radius body)) PLACE_TYPES))"
    by simp
  then have "subseq (calls0 @ [GeocodeProbe lat lon])
               (concat (map (planned_calls e lat lon (ok_radius body)) PLACE_TYPES) @ [GeocodeProbe lat lon])"
    and "subseq calls0
               (concat (map (planned_calls e lat lon (ok_radius body)) PLACE_TYPES) @ [GeocodeProbe lat lon])"
    by (simp_all add: subseq_rev_drop_many)
  then have "distinct (calls0 @ [GeocodeProbe lat lon])" and "distinct calls0"
    using planned_distinct subseq_distinct by blast+
  with calls run show ?thesis by simp
next
  case False
  then have "fst (search_nearby e recs prov req) = []"
    by (auto simp: search_nearby_def Let_def split: option.splits prod.splits)
  then show ?thesis by simp
qed

text \<open>Every search of an invocation carries the radius of the handler.\<close>

lemma planned_radius:
  "call \<in> set (concat (map (planned_calls e lat lon r) cats)) \<Longrightarrow>
   call_radius call = Some (min r (MAX_SEARCH_RADIUS e))"
  by (auto simp: planned_calls_def call_radius_def)

lemma search_categories_radius:
  assumes "search_categories e prov lat lon r cats ([], results, tot) = (calls', results', tot')"
    and "call \<in> set calls'"
  shows "call_radius call = Some (min r (MAX_SEARCH_RADIUS e))"
proof -
  from search_categories_calls [of e prov lat lon r cats "[]" results tot] assms(1)
  have "subseq calls' (concat (map (planned_calls e lat lon r) cats))" by simp
  from list_emb_set [OF this assms(2)]
  have "call \<in> set (concat (map (planned_calls e lat lon r) cats))" by blast
  then show ?thesis by (rule planned_radius)
qed

lemma textSearch_error:
  assumes "prov (length calls) (SearchText lat lon (min r (MAX_SEARCH_RADIUS e)) q) = Inl err"
  shows "textSearch e prov calls lat lon r q ph
         = (calls @ [SearchText lat lon (min r (MAX_SEARCH_RADIUS e)) q], [])"
  using assms by (simp add: textSearch_def Let_def)

lemma search_nearby_completes:
  assumes "req_latitude req = Some lat" "req_longitude req = Some lon" "lat \<noteq> 0" "lon \<noteq> 0"
    and "api_key_present e"
  shows "\<exists>calls body. search_nearby e recs prov req = (calls, Status200 body)
           \<and> fst ` set (ok_results body) = fst ` set PLACE_TYPES"
proof -
  from search_nearby_valid [OF assms, of prov recs] obtain calls body where
    run: "search_nearby e recs prov req = (calls, Status200 body)" by blast
  from search_nearby_Status200 [OF run] obtain lat' lon' calls0 where
    "search_categories e prov lat' lon' (ok_radius body) PLACE_TYPES ([], [], 0)
         = (calls0, ok_results body, ok_totalPlacesFound body)" by blast
  from search_categories_keys [OF this] run show ?thesis by simp
qed

subsection \<open>Name resolution\<close>

text \<open>
  The two loops of the name resolution are searches for the first suitable element, and
  a blank address has no suitable segment. Outside the case of a non-blank address
  without a suitable segment the chain of the source is the four-tier fallback.
\<close>

lemma name_from_address_parts_find:
  "name_from_address_parts parts
   = (case find (segment_ok mentions_token) (map trim parts) of None \<Rightarrow> ''Unknown Place'' | Some s \<Rightarrow> s)"
  by (induction parts) (auto simp: Let_def segment_ok_def mentions_token_def)

lemma name_from_types_label:
  "list_all (\<lambda>t. Object_prototype t = None) ts \<Longrightarrow>
   name_from_types loc ts = (case tag_label loc ts of None \<Rightarrow> ''Unknown Place'' | Some n \<Rightarrow> n)"
  by (induction ts) (auto simp: tag_label_def typeMap_def split: option.splits)

lemma starts_with_append: "starts_with s w \<Longrightarrow> s = w @ drop (length w) s"
  by (induction s w rule: starts_with.induct) auto

lemma strip_leading_bytes:
  "[] \<notin> set ws \<Longrightarrow> set s \<subseteq> set (strip_leading ws s) \<union> \<Union> (set ` set ws)"
proof (induction ws s rule: strip_leading.induct)
  case (1 ws)
  show ?case by simp
next
  case (2 ws c s)
  show ?case
  proof (cases "find (starts_with (c # s)) ws")
    case None
    then have same: "strip_leading ws (c # s) = c # s" by simp
    show ?thesis unfolding same by blast
  next
    case (Some w)
    then have w: "w \<in> set ws" and sw: "starts_with (c # s) w"
      by (auto simp: find_Some_iff)
    from w "2.prems" have ne: "w \<noteq> []" by blast
    from starts_with_append [OF sw] have "c # s = w @ drop (length w) (c # s)" .
    with ne have split: "c # s = w @ drop (length w - 1) s"
      by (cases w) simp_all
    have ih: "set (drop (length w - 1) s)
            \<subseteq> set (strip_leading ws (drop (length w - 1) s)) \<union> \<Union> (set ` set ws)"
      using "2.IH" [OF Some "2.prems"] .
    have st: "strip_leading ws (c # s) = strip_leading ws (drop (length w - 1) s)"
      using Some by simp
    have "set (c # s) = set w \<union> set (drop (length w - 1) s)"
      using split by (metis set_append)
    moreover have "set w \<subseteq> \<Union> (set ` set ws)"
      using w by blast
    ultimately have "set (c # s)
        \<subseteq> set (strip_leading ws (drop (length w - 1) s)) \<union> \<Union> (set ` set ws)"
      using ih by blast
    then show ?thesis
      unfolding st .
  qed
qed

lemma trim_Nil: "trim [] = []"
  by (simp add: trim_def)

lemma blank_has_no_comma:
  assumes "trim s = []"
  shows "CHR '','' \<notin> set s"
proof -
  have e1: "[] \<notin> set white_space" and e2: "[] \<notin> set (map rev white_space)"
    by (simp_all add: white_space_def)
  have c1: "CHR '','' \<notin> \<Union> (set ` set white_space)"
    and c2: "CHR '','' \<notin> \<Union> (set ` set (map rev white_space))"
    by (simp_all add: white_space_def)
  from assms have "strip_leading (map rev white_space) (rev (strip_leading white_space s)) = []"
    by (simp add: trim_def)
  with strip_leading_bytes [OF e2, of "rev (strip_leading white_space s)"]
  have "set (strip_leading white_space s) \<subseteq> \<Union> (set ` set (map rev white_space))"
    by simp
  with c2 have "CHR '','' \<notin> set (strip_leading white_space s)" by blast
  with strip_leading_bytes [OF e1, of s] c1 show ?thesis by blast
qed

lemma split_on_absent: "c \<notin> set s \<Longrightarrow> split_on c s = [s]"
  by (induction s) auto

lemma no_segment_in_blank: "find (segment_ok excluded) [[]] = None"
  by (simp add: segment_ok_def)

lemma blank_has_no_segment:
  assumes "\<not> nonblank x"
  shows "find (segment_ok excluded)
           (map trim (split_on CHR '','' (case x of None \<Rightarrow> [] | Some s \<Rightarrow> s))) = None"
proof (cases x)
  case None
  have "map trim (split_on CHR '','' []) = [[]]"
    by (simp add: trim_Nil)
  then show ?thesis
    unfolding None by (simp only: option.case no_segment_in_blank)
next
  case (Some s)
  with assms have t: "trim s = []" by (simp add: nonblank_def)
  then have "CHR '','' \<notin> set s" by (rule blank_has_no_comma)
  then have "split_on CHR '','' s = [s]" by (rule split_on_absent)
  then have "map trim (split_on CHR '','' s) = [[]]"
    using t by simp
  then show ?thesis
    unfolding Some by (simp only: option.case no_segment_in_blank)
qed

lemma blank_trim:
  "\<not> nonblank x \<Longrightarrow> trim (case x of None \<Rightarrow> [] | Some s \<Rightarrow> s) = []"
  by (cases x) (simp_all add: nonblank_def trim_Nil)

lemma nonblank_trim:
  "nonblank x \<Longrightarrow> trim (case x of None \<Rightarrow> [] | Some s \<Rightarrow> s) \<noteq> []
     \<and> str_or x [] = (case x of None \<Rightarrow> [] | Some s \<Rightarrow> s)"
  by (cases x) (auto simp: nonblank_def str_or_def)

lemma str_or_Nil: "str_or x [] = (case x of None \<Rightarrow> [] | Some s \<Rightarrow> s)"
  by (cases x) (simp_all add: str_or_def)

lemma resolve_placeName_four_tier:
  assumes "\<not> (\<not> nonblank (raw_displayName_text p) \<and> \<not> nonblank (raw_name p)
              \<and> nonblank (raw_formattedAddress p)
              \<and> find (segment_ok mentions_token)
                    (map trim (split_on CHR '','' (str_or (raw_formattedAddress p) []))) = None)"
    and plain: "list_all (\<lambda>t. Object_prototype t = None)
                  (case raw_types p of None \<Rightarrow> [] | Some ts \<Rightarrow> ts)"
  shows "resolve_placeName p loc
         = (case four_tier_name mentions_token p loc of None \<Rightarrow> ''Unknown Place'' | Some n \<Rightarrow> n)"
proof (cases "nonblank (raw_displayName_text p)")
  case True
  then show ?thesis
    using nonblank_trim [OF True]
    by (simp add: resolve_placeName_def four_tier_name_def Let_def)
next
  case dn: False
  show ?thesis
  proof (cases "nonblank (raw_name p)")
    case True
    then show ?thesis
      using nonblank_trim [OF True] blank_trim [OF dn]
      by (simp add: resolve_placeName_def four_tier_name_def Let_def dn)
  next
    case nm: False
    show ?thesis
    proof (cases "nonblank (raw_formattedAddress p)")
      case True
      with assms(1) dn nm obtain s where
        "find (segment_ok mentions_token)
           (map trim (split_on CHR '','' (case raw_formattedAddress p of None \<Rightarrow> [] | Some s \<Rightarrow> s))) = Some s"
        by (auto simp: str_or_Nil)
      then show ?thesis
        using True blank_trim [OF dn] blank_trim [OF nm]
        by (simp add: resolve_placeName_def four_tier_name_def Let_def dn nm
              name_from_address_parts_find str_or_Nil)
    next
      case fa: False
      show ?thesis
      proof (cases "raw_types p")
        case None
        then show ?thesis
          using blank_trim [OF dn] blank_trim [OF nm] blank_has_no_segment [OF fa, of mentions_token]
          by (simp add: resolve_placeName_def four_tier_name_def Let_def dn nm fa tag_label_def)
      next
        case (Some ts)
        with plain have "list_all (\<lambda>t. Object_prototype t = None) ts" by simp
        from name_from_types_label [OF this, of loc] Some show ?thesis
          using blank_trim [OF dn] blank_trim [OF nm] blank_has_no_segment [OF fa, of mentions_token]
          by (cases ts)
             (simp_all add: resolve_placeName_def four_tier_name_def Let_def dn nm fa tag_label_def)
      qed
    qed
  qed
qed

lemma four_tier_none:
  assumes "four_tier_name mentions_token p loc = None"
    and plain: "list_all (\<lambda>t. Object_prototype t = None)
                  (case raw_types p of None \<Rightarrow> [] | Some ts \<Rightarrow> ts)"
  shows "resolve_placeName p loc = ''Unknown Place''"
proof (cases "\<not> nonblank (raw_displayName_text p) \<and> \<not> nonblank (raw_name p)
              \<and> nonblank (raw_formattedAddress p)
              \<and> find (segment_ok mentions_token)
                    (map trim (split_on CHR '','' (str_or (raw_formattedAddress p) []))) = None")
  case True
  then show ?thesis
    by (simp add: resolve_placeName_def name_from_address_parts_find)
next
  case False
  from resolve_placeName_four_tier [OF False plain] assms(1) show ?thesis by simp
qed

lemma name_from_address_parts_nonempty: "name_from_address_parts parts \<noteq> []"
  by (induction parts) (auto simp: Let_def)

lemma name_from_types_nonempty: "name_from_types loc ts \<noteq> []"
  by (induction ts) (auto split: option.splits)

lemma resolve_placeName_nonempty: "resolve_placeName p loc \<noteq> []"
proof -
  have "nonblank x \<Longrightarrow> trim (str_or x []) \<noteq> []" for x
    using nonblank_trim [of x] by simp
  then show ?thesis
    by (auto simp: resolve_placeName_def name_from_address_parts_nonempty name_from_types_nonempty)
qed

lemma to_place_name: "to_place lat lon x = Some p \<Longrightarrow> name p = resolve_placeName x (location p)"
  by (cases "raw_location x") (auto simp: to_place_def)

lemma text_record_name:
  "\<exists>q. to_place lat lon (text_record lat lon ph raw) = Some q
      \<and> name q = (if 0 < length (trim (text_placeName ph raw)) then trim (text_placeName ph raw)
                  else ''Unknown Place'')"
  by (simp add: to_place_def text_record_def resolve_placeName_def nonblank_def str_or_def)

text \<open>The records that a free-text search contributes lie within the radius.\<close>

lemma textSearch_within:
  assumes "q \<in> set (snd (textSearch e prov cs lat lon r query placeholder))"
  shows "\<exists>p. to_place lat lon q = Some p \<and> distance p \<le> r"
proof -
  from textSearch_records [OF assms] obtain raw where
    q: "q = text_record lat lon placeholder raw" and keep: "text_keep r placeholder q" by blast
  from text_record_name [of lat lon placeholder raw] q obtain p where
    p: "to_place lat lon q = Some p" by auto
  from keep p have "distance p \<le> r"
    unfolding q by (rule text_record_within)
  with p show ?thesis by blast
qed

lemma category_names:
  assumes "search_nearby e recs prov req = (calls, Status200 body)"
    and "(c, ps) \<in> set (ok_results body)" and "p \<in> set ps"
  shows "name p \<noteq> [] \<and> name p \<noteq> ''Unknown Place''"
proof -
  from category_list_cases [OF assms(1,2)] assms(3) obtain lat lon tys cs cs' where
    "search_category e prov lat lon (ok_radius body) c tys cs = (cs', Some ps)" by auto
  from search_category_Some [OF this] obtain allPlaces where
    "finalize_category lat lon c allPlaces = Some ps" by blast
  from finalize_category_members [OF this assms(3)] obtain x where
    "name p \<noteq> ''Unknown Place''" "to_place lat lon x = Some p" by blast
  then show ?thesis
    using to_place_name [of lat lon x p] resolve_placeName_nonempty by simp
qed

subsection \<open>Evaluation\<close>

text \<open>The equations that evaluate the handler at a concrete input.\<close>

lemmas run_defs = status_of_def results_of_def recommend_of_def search_nearby_def search_category_def search_strategies_def searchNearbyPlaces_def
  textSearch_def finalize_category_def PLACE_TYPES_def recommendationsWithDistance_def
  sort_by_def dedup_def dedup_categories_def Let_def
  text_record_def text_keep_def text_placeName_def truthy_str_def str_or_def num_or_def
  to_place_def resolve_placeName_def nonblank_def trim_def white_space_def match_leading_digits_def is_digit_def
  compare_places_def compare_recommended_def
  four_tier_name_def tag_label_def segment_ok_def is_token_def mentions_token_def typeMap_def typeMap_own_def Object_prototype_def
  parseInt_number_def call_radius_def
  toFixed4_def show_nat.simps
  calculateDistance_self Math_round_zero far_distance_eq [simplified] far_not_within

lemmas example_defs = example_env_def hotel_def far_away_def hotel_request_def empty_record_def pho_record_def
  bun_record_def pho_again_def address_only_def giang_record_def far_record_def example_provider_def
  silent_provider_def far_provider_def walk_rec_def temple_rec_def polar_rec_def
  limited_provider_def zero_cafe_provider_def quarter_record_def tagged_record_def
  constructor_record_def numbered_record_def unnamed_provider_def kiosk_record_def lake_record_def opera_record_def temple_record_def
  landmark_provider_def kiosk_place_def lake_place_def trang_tien_place_def temple_place_def
  landmark_calls_def landmark_body_def bun_place_def pho_place_def hang_bac_place_def example_calls_def example_body_def

lemma example_run:
  "search_nearby example_env [polar_rec, walk_rec] example_provider (hotel_request 1000)
   = (example_calls, Status200 example_body)"
  by (simp add: run_defs example_defs)

lemma landmark_run:
  "search_nearby example_env [] landmark_provider (hotel_request 1000)
   = (landmark_calls, Status200 landmark_body)"
  by (simp add: run_defs example_defs)

lemma unnamed_coffee:
  "map (\<lambda>p. (place_id p, name p))
     (results_of (search_nearby example_env [] unnamed_provider (hotel_request 1000)) ''coffee'')
   = [(Some ''p6'', ''function Object() { [native code] } at 21.0341,105.8511'')]"
  by (simp add: run_defs example_defs)

section \<open>The claims\<close>

subsection \<open>Validation of the request\<close>

text \<open>
  Claim C9. A request whose latitude or longitude is the number zero is answered with
  status 400 and without any provider call, for every radius, configuration, provider and
  set of recommendations.
\<close>

theorem zero_coordinate_rejected:
  "req_latitude req = Some 0 \<or> req_longitude req = Some 0 \<Longrightarrow>
   search_nearby e recs prov req = ([], Status400_coordinates_required)"
  by (rule search_nearby_rejects) blast

text \<open>Claim C9 at a request on the equator.\<close>

theorem zero_coordinate_rejected_witness:
  "(req_latitude \<lparr> req_latitude = Some 0, req_longitude = Some 105.85114, req_radius = Some 1000 \<rparr> = Some 0
    \<or> req_longitude \<lparr> req_latitude = Some 0, req_longitude = Some 105.85114, req_radius = Some 1000 \<rparr> = Some 0)
   \<and> search_nearby example_env [walk_rec] example_provider
         \<lparr> req_latitude = Some 0, req_longitude = Some 105.85114, req_radius = Some 1000 \<rparr>
       = ([], Status400_coordinates_required)"
  using zero_coordinate_rejected
    [of "\<lparr> req_latitude = Some 0, req_longitude = Some 105.85114, req_radius = Some 1000 \<rparr>"
        example_env "[walk_rec]" example_provider]
  by simp

text \<open>
  Claim C6 as stated fails for the radius: a request with valid coordinates and radius
  \<open>0\<close> is answered with status 200 after all eleven searches and the connectivity test
  were issued with radius \<open>0\<close>.
\<close>

theorem nonpositive_radius_counterexample:
  "(0::int) \<le> 0
   \<and> status_of (search_nearby example_env [] silent_provider (hotel_request 0)) = 200
   \<and> fst (search_nearby example_env [] silent_provider (hotel_request 0))
       = [SearchNearby 21.034087 105.85114 0 [''restaurant''],
          SearchText 21.034087 105.85114 0 ''restaurant dining food eat meal'',
          SearchText 21.034087 105.85114 0 ''pho banh mi vietnamese asian italian french cafe bistro'',
          SearchNearby 21.034087 105.85114 0 [''tourist_attraction''],
          SearchText 21.034087 105.85114 0 ''historical landmark monument temple pagoda'',
          SearchText 21.034087 105.85114 0 ''temple pagoda church cathedral mosque shrine'',
          SearchNearby 21.034087 105.85114 0 [''cafe''],
          SearchText 21.034087 105.85114 0 ''coffee shop'',
          SearchNearby 21.034087 105.85114 0 [''museum''],
          SearchText 21.034087 105.85114 0 ''museum gallery cultural center art exhibition heritage'',
          SearchText 21.034087 105.85114 0 ''theater opera house concert hall performance venue'',
          GeocodeProbe 21.034087 105.85114]"
  by (simp add: run_defs example_defs)

text \<open>
  Claim C6, amended. A request with a missing or zero latitude or longitude is answered
  with status 400 before any provider call. The radius is not validated: with valid
  coordinates and a configured key the handler answers with status 200 for every radius,
  also a non-positive one. It only takes the minimum of \<open>parseInt(radius)\<close> and
  \<open>MAX_SEARCH_RADIUS\<close>, reports that radius, starts with the tag-based restaurant search
  and issues every search of the invocation with that radius.
\<close>

theorem coordinates_checked_radius_clamped:
  "(req_latitude req = None \<or> req_longitude req = None
      \<or> req_latitude req = Some 0 \<or> req_longitude req = Some 0
    \<longrightarrow> search_nearby e recs prov req = ([], Status400_coordinates_required))
   \<and> (req_latitude req = Some lat \<and> req_longitude req = Some lon \<and> lat \<noteq> 0 \<and> lon \<noteq> 0
        \<and> api_key_present e
      \<longrightarrow> (\<exists>calls body.
             search_nearby e recs prov req
               = (SearchNearby lat lon
                    (min (parseInt_number e
                            (case req_radius req of None \<Rightarrow> DEFAULT_SEARCH_RADIUS e | Some r \<Rightarrow> r))
                         (MAX_SEARCH_RADIUS e))
                    [''restaurant''] # calls,
                  Status200 body)
             \<and> ok_radius body
                 = min (parseInt_number e
                          (case req_radius req of None \<Rightarrow> DEFAULT_SEARCH_RADIUS e | Some r \<Rightarrow> r))
                       (MAX_SEARCH_RADIUS e)
             \<and> (\<forall>call\<in>set calls.
                    call_radius call = Some (ok_radius body) \<or> call = GeocodeProbe lat lon)))"
proof (intro conjI impI)
  assume "req_latitude req = None \<or> req_longitude req = None
          \<or> req_latitude req = Some 0 \<or> req_longitude req = Some 0"
  then show "search_nearby e recs prov req = ([], Status400_coordinates_required)"
    by (rule search_nearby_rejects)
next
  let ?r = "min (parseInt_number e (case req_radius req of None \<Rightarrow> DEFAULT_SEARCH_RADIUS e | Some r \<Rightarrow> r)) (MAX_SEARCH_RADIUS e)"
  let ?body = "\<lambda>results tot.
     \<lparr> ok_radius = ?r,
       ok_recommend =
         (let found = recommendationsWithDistance lat lon ?r recs
          in if 0 < length recs \<and> 0 < length found then Some found else None),
       ok_results = results,
       ok_totalPlacesFound = tot \<rparr>"
  assume a: "req_latitude req = Some lat \<and> req_longitude req = Some lon \<and> lat \<noteq> 0 \<and> lon \<noteq> 0
             \<and> api_key_present e"
  then obtain calls0 results tot where
    sc: "search_categories e prov lat lon ?r PLACE_TYPES ([], [], 0) = (calls0, results, tot)"
    and sn: "search_nearby e recs prov req =
               ((if tot = 0 then calls0 @ [GeocodeProbe lat lon] else calls0),
                Status200 (?body results tot))"
    using search_nearby_valid [of req lat lon e prov recs] by blast
  have "\<exists>ys. calls0 = SearchNearby lat lon ?r [''restaurant''] # ys"
    using search_categories_first_call
            [of e prov lat lon ?r "''restaurants''" "[''restaurant'']"
                "tl PLACE_TYPES" "[]" 0] sc
    by (simp add: PLACE_TYPES_def planned_calls_def search_strategies_def)
  then obtain ys where ys: "calls0 = SearchNearby lat lon ?r [''restaurant''] # ys" by blast
  have rad: "call_radius call = Some ?r" if "call \<in> set ys" for call
  proof -
    from that ys have "call \<in> set calls0" by simp
    from search_categories_radius [OF sc this] show ?thesis by simp
  qed
  let ?calls = "if tot = 0 then ys @ [GeocodeProbe lat lon] else ys"
  have 1: "search_nearby e recs prov req
           = (SearchNearby lat lon ?r [''restaurant''] # ?calls, Status200 (?body results tot))"
    using sn ys by simp
  have 2: "ok_radius (?body results tot) = ?r" by simp
  have 3: "\<forall>call\<in>set ?calls.
             call_radius call = Some (ok_radius (?body results tot)) \<or> call = GeocodeProbe lat lon"
    using rad by auto
  from 1 2 3 show "\<exists>calls body.
      search_nearby e recs prov req = (SearchNearby lat lon ?r [''restaurant''] # calls, Status200 body)
      \<and> ok_radius body = ?r
      \<and> (\<forall>call\<in>set calls. call_radius call = Some (ok_radius body) \<or> call = GeocodeProbe lat lon)"
    by blast
qed

text \<open>
  Claim C6, amended, at a request without latitude, at a request with radius \<open>-5\<close> and at
  a request with radius \<open>10\<^sup>2\<^sup>1\<close>, which \<open>parseInt\<close> reads as \<open>1\<close>.
\<close>

theorem coordinates_checked_radius_clamped_witness:
  "search_nearby example_env [] silent_provider
     \<lparr> req_latitude = None, req_longitude = Some 105.85114, req_radius = Some 1000 \<rparr>
   = ([], Status400_coordinates_required)
   \<and> (\<exists>calls body.
         search_nearby example_env [] silent_provider (hotel_request (- 5))
           = (SearchNearby 21.034087 105.85114 (- 5) [''restaurant''] # calls, Status200 body)
         \<and> ok_radius body = - 5
         \<and> list_all (\<lambda>call. call_radius call = Some (- 5) \<or> call = GeocodeProbe 21.034087 105.85114)
              calls)
   \<and> (\<exists>calls body.
         search_nearby example_env [] silent_provider (hotel_request (10 ^ 21))
           = (SearchNearby 21.034087 105.85114 1 [''restaurant''] # calls, Status200 body)
         \<and> ok_radius body = 1
         \<and> list_all (\<lambda>call. call_radius call = Some 1 \<or> call = GeocodeProbe 21.034087 105.85114)
              calls)"
proof -
  note t1 = coordinates_checked_radius_clamped
          [of "\<lparr> req_latitude = None, req_longitude = Some 105.85114, req_radius = Some 1000 \<rparr>"
              example_env "[]" silent_provider]
  note t2 = coordinates_checked_radius_clamped
          [where req = "hotel_request (- 5)" and lat = "21.034087" and lon = "105.85114"
             and e = example_env and recs = "[]" and prov = silent_provider]
  note t3 = coordinates_checked_radius_clamped
          [where req = "hotel_request (10 ^ 21)" and lat = "21.034087" and lon = "105.85114"
             and e = example_env and recs = "[]" and prov = silent_provider]
  from t1 have a: "search_nearby example_env [] silent_provider
     \<lparr> req_latitude = None, req_longitude = Some 105.85114, req_radius = Some 1000 \<rparr>
   = ([], Status400_coordinates_required)"
    by simp
  from t2 obtain calls body where
    "search_nearby example_env [] silent_provider (hotel_request (- 5))
       = (SearchNearby 21.034087 105.85114 (- 5) [''restaurant''] # calls, Status200 body)"
    "ok_radius body = - 5"
    "\<forall>call\<in>set calls. call_radius call = Some (ok_radius body) \<or> call = GeocodeProbe 21.034087 105.85114"
    by (auto simp: hotel_request_def example_env_def parseInt_number_def)
  then have b: "\<exists>calls body.
         search_nearby example_env [] silent_provider (hotel_request (- 5))
           = (SearchNearby 21.034087 105.85114 (- 5) [''restaurant''] # calls, Status200 body)
         \<and> ok_radius body = - 5
         \<and> list_all (\<lambda>call. call_radius call = Some (- 5) \<or> call = GeocodeProbe 21.034087 105.85114)
              calls"
    by (auto simp: list_all_iff)
  from t3 obtain calls body where
    "search_nearby example_env [] silent_provider (hotel_request (10 ^ 21))
       = (SearchNearby 21.034087 105.85114 1 [''restaurant''] # calls, Status200 body)"
    "ok_radius body = 1"
    "\<forall>call\<in>set calls. call_radius call = Some (ok_radius body) \<or> call = GeocodeProbe 21.034087 105.85114"
    by (auto simp: hotel_request_def example_env_def parseInt_number_def)
  then have c: "\<exists>calls body.
         search_nearby example_env [] silent_provider (hotel_request (10 ^ 21))
           = (SearchNearby 21.034087 105.85114 1 [''restaurant''] # calls, Status200 body)
         \<and> ok_radius body = 1
         \<and> list_all (\<lambda>call. call_radius call = Some 1 \<or> call = GeocodeProbe 21.034087 105.85114)
              calls"
    by (auto simp: list_all_iff)
  from a b c show ?thesis by blast
qed


subsection \<open>Ranking\<close>

text \<open>
  Claim C5. Every list under a category key of a successful response is sorted by
  rating, highest first, and by distance, nearest first, among equal ratings, and ranking
  it again leaves it unchanged. A list that is not empty is the result of ranking the
  list the handler built before the sort: the records that the provider returned for the
  tag-based search of the category, followed by the records that the free-text searches
  contributed, normalised, without the unnamed ones and de-duplicated. It has the same
  places as that list, and the places of one rating and one distance stand in it in the
  order they had in that list. The ranker as such is stable and idempotent, on every
  list.
\<close>

theorem category_lists_ranked:
  assumes "search_nearby e recs prov req = (calls, Status200 body)"
    and "(c, ps) \<in> set (ok_results body)"
  shows "sorted_wrt (\<lambda>a b. rating b < rating a \<or> (rating a = rating b \<and> distance a \<le> distance b)) ps
       \<and> sort_by compare_places ps = ps
       \<and> (ps = []
          \<or> (\<exists>lat lon tys cs cs' rbody allPlaces normalised presort.
                req_latitude req = Some lat \<and> req_longitude req = Some lon
                \<and> (c, tys) \<in> set PLACE_TYPES
                \<and> prov (length cs)
                     (SearchNearby lat lon (ok_radius body) (fst (search_strategies c tys)))
                     = Inr rbody
                \<and> run_text_searches e prov lat lon (ok_radius body) (snd (search_strategies c tys))
                     (cs @ [SearchNearby lat lon (ok_radius body) (fst (search_strategies c tys))])
                     (case rbody of None \<Rightarrow> [] | Some xs \<Rightarrow> xs)
                    = (cs', allPlaces)
                \<and> those (map (to_place lat lon) allPlaces) = Some normalised
                \<and> presort = dedup (filter (\<lambda>p. name p \<noteq> ''Unknown Place'') normalised)
                \<and> ps = sort_by compare_places presort
                \<and> mset ps = mset presort
                \<and> (\<forall>r d. filter (\<lambda>p. rating p = r \<and> distance p = d) ps
                           = filter (\<lambda>p. rating p = r \<and> distance p = d) presort)))
       \<and> filter (\<lambda>p. rating p = r \<and> distance p = d) (sort_by compare_places xs)
           = filter (\<lambda>p. rating p = r \<and> distance p = d) xs
       \<and> sort_by compare_places (sort_by compare_places xs) = sort_by compare_places xs"
proof -
  have idem: "sort_by compare_places (sort_by compare_places ys) = sort_by compare_places ys" for ys
    by (rule sort_by_sorted) (rule sorted_sort_by [OF compare_places_total compare_places_trans])
  have stable: "filter (\<lambda>p. rating p = r \<and> distance p = d) (sort_by compare_places ys)
                 = filter (\<lambda>p. rating p = r \<and> distance p = d) ys" for r d ys
    by (rule filter_sort_by) (simp add: compare_places_def)
  from category_list_ranked [OF assms] obtain unique where ps: "ps = sort_by compare_places unique"
    by blast
  have 1: "sorted_wrt (\<lambda>a b. rating b < rating a \<or> (rating a = rating b \<and> distance a \<le> distance b)) ps"
    unfolding ps by (rule sorted_ranked)
  have 2: "sort_by compare_places ps = ps"
    unfolding ps by (rule idem)
  have 3: "ps = []
          \<or> (\<exists>lat lon tys cs cs' rbody allPlaces normalised presort.
                req_latitude req = Some lat \<and> req_longitude req = Some lon
                \<and> (c, tys) \<in> set PLACE_TYPES
                \<and> prov (length cs)
                     (SearchNearby lat lon (ok_radius body) (fst (search_strategies c tys)))
                     = Inr rbody
                \<and> run_text_searches e prov lat lon (ok_radius body) (snd (search_strategies c tys))
                     (cs @ [SearchNearby lat lon (ok_radius body) (fst (search_strategies c tys))])
                     (case rbody of None \<Rightarrow> [] | Some xs \<Rightarrow> xs)
                    = (cs', allPlaces)
                \<and> those (map (to_place lat lon) allPlaces) = Some normalised
                \<and> presort = dedup (filter (\<lambda>p. name p \<noteq> ''Unknown Place'') normalised)
                \<and> ps = sort_by compare_places presort
                \<and> mset ps = mset presort
                \<and> (\<forall>r d. filter (\<lambda>p. rating p = r \<and> distance p = d) ps
                           = filter (\<lambda>p. rating p = r \<and> distance p = d) presort))"
  proof (cases "ps = []")
    case True
    then show ?thesis by blast
  next
    case False
    let ?r = "ok_radius body"
    from search_nearby_Status200 [OF assms(1)] have
      "?r = min (parseInt_number e (case req_radius req of None \<Rightarrow> DEFAULT_SEARCH_RADIUS e | Some r \<Rightarrow> r)) (MAX_SEARCH_RADIUS e)"
      by auto
    then have clamp: "min ?r (MAX_SEARCH_RADIUS e) = ?r" by simp
    from category_list_cases [OF assms] False obtain lat lon tys cs cs' where
      lat: "req_latitude req = Some lat" and lon: "req_longitude req = Some lon"
      and c: "(c, tys) \<in> set PLACE_TYPES"
      and sc: "search_category e prov lat lon ?r c tys cs = (cs', Some ps)"
      by blast
    from search_category_presort [OF sc dedup_categories_cover [OF c]]
    obtain rbody allPlaces normalised where
      pr: "prov (length cs) (SearchNearby lat lon ?r (fst (search_strategies c tys))) = Inr rbody"
      and rt: "run_text_searches e prov lat lon ?r (snd (search_strategies c tys))
                 (cs @ [SearchNearby lat lon ?r (fst (search_strategies c tys))])
                 (case rbody of None \<Rightarrow> [] | Some xs \<Rightarrow> xs)
               = (cs', allPlaces)"
      and n: "those (map (to_place lat lon) allPlaces) = Some normalised"
      and srt: "ps = sort_by compare_places
                       (dedup (filter (\<lambda>p. name p \<noteq> ''Unknown Place'') normalised))"
      unfolding clamp by blast
    let ?presort = "dedup (filter (\<lambda>p. name p \<noteq> ''Unknown Place'') normalised)"
    have ms: "mset ps = mset ?presort"
      unfolding srt by (rule mset_sort_by)
    have st: "\<forall>r d. filter (\<lambda>p. rating p = r \<and> distance p = d) ps
                     = filter (\<lambda>p. rating p = r \<and> distance p = d) ?presort"
      unfolding srt using stable by blast
    from lat lon c pr rt n srt ms st show ?thesis by blast
  qed
  from 1 2 3 stable [of r d xs] idem [of xs] show ?thesis by blast
qed

text \<open>
  Claim C5 at the restaurants of the example outcome, and at the landmarks that the
  handler returns for \<open>landmark_provider\<close>: the three places of rating 4.6 at the centre
  keep the order in which the searches delivered them, behind them comes the place of
  rating 3.9 that the tag-based search delivered first.
\<close>

theorem category_lists_ranked_witness:
  "search_nearby example_env [polar_rec, walk_rec] example_provider (hotel_request 1000)
     = (example_calls, Status200 example_body)
   \<and> (''restaurants'', [bun_place, pho_place, hang_bac_place]) \<in> set (ok_results example_body)
   \<and> sorted_wrt (\<lambda>a b. rating b < rating a \<or> (rating a = rating b \<and> distance a \<le> distance b))
        [bun_place, pho_place, hang_bac_place]
   \<and> sort_by compare_places [bun_place, pho_place, hang_bac_place] = [bun_place, pho_place, hang_bac_place]
   \<and> filter (\<lambda>p. rating p = 4.5 \<and> distance p = 0)
        (sort_by compare_places [hang_bac_place, pho_place, bun_place, pho_place \<lparr> name := ''Pho 24'' \<rparr>])
       = [pho_place, pho_place \<lparr> name := ''Pho 24'' \<rparr>]
   \<and> sort_by compare_places (sort_by compare_places [hang_bac_place, pho_place, bun_place])
       = sort_by compare_places [hang_bac_place, pho_place, bun_place]
   \<and> search_nearby example_env [] landmark_provider (hotel_request 1000)
       = (landmark_calls, Status200 landmark_body)
   \<and> (''landmarks'', [lake_place, trang_tien_place, temple_place, kiosk_place])
       \<in> set (ok_results landmark_body)
   \<and> landmark_provider 3 (SearchNearby 21.034087 105.85114 1000 [''tourist_attraction''])
       = Inr (Some [kiosk_record, lake_record, opera_record])
   \<and> landmark_provider 4 (SearchText 21.034087 105.85114 1000
                             ''historical landmark monument temple pagoda'')
       = Inr (Some [temple_record])
   \<and> sorted_wrt (\<lambda>a b. rating b < rating a \<or> (rating a = rating b \<and> distance a \<le> distance b))
        [lake_place, trang_tien_place, temple_place, kiosk_place]
   \<and> [lake_place, trang_tien_place, temple_place, kiosk_place]
       = sort_by compare_places [kiosk_place, lake_place, trang_tien_place, temple_place]
   \<and> mset [lake_place, trang_tien_place, temple_place, kiosk_place]
       = mset [kiosk_place, lake_place, trang_tien_place, temple_place]
   \<and> filter (\<lambda>p. rating p = 4.6 \<and> distance p = 0)
        [lake_place, trang_tien_place, temple_place, kiosk_place]
       = filter (\<lambda>p. rating p = 4.6 \<and> distance p = 0)
           [kiosk_place, lake_place, trang_tien_place, temple_place]
   \<and> filter (\<lambda>p. rating p = 4.6 \<and> distance p = 0)
        [kiosk_place, lake_place, trang_tien_place, temple_place]
       = [lake_place, trang_tien_place, temple_place]"
proof -
  have m: "(''restaurants'', [bun_place, pho_place, hang_bac_place]) \<in> set (ok_results example_body)"
    by (simp add: example_body_def)
  from category_lists_ranked
         [OF example_run m, of "4.5" 0 "[hang_bac_place, pho_place, bun_place, pho_place \<lparr> name := ''Pho 24'' \<rparr>]"]
       category_lists_ranked [OF example_run m, of 0 0 "[hang_bac_place, pho_place, bun_place]"]
  have restaurants:
    "sorted_wrt (\<lambda>a b. rating b < rating a \<or> (rating a = rating b \<and> distance a \<le> distance b))
        [bun_place, pho_place, hang_bac_place]
     \<and> sort_by compare_places [bun_place, pho_place, hang_bac_place] = [bun_place, pho_place, hang_bac_place]
     \<and> filter (\<lambda>p. rating p = 4.5 \<and> distance p = 0)
        (sort_by compare_places [hang_bac_place, pho_place, bun_place, pho_place \<lparr> name := ''Pho 24'' \<rparr>])
       = [pho_place, pho_place \<lparr> name := ''Pho 24'' \<rparr>]
     \<and> sort_by compare_places (sort_by compare_places [hang_bac_place, pho_place, bun_place])
       = sort_by compare_places [hang_bac_place, pho_place, bun_place]"
    by (simp add: bun_place_def pho_place_def hang_bac_place_def)
  let ?ps = "[lake_place, trang_tien_place, temple_place, kiosk_place]"
  have ml: "(''landmarks'', ?ps) \<in> set (ok_results landmark_body)"
    by (simp add: landmark_body_def)
  have ne: "?ps \<noteq> []" by simp
  note t = category_lists_ranked [OF landmark_run ml, of 0 0 "[]"]
  from t have srt: "sorted_wrt (\<lambda>a b. rating b < rating a \<or> (rating a = rating b \<and> distance a \<le> distance b)) ?ps"
    by (rule conjunct1)
  from t ne obtain lat lon tys cs cs' rbody allPlaces normalised presort where
    lat: "req_latitude (hotel_request 1000) = Some lat"
    and lon: "req_longitude (hotel_request 1000) = Some lon"
    and pr: "landmark_provider (length cs)
               (SearchNearby lat lon (ok_radius landmark_body) (fst (search_strategies ''landmarks'' tys)))
             = Inr rbody"
    and rt: "run_text_searches example_env landmark_provider lat lon (ok_radius landmark_body)
               (snd (search_strategies ''landmarks'' tys))
               (cs @ [SearchNearby lat lon (ok_radius landmark_body)
                        (fst (search_strategies ''landmarks'' tys))])
               (case rbody of None \<Rightarrow> [] | Some xs \<Rightarrow> xs)
             = (cs', allPlaces)"
    and n: "those (map (to_place lat lon) allPlaces) = Some normalised"
    and pre: "presort = dedup (filter (\<lambda>p. name p \<noteq> ''Unknown Place'') normalised)"
    and sorted: "?ps = sort_by compare_places presort"
    and ms: "mset ?ps = mset presort"
    and ties: "\<forall>r d. filter (\<lambda>p. rating p = r \<and> distance p = d) ?ps
                      = filter (\<lambda>p. rating p = r \<and> distance p = d) presort"
    by blast
  from lat lon have ll: "lat = 21.034087" "lon = 105.85114"
    by (simp_all add: hotel_request_def)
  from pr have rb: "rbody = Some [kiosk_record, lake_record, opera_record]"
    by (simp add: landmark_provider_def search_strategies_def)
  from rt have "allPlaces
      = snd (run_text_searches example_env landmark_provider 21.034087 105.85114 1000
               (snd (search_strategies ''landmarks'' tys))
               (cs @ [SearchNearby 21.034087 105.85114 1000
                        (fst (search_strategies ''landmarks'' tys))])
               [kiosk_record, lake_record, opera_record])"
    unfolding ll rb by (simp add: landmark_body_def)
  with n have "normalised = [kiosk_place, lake_place, trang_tien_place, temple_place]"
    unfolding ll by (simp add: run_defs example_defs)
  with pre have presort: "presort = [kiosk_place, lake_place, trang_tien_place, temple_place]"
    by (simp add: dedup_def kiosk_place_def lake_place_def trang_tien_place_def temple_place_def)
  have p3: "landmark_provider 3 (SearchNearby 21.034087 105.85114 1000 [''tourist_attraction''])
       = Inr (Some [kiosk_record, lake_record, opera_record])"
    and p4: "landmark_provider 4 (SearchText 21.034087 105.85114 1000
                             ''historical landmark monument temple pagoda'')
       = Inr (Some [temple_record])"
    by (simp_all add: landmark_provider_def)
  have ev: "filter (\<lambda>p. rating p = 4.6 \<and> distance p = 0)
        [kiosk_place, lake_place, trang_tien_place, temple_place]
       = [lake_place, trang_tien_place, temple_place]"
    by (simp add: kiosk_place_def lake_place_def trang_tien_place_def temple_place_def)
  from ties have "filter (\<lambda>p. rating p = 4.6 \<and> distance p = 0) ?ps
                      = filter (\<lambda>p. rating p = 4.6 \<and> distance p = 0) presort"
    by blast
  with sorted ms have landmarks:
    "?ps = sort_by compare_places [kiosk_place, lake_place, trang_tien_place, temple_place]
     \<and> mset ?ps = mset [kiosk_place, lake_place, trang_tien_place, temple_place]
     \<and> filter (\<lambda>p. rating p = 4.6 \<and> distance p = 0) ?ps
       = filter (\<lambda>p. rating p = 4.6 \<and> distance p = 0)
           [kiosk_place, lake_place, trang_tien_place, temple_place]"
    unfolding presort by blast
  from example_run m restaurants landmark_run ml p3 p4 srt landmarks ev show ?thesis
    by blast
qed


subsection \<open>De-duplication\<close>

text \<open>
  Claim C2 as stated fails for the list under \<open>recommend\<close>, which is part of the returned
  map and is never de-duplicated: two recommendations with the same id, both within the
  radius, are both returned.
\<close>

theorem recommend_duplicate_counterexample:
  "recommend_of (search_nearby example_env [walk_rec, temple_rec] silent_provider (hotel_request 1000))
     = Some [(walk_rec, 0), (temple_rec, 0)]
   \<and> rec_id walk_rec = rec_id temple_rec
   \<and> walk_rec \<noteq> temple_rec"
  by (simp add: run_defs example_defs)

text \<open>
  Claim C2, amended. In every list under a provider category of a successful response no
  two places share an id, and the list is the ranked output of the de-duplication. The
  de-duplication keeps exactly the places at the positions whose id does not occur at an
  earlier position of the merged list, in the order of the merged list. The list under
  \<open>recommend\<close> is not de-duplicated: its ids are distinct whenever those of the stored
  recommendations are.
\<close>

theorem provider_categories_deduplicated:
  assumes "search_nearby e recs prov req = (calls, Status200 body)"
  shows "(\<forall>(c, ps)\<in>set (ok_results body).
            distinct (map place_id ps) \<and> (\<exists>merged. ps = sort_by compare_places (dedup merged)))
       \<and> dedup qs = map ((!) qs)
           (filter (\<lambda>i. place_id (qs ! i) \<notin> place_id ` set (take i qs)) [0..<length qs])
       \<and> (\<forall>xs. ok_recommend body = Some xs \<longrightarrow> distinct (map rec_id recs)
             \<longrightarrow> distinct (map (rec_id \<circ> fst) xs))"
proof (intro conjI)
  show "\<forall>(c, ps)\<in>set (ok_results body).
          distinct (map place_id ps) \<and> (\<exists>merged. ps = sort_by compare_places (dedup merged))"
  proof (clarify)
    fix c ps assume "(c, ps) \<in> set (ok_results body)"
    from category_list_deduplicated [OF assms this] obtain merged where
      ps: "ps = sort_by compare_places (dedup merged)" by blast
    have "distinct (map place_id ps)"
      unfolding ps distinct_map_sort_by by (rule distinct_dedup)
    with ps show "distinct (map place_id ps) \<and> (\<exists>merged. ps = sort_by compare_places (dedup merged))"
      by blast
  qed
next
  show "dedup qs = map ((!) qs)
          (filter (\<lambda>i. place_id (qs ! i) \<notin> place_id ` set (take i qs)) [0..<length qs])"
    by (rule dedup_first_occurrences)
next
  from search_nearby_Status200 [OF assms] obtain lat lon where
    "ok_recommend body =
       (let found = recommendationsWithDistance lat lon (ok_radius body) recs
        in if 0 < length recs \<and> 0 < length found then Some found else None)"
    by blast
  then show "\<forall>xs. ok_recommend body = Some xs \<longrightarrow> distinct (map rec_id recs)
               \<longrightarrow> distinct (map (rec_id \<circ> fst) xs)"
    using distinct_recommend_ids [of recs lat lon "ok_radius body"]
    by (auto simp: Let_def split: if_splits)
qed

text \<open>
  Claim C2, amended, at the example outcome, and the de-duplication at a merged list in
  which the id of the first place occurs again at the third position.
\<close>

theorem provider_categories_deduplicated_witness:
  "search_nearby example_env [polar_rec, walk_rec] example_provider (hotel_request 1000)
     = (example_calls, Status200 example_body)
   \<and> distinct (map place_id [bun_place, pho_place, hang_bac_place])
   \<and> (\<exists>merged. [bun_place, pho_place, hang_bac_place] = sort_by compare_places (dedup merged))
   \<and> dedup [pho_place, bun_place, pho_place \<lparr> rating := 4.9 \<rparr>, hang_bac_place]
       = [pho_place, bun_place, hang_bac_place]
   \<and> distinct (map rec_id [polar_rec, walk_rec])
   \<and> distinct (map (rec_id \<circ> fst) [(walk_rec, 0::int)])"
proof -
  note t = provider_categories_deduplicated
             [OF example_run, of "[pho_place, bun_place, pho_place \<lparr> rating := 4.9 \<rparr>, hang_bac_place]"]
  have m: "(''restaurants'', [bun_place, pho_place, hang_bac_place]) \<in> set (ok_results example_body)"
    by (simp add: example_body_def)
  from t have "\<forall>(c, ps)\<in>set (ok_results example_body).
            distinct (map place_id ps) \<and> (\<exists>merged. ps = sort_by compare_places (dedup merged))"
    by (rule conjunct1)
  from bspec [OF this m] have a: "distinct (map place_id [bun_place, pho_place, hang_bac_place])
       \<and> (\<exists>merged. [bun_place, pho_place, hang_bac_place] = sort_by compare_places (dedup merged))"
    by simp
  have d: "distinct (map rec_id [polar_rec, walk_rec])"
    by (simp add: polar_rec_def walk_rec_def)
  have "ok_recommend example_body = Some [(walk_rec, 0)]"
    by (simp add: example_body_def)
  with t d have b: "distinct (map (rec_id \<circ> fst) [(walk_rec, 0::int)])"
    by simp
  from t have "dedup [pho_place, bun_place, pho_place \<lparr> rating := 4.9 \<rparr>, hang_bac_place]
       = map ((!) [pho_place, bun_place, pho_place \<lparr> rating := 4.9 \<rparr>, hang_bac_place])
           (filter (\<lambda>i. place_id ([pho_place, bun_place, pho_place \<lparr> rating := 4.9 \<rparr>, hang_bac_place] ! i)
                \<notin> place_id ` set (take i [pho_place, bun_place, pho_place \<lparr> rating := 4.9 \<rparr>, hang_bac_place]))
              [0..<length [pho_place, bun_place, pho_place \<lparr> rating := 4.9 \<rparr>, hang_bac_place]])"
    by simp
  then have c: "dedup [pho_place, bun_place, pho_place \<lparr> rating := 4.9 \<rparr>, hang_bac_place]
       = [pho_place, bun_place, hang_bac_place]"
    by (simp add: upt_rec pho_place_def bun_place_def hang_bac_place_def)
  from example_run a b c d show ?thesis by blast
qed


subsection \<open>The radius\<close>

text \<open>
  Claim C1 as stated fails for the records of a tag-based search: the handler computes
  their distance but never compares it with the radius. A record that the provider
  returns for the restaurant search from a quarter of a meridian away is returned under
  \<open>restaurants\<close> with a distance above six thousand kilometres, for the radius 1000.
\<close>

theorem tag_search_outside_radius_counterexample:
  "map name (results_of (search_nearby example_env [] far_provider (hotel_request 1000)) ''restaurants'')
     = [''Polar Diner'']
   \<and> map distance (results_of (search_nearby example_env [] far_provider (hotel_request 1000)) ''restaurants'')
     = [Math_round (3185500 * pi)]
   \<and> 1000 < Math_round (3185500 * pi)"
  using far_distance_large by (simp add: run_defs example_defs)

text \<open>
  Claim C1, amended. The handler filters by distance the recommendations and the records
  of its free-text searches; for the records of its tag-based searches it relies on the
  circle it sends to the provider. So, for every successful response: every entry under
  \<open>recommend\<close> has a distance of at most the clamped radius; every record that a
  free-text search contributes to a category is normalised to a place with a distance of
  at most the clamped radius; every place in a category list has a distance of at most
  the clamped radius or is the normalisation of a record that the provider returned for
  a tag-based search of the request; and if every record that the provider returns for
  a tag-based search of the request lies within the clamped radius of the centre, then
  every place in every category list has a distance of at most the clamped radius.
\<close>

theorem within_radius_except_tag_search:
  assumes run: "search_nearby e recs prov req = (calls, Status200 body)"
    and lat: "req_latitude req = Some lat" and lon: "req_longitude req = Some lon"
  shows "(\<forall>xs. ok_recommend body = Some xs \<longrightarrow> (\<forall>x\<in>set xs. snd x \<le> ok_radius body))
       \<and> (\<forall>cs query placeholder.
            \<forall>q\<in>set (snd (textSearch e prov cs lat lon (ok_radius body) query placeholder)).
              \<exists>p. to_place lat lon q = Some p \<and> distance p \<le> ok_radius body)
       \<and> (\<forall>(c, ps)\<in>set (ok_results body). \<forall>p\<in>set ps.
            distance p \<le> ok_radius body
            \<or> (\<exists>n tys raws raw.
                  prov n (SearchNearby lat lon (ok_radius body) tys) = Inr (Some raws)
                  \<and> raw \<in> set raws \<and> to_place lat lon raw = Some p))
       \<and> ((\<forall>n tys raws raw loc.
              prov n (SearchNearby lat lon (ok_radius body) tys) = Inr (Some raws)
              \<longrightarrow> raw \<in> set raws \<longrightarrow> raw_location raw = Some loc
              \<longrightarrow> calculateDistance lat lon (latitude loc) (longitude loc)
                    \<le> real_of_int (ok_radius body))
          \<longrightarrow> (\<forall>(c, ps)\<in>set (ok_results body). \<forall>p\<in>set ps. distance p \<le> ok_radius body))"
proof -
  let ?r = "ok_radius body"
  from search_nearby_Status200 [OF run] lat lon have
    r: "?r = min (parseInt_number e (case req_radius req of None \<Rightarrow> DEFAULT_SEARCH_RADIUS e | Some r \<Rightarrow> r)) (MAX_SEARCH_RADIUS e)"
    and rec: "ok_recommend body =
       (let found = recommendationsWithDistance lat lon ?r recs
        in if 0 < length recs \<and> 0 < length found then Some found else None)"
    by auto
  from r have clamp: "min ?r (MAX_SEARCH_RADIUS e) = ?r" by simp
  have recommended: "\<forall>xs. ok_recommend body = Some xs \<longrightarrow> (\<forall>x\<in>set xs. snd x \<le> ?r)"
    using rec recommended_within [of _ lat lon ?r recs]
    by (auto simp: Let_def split: if_splits)
  have texts: "\<forall>cs query placeholder.
            \<forall>q\<in>set (snd (textSearch e prov cs lat lon ?r query placeholder)).
              \<exists>p. to_place lat lon q = Some p \<and> distance p \<le> ?r"
    using textSearch_within by blast
  have lists: "\<forall>(c, ps)\<in>set (ok_results body). \<forall>p\<in>set ps.
            distance p \<le> ?r
            \<or> (\<exists>n tys raws raw.
                  prov n (SearchNearby lat lon ?r tys) = Inr (Some raws)
                  \<and> raw \<in> set raws \<and> to_place lat lon raw = Some p)"
  proof (clarify)
    fix c ps p
    assume m: "(c, ps) \<in> set (ok_results body)" and p: "p \<in> set ps"
      and no: "\<not> (\<exists>n tys raws raw.
                  prov n (SearchNearby lat lon ?r tys) = Inr (Some raws)
                  \<and> raw \<in> set raws \<and> to_place lat lon raw = Some p)"
    from category_list_cases [OF run m] p lat lon obtain tys cs cs' where
      sc: "search_category e prov lat lon ?r c tys cs = (cs', Some ps)"
      by auto
    from search_category_Some [OF sc] obtain rbody allPlaces where
      pr: "prov (length cs) (hd (planned_calls e lat lon ?r (c, tys))) = Inr rbody"
      and fin: "finalize_category lat lon c allPlaces = Some ps"
      and src: "\<forall>x\<in>set allPlaces. x \<in> set (case rbody of None \<Rightarrow> [] | Some xs \<Rightarrow> xs)
                 \<or> (\<exists>ph raw. x = text_record lat lon ph raw \<and> text_keep ?r ph x)"
      by blast
    from finalize_category_members [OF fin p] obtain x where
      x: "x \<in> set allPlaces" and tp: "to_place lat lon x = Some p" by blast
    from src x have "x \<in> set (case rbody of None \<Rightarrow> [] | Some xs \<Rightarrow> xs)
                 \<or> (\<exists>ph raw. x = text_record lat lon ph raw \<and> text_keep ?r ph x)" by blast
    then show "distance p \<le> ?r"
    proof
      assume "x \<in> set (case rbody of None \<Rightarrow> [] | Some xs \<Rightarrow> xs)"
      then obtain raws where rb: "rbody = Some raws" and xr: "x \<in> set raws"
        by (cases rbody) auto
      from pr rb have "prov (length cs)
          (SearchNearby lat lon ?r (fst (search_strategies c tys))) = Inr (Some raws)"
        by (simp add: planned_calls_def clamp)
      with xr tp no show ?thesis by blast
    next
      assume "\<exists>ph raw. x = text_record lat lon ph raw \<and> text_keep ?r ph x"
      then obtain ph raw where "x = text_record lat lon ph raw" "text_keep ?r ph x" by blast
      with tp show ?thesis using text_record_within by blast
    qed
  qed
  have honoured: "\<forall>(c, ps)\<in>set (ok_results body). \<forall>p\<in>set ps. distance p \<le> ?r"
    if h: "\<forall>n tys raws raw loc.
              prov n (SearchNearby lat lon ?r tys) = Inr (Some raws)
              \<longrightarrow> raw \<in> set raws \<longrightarrow> raw_location raw = Some loc
              \<longrightarrow> calculateDistance lat lon (latitude loc) (longitude loc) \<le> real_of_int ?r"
  proof (clarify)
    fix c ps p
    assume m: "(c, ps) \<in> set (ok_results body)" and p: "p \<in> set ps"
    from lists m p have "distance p \<le> ?r
            \<or> (\<exists>n tys raws raw.
                  prov n (SearchNearby lat lon ?r tys) = Inr (Some raws)
                  \<and> raw \<in> set raws \<and> to_place lat lon raw = Some p)"
      by blast
    then show "distance p \<le> ?r"
    proof
      assume "distance p \<le> ?r"
      then show ?thesis .
    next
      assume "\<exists>n tys raws raw.
                  prov n (SearchNearby lat lon ?r tys) = Inr (Some raws)
                  \<and> raw \<in> set raws \<and> to_place lat lon raw = Some p"
      then obtain n tys raws raw where
        pr: "prov n (SearchNearby lat lon ?r tys) = Inr (Some raws)"
        and xr: "raw \<in> set raws" and tp: "to_place lat lon raw = Some p" by blast
      from tp obtain loc where loc: "raw_location raw = Some loc"
        and d: "distance p = Math_round (calculateDistance lat lon (latitude loc) (longitude loc))"
        by (cases "raw_location raw") (auto simp: to_place_def)
      from h pr xr loc have
        "calculateDistance lat lon (latitude loc) (longitude loc) \<le> real_of_int ?r" by blast
      with d show ?thesis by (simp add: Math_round_le)
    qed
  qed
  from recommended texts lists honoured show ?thesis by blast
qed

text \<open>
  Claim C1, amended, at the example outcome: the records of \<open>example_provider\<close> all lie
  at the centre, and its first free-text restaurant search contributes two records.
\<close>

theorem within_radius_except_tag_search_witness:
  "search_nearby example_env [polar_rec, walk_rec] example_provider (hotel_request 1000)
     = (example_calls, Status200 example_body)
   \<and> req_latitude (hotel_request 1000) = Some 21.034087
   \<and> req_longitude (hotel_request 1000) = Some 105.85114
   \<and> ok_recommend example_body = Some [(walk_rec, 0)]
   \<and> snd (walk_rec, 0::int) \<le> 1000
   \<and> length (snd (textSearch example_env example_provider
                     [SearchNearby 21.034087 105.85114 1000 [''restaurant'']]
                     21.034087 105.85114 1000 ''restaurant dining food eat meal''
                     ''Unknown Restaurant'')) = 2
   \<and> list_all (\<lambda>q. \<exists>p. to_place 21.034087 105.85114 q = Some p \<and> distance p \<le> 1000)
        (snd (textSearch example_env example_provider
                [SearchNearby 21.034087 105.85114 1000 [''restaurant'']]
                21.034087 105.85114 1000 ''restaurant dining food eat meal''
                ''Unknown Restaurant''))
   \<and> example_provider 0 (SearchNearby 21.034087 105.85114 1000 [''restaurant''])
       = Inr (Some [pho_record, bun_record])
   \<and> calculateDistance 21.034087 105.85114 (latitude hotel) (longitude hotel) \<le> 1000
   \<and> map distance [bun_place, pho_place, hang_bac_place] = [0, 0, 0]
   \<and> list_all (\<lambda>p. distance p \<le> 1000) [bun_place, pho_place, hang_bac_place]"
proof -
  have h: "\<forall>n tys raws raw loc.
             example_provider n (SearchNearby 21.034087 105.85114 (ok_radius example_body) tys)
               = Inr (Some raws)
             \<longrightarrow> raw \<in> set raws \<longrightarrow> raw_location raw = Some loc
             \<longrightarrow> calculateDistance 21.034087 105.85114 (latitude loc) (longitude loc)
                   \<le> real_of_int (ok_radius example_body)"
  proof (intro allI impI)
    fix n tys raws raw loc
    assume "example_provider n (SearchNearby 21.034087 105.85114 (ok_radius example_body) tys)
               = Inr (Some raws)"
      and "raw \<in> set raws" and "raw_location raw = Some loc"
    then have "loc = hotel"
      by (auto simp: example_provider_def example_body_def pho_record_def bun_record_def
            giang_record_def empty_record_def split: if_splits)
    then show "calculateDistance 21.034087 105.85114 (latitude loc) (longitude loc)
                   \<le> real_of_int (ok_radius example_body)"
      by (simp add: hotel_def calculateDistance_self example_body_def)
  qed
  have l: "req_latitude (hotel_request 1000) = Some 21.034087"
    and g: "req_longitude (hotel_request 1000) = Some 105.85114"
    by (simp_all add: hotel_request_def)
  note t = within_radius_except_tag_search [OF example_run l g]
  have m: "(''restaurants'', [bun_place, pho_place, hang_bac_place]) \<in> set (ok_results example_body)"
    by (simp add: example_body_def)
  have rad: "ok_radius example_body = 1000"
    by (simp add: example_body_def)
  from t h have "\<forall>(c, ps)\<in>set (ok_results example_body). \<forall>p\<in>set ps. distance p \<le> ok_radius example_body"
    by blast
  from bspec [OF this m] have a: "list_all (\<lambda>p. distance p \<le> 1000) [bun_place, pho_place, hang_bac_place]"
    by (simp add: example_body_def)
  have rc: "ok_recommend example_body = Some [(walk_rec, 0)]"
    by (simp add: example_body_def)
  with t have b: "snd (walk_rec, 0::int) \<le> 1000"
    by (simp add: example_body_def)
  from t have "\<forall>cs query placeholder.
            \<forall>q\<in>set (snd (textSearch example_env example_provider cs 21.034087 105.85114
                             (ok_radius example_body) query placeholder)).
              \<exists>p. to_place 21.034087 105.85114 q = Some p \<and> distance p \<le> ok_radius example_body"
    by blast
  then have f: "list_all (\<lambda>q. \<exists>p. to_place 21.034087 105.85114 q = Some p \<and> distance p \<le> 1000)
        (snd (textSearch example_env example_provider
                [SearchNearby 21.034087 105.85114 1000 [''restaurant'']]
                21.034087 105.85114 1000 ''restaurant dining food eat meal''
                ''Unknown Restaurant''))"
    unfolding rad list_all_iff by blast
  have n: "length (snd (textSearch example_env example_provider
                     [SearchNearby 21.034087 105.85114 1000 [''restaurant'']]
                     21.034087 105.85114 1000 ''restaurant dining food eat meal''
                     ''Unknown Restaurant'')) = 2"
    by (simp add: run_defs example_defs)
  have c: "example_provider 0 (SearchNearby 21.034087 105.85114 1000 [''restaurant''])
       = Inr (Some [pho_record, bun_record])"
    by (simp add: example_provider_def)
  have d: "calculateDistance 21.034087 105.85114 (latitude hotel) (longitude hotel) \<le> 1000"
    by (simp add: hotel_def calculateDistance_self)
  have e: "map distance [bun_place, pho_place, hang_bac_place] = [0, 0, 0]"
    by (simp add: bun_place_def pho_place_def hang_bac_place_def)
  from example_run l g rc a b c d e f n show ?thesis by blast
qed


subsection \<open>The recommendations\<close>

text \<open>
  Claim C8. For a successful response, let \<open>qualified\<close> be the stored recommendations,
  each paired with its rounded distance from the centre of the request, of which the
  distance is at most the clamped radius. If none qualifies, the key \<open>recommend\<close> is
  absent. Otherwise the list under \<open>recommend\<close> holds exactly the qualified entries,
  ascending by distance, and the entries of one distance keep the order of the store, so
  that no rating reorders them. No provider category is stored under the key
  \<open>recommend\<close>.
\<close>

theorem recommendations_overlay:
  assumes run: "search_nearby e recs prov req = (calls, Status200 body)"
    and lat: "req_latitude req = Some lat" and lon: "req_longitude req = Some lon"
    and q: "qualified = filter (\<lambda>x. snd x \<le> ok_radius body)
              (map (\<lambda>r. (r, Math_round (calculateDistance lat lon
                                (latitude (rec_location r)) (longitude (rec_location r))))) recs)"
  shows "(qualified = [] \<longrightarrow> ok_recommend body = None)
       \<and> (qualified \<noteq> [] \<longrightarrow>
            (\<exists>xs. ok_recommend body = Some xs \<and> mset xs = mset qualified
                 \<and> sorted (map snd xs)
                 \<and> (\<forall>d. filter (\<lambda>x. snd x = d) xs = filter (\<lambda>x. snd x = d) qualified)))
       \<and> ''recommend'' \<notin> fst ` set (ok_results body)"
proof -
  let ?r = "ok_radius body"
  let ?found = "recommendationsWithDistance lat lon ?r recs"
  from search_nearby_Status200 [OF run] lat lon obtain calls0 where
    rec: "ok_recommend body = (if 0 < length recs \<and> 0 < length ?found then Some ?found else None)"
    and sc: "search_categories e prov lat lon ?r PLACE_TYPES ([], [], 0)
             = (calls0, ok_results body, ok_totalPlacesFound body)"
    by (auto simp: Let_def)
  have found: "?found = sort_by compare_recommended qualified"
    by (simp add: recommendationsWithDistance_def q)
  have ms: "mset ?found = mset qualified"
    by (simp add: found mset_sort_by)
  then have empty: "?found = [] \<longleftrightarrow> qualified = []"
    by (metis mset_zero_iff)
  have none: "recs = [] \<Longrightarrow> qualified = []"
    by (simp add: q)
  have st: "filter (\<lambda>x. snd x = d) ?found = filter (\<lambda>x. snd x = d) qualified" for d
    unfolding found by (rule filter_sort_by) (simp add: compare_recommended_def)
  have so: "sorted (map snd ?found)"
    unfolding found by (rule sorted_recommended)
  have keys: "''recommend'' \<notin> fst ` set (ok_results body)"
    using search_categories_keys [OF sc] by (simp add: PLACE_TYPES_def)
  have a: "qualified = [] \<longrightarrow> ok_recommend body = None"
    using rec empty by simp
  have b: "qualified \<noteq> [] \<longrightarrow>
            (\<exists>xs. ok_recommend body = Some xs \<and> mset xs = mset qualified
                 \<and> sorted (map snd xs)
                 \<and> (\<forall>d. filter (\<lambda>x. snd x = d) xs = filter (\<lambda>x. snd x = d) qualified))"
  proof
    assume ne: "qualified \<noteq> []"
    with none have "recs \<noteq> []" by blast
    with ne rec empty have "ok_recommend body = Some ?found" by simp
    with ms so st show "\<exists>xs. ok_recommend body = Some xs \<and> mset xs = mset qualified
                 \<and> sorted (map snd xs)
                 \<and> (\<forall>d. filter (\<lambda>x. snd x = d) xs = filter (\<lambda>x. snd x = d) qualified)"
      by blast
  qed
  from a b keys show ?thesis by blast
qed

text \<open>
  Claim C8 at the example outcome, where one of two recommendations qualifies, and the
  outcome for a store whose only recommendation is too far: the key is absent.
\<close>

theorem recommendations_overlay_witness:
  "search_nearby example_env [polar_rec, walk_rec] example_provider (hotel_request 1000)
     = (example_calls, Status200 example_body)
   \<and> filter (\<lambda>x. snd x \<le> ok_radius example_body)
        (map (\<lambda>r. (r, Math_round (calculateDistance 21.034087 105.85114
                          (latitude (rec_location r)) (longitude (rec_location r)))))
           [polar_rec, walk_rec])
       = [(walk_rec, 0)]
   \<and> (\<exists>xs. ok_recommend example_body = Some xs \<and> mset xs = mset [(walk_rec, 0)]
          \<and> sorted (map snd xs)
          \<and> (\<forall>d. filter (\<lambda>x. snd x = d) xs = filter (\<lambda>x. snd x = d) [(walk_rec, 0)]))
   \<and> ''recommend'' \<notin> fst ` set (ok_results example_body)
   \<and> search_nearby example_env [polar_rec] silent_provider (hotel_request 1000)
       = ([SearchNearby 21.034087 105.85114 1000 [''restaurant''],
           SearchText 21.034087 105.85114 1000 ''restaurant dining food eat meal'',
           SearchText 21.034087 105.85114 1000 ''pho banh mi vietnamese asian italian french cafe bistro'',
           SearchNearby 21.034087 105.85114 1000 [''tourist_attraction''],
           SearchText 21.034087 105.85114 1000 ''historical landmark monument temple pagoda'',
           SearchText 21.034087 105.85114 1000 ''temple pagoda church cathedral mosque shrine'',
           SearchNearby 21.034087 105.85114 1000 [''cafe''],
           SearchText 21.034087 105.85114 1000 ''coffee shop'',
           SearchNearby 21.034087 105.85114 1000 [''museum''],
           SearchText 21.034087 105.85114 1000 ''museum gallery cultural center art exhibition heritage'',
           SearchText 21.034087 105.85114 1000 ''theater opera house concert hall performance venue'',
           GeocodeProbe 21.034087 105.85114],
          Status200 \<lparr> ok_radius = 1000, ok_recommend = None,
                      ok_results = [(''restaurants'', []), (''landmarks'', []), (''coffee'', []), (''culture'', [])],
                      ok_totalPlacesFound = 0 \<rparr>)"
proof -
  have l: "req_latitude (hotel_request 1000) = Some 21.034087"
    and g: "req_longitude (hotel_request 1000) = Some 105.85114"
    by (simp_all add: hotel_request_def)
  have q: "[(walk_rec, 0::int)] = filter (\<lambda>x. snd x \<le> ok_radius example_body)
        (map (\<lambda>r. (r, Math_round (calculateDistance 21.034087 105.85114
                          (latitude (rec_location r)) (longitude (rec_location r)))))
           [polar_rec, walk_rec])"
    by (simp add: run_defs example_defs)
  have r2: "search_nearby example_env [polar_rec] silent_provider (hotel_request 1000)
       = ([SearchNearby 21.034087 105.85114 1000 [''restaurant''],
           SearchText 21.034087 105.85114 1000 ''restaurant dining food eat meal'',
           SearchText 21.034087 105.85114 1000 ''pho banh mi vietnamese asian italian french cafe bistro'',
           SearchNearby 21.034087 105.85114 1000 [''tourist_attraction''],
           SearchText 21.034087 105.85114 1000 ''historical landmark monument temple pagoda'',
           SearchText 21.034087 105.85114 1000 ''temple pagoda church cathedral mosque shrine'',
           SearchNearby 21.034087 105.85114 1000 [''cafe''],
           SearchText 21.034087 105.85114 1000 ''coffee shop'',
           SearchNearby 21.034087 105.85114 1000 [''museum''],
           SearchText 21.034087 105.85114 1000 ''museum gallery cultural center art exhibition heritage'',
           SearchText 21.034087 105.85114 1000 ''theater opera house concert hall performance venue'',
           GeocodeProbe 21.034087 105.85114],
          Status200 \<lparr> ok_radius = 1000, ok_recommend = None,
                      ok_results = [(''restaurants'', []), (''landmarks'', []), (''coffee'', []), (''culture'', [])],
                      ok_totalPlacesFound = 0 \<rparr>)"
    by (simp add: run_defs example_defs)
  from recommendations_overlay [OF example_run l g q] q [symmetric] example_run r2
  show ?thesis by simp
qed

subsection \<open>The address of a free-text record\<close>

text \<open>
  Claim C10. Every object that a free-text search pushes stores the formatted address of
  the provider (or the text \<open>Address not available\<close>) under \<open>address\<close> and has no
  \<open>formattedAddress\<close>, which is the property the final normalisation reads: the place it
  becomes has the empty address.
\<close>

theorem text_search_address_lost:
  assumes "q \<in> set (snd (textSearch e prov calls lat lon r query ph))"
  shows "\<exists>raw pl. q = text_record lat lon ph raw
           \<and> raw_address q = Some (str_or (raw_formattedAddress raw) ''Address not available'')
           \<and> raw_formattedAddress q = None
           \<and> to_place lat lon q = Some pl
           \<and> address pl = []"
proof -
  from textSearch_records [OF assms] obtain raw where q: "q = text_record lat lon ph raw"
    by blast
  have "raw_address q = Some (str_or (raw_formattedAddress raw) ''Address not available'')"
    and "raw_formattedAddress q = None"
    by (simp_all add: q text_record_def)
  moreover have "\<exists>pl. to_place lat lon q = Some pl \<and> address pl = []"
    by (simp add: q text_record_def to_place_def str_or_def)
  ultimately show ?thesis using q by blast
qed

text \<open>Claim C10 at a record of the example provider that carries a formatted address.\<close>

theorem text_search_address_lost_witness:
  "text_record 21.034087 105.85114 ''Unknown Restaurant'' pho_again
     \<in> set (snd (textSearch example_env example_provider [] 21.034087 105.85114 1000
                    ''restaurant dining food eat meal'' ''Unknown Restaurant''))
   \<and> raw_formattedAddress pho_again = Some ''10 Ly Quoc Su, Hanoi''
   \<and> (\<exists>raw pl. text_record 21.034087 105.85114 ''Unknown Restaurant'' pho_again
                  = text_record 21.034087 105.85114 ''Unknown Restaurant'' raw
           \<and> raw_address (text_record 21.034087 105.85114 ''Unknown Restaurant'' pho_again)
               = Some (str_or (raw_formattedAddress raw) ''Address not available'')
           \<and> raw_formattedAddress (text_record 21.034087 105.85114 ''Unknown Restaurant'' pho_again) = None
           \<and> to_place 21.034087 105.85114 (text_record 21.034087 105.85114 ''Unknown Restaurant'' pho_again) = Some pl
           \<and> address pl = [])
   \<and> raw_address (text_record 21.034087 105.85114 ''Unknown Restaurant'' pho_again)
       = Some ''10 Ly Quoc Su, Hanoi''"
proof -
  have m: "text_record 21.034087 105.85114 ''Unknown Restaurant'' pho_again
     \<in> set (snd (textSearch example_env example_provider [] 21.034087 105.85114 1000
                    ''restaurant dining food eat meal'' ''Unknown Restaurant''))"
    by (simp add: run_defs example_defs)
  have a: "raw_formattedAddress pho_again = Some ''10 Ly Quoc Su, Hanoi''"
    by (simp add: pho_again_def empty_record_def)
  have b: "raw_address (text_record 21.034087 105.85114 ''Unknown Restaurant'' pho_again)
       = Some ''10 Ly Quoc Su, Hanoi''"
    by (simp add: text_record_def pho_again_def empty_record_def str_or_def)
  from text_search_address_lost [OF m] m a b show ?thesis by blast
qed


subsection \<open>Errors of the provider\<close>

text \<open>
  Claim C4 as stated fails for the tag-based search of a category. In the example the
  cafe search is answered with an error: the category \<open>coffee\<close> is returned empty and its
  free-text search, which the provider would have answered with a record, is never
  issued. Had the same search contributed zero records instead, the category would hold
  that record.
\<close>

theorem failed_tag_search_counterexample:
  "example_provider 6 (SearchNearby 21.034087 105.85114 1000 [''cafe'']) = Inl RateLimited
   \<and> fst (search_nearby example_env [polar_rec, walk_rec] example_provider (hotel_request 1000)) ! 6
       = SearchNearby 21.034087 105.85114 1000 [''cafe'']
   \<and> example_provider 7 (SearchText 21.034087 105.85114 1000 ''coffee shop'') = Inr (Some [giang_record])
   \<and> SearchText 21.034087 105.85114 1000 ''coffee shop''
       \<notin> set (fst (search_nearby example_env [polar_rec, walk_rec] example_provider (hotel_request 1000)))
   \<and> results_of (search_nearby example_env [polar_rec, walk_rec] example_provider (hotel_request 1000)) ''coffee'' = []
   \<and> map name (results_of (search_nearby example_env [polar_rec, walk_rec] zero_cafe_provider (hotel_request 1000))
                  ''coffee'')
       = [''Cafe Giang'']"
  by (simp add: run_defs example_defs)

text \<open>
  Claim C4, amended. No error of the provider fails the request: with valid coordinates
  and a configured key the handler answers with status 200 and a list for each of the
  four categories, whatever the provider does. An error of a free-text search is
  absorbed: the search is recorded as issued, contributes nothing, and the remaining
  searches of the category run with the records collected so far. An error of the
  tag-based search of a category ends that category: its free-text searches are not
  issued, its list is empty, and the loop goes on with the next category. The failures
  that reach the caller are the status 400 for missing coordinates and the status 500
  for a missing key.
\<close>

theorem provider_errors_contained:
  "(req_latitude req = Some lat \<and> req_longitude req = Some lon \<and> lat \<noteq> 0 \<and> lon \<noteq> 0
      \<and> api_key_present e
    \<longrightarrow> (\<exists>calls body. search_nearby e recs prov req = (calls, Status200 body)
           \<and> fst ` set (ok_results body) = fst ` set PLACE_TYPES))
   \<and> (prov (length calls) (SearchText lat lon (min r (MAX_SEARCH_RADIUS e)) q) = Inl err
    \<longrightarrow> run_text_searches e prov lat lon r ((q, ph) # rest) calls acc
        = run_text_searches e prov lat lon r rest
            (calls @ [SearchText lat lon (min r (MAX_SEARCH_RADIUS e)) q]) acc)
   \<and> (prov (length calls)
         (SearchNearby lat lon (min r (MAX_SEARCH_RADIUS e)) (fst (search_strategies c tys))) = Inl err
    \<longrightarrow> search_categories e prov lat lon r ((c, tys) # cats) (calls, results, tot)
        = search_categories e prov lat lon r cats
            (calls @ [SearchNearby lat lon (min r (MAX_SEARCH_RADIUS e)) (fst (search_strategies c tys))],
             AList.update c [] results, tot))"
proof (intro conjI impI)
  assume "req_latitude req = Some lat \<and> req_longitude req = Some lon \<and> lat \<noteq> 0 \<and> lon \<noteq> 0
      \<and> api_key_present e"
  then show "\<exists>calls body. search_nearby e recs prov req = (calls, Status200 body)
           \<and> fst ` set (ok_results body) = fst ` set PLACE_TYPES"
    using search_nearby_completes [of req lat lon e recs prov] by blast
next
  assume "prov (length calls) (SearchText lat lon (min r (MAX_SEARCH_RADIUS e)) q) = Inl err"
  with textSearch_error [where prov = prov and calls = calls and lat = lat and lon = lon
                             and r = r and e = e and q = q and err = err and ph = ph]
  show "run_text_searches e prov lat lon r ((q, ph) # rest) calls acc
        = run_text_searches e prov lat lon r rest
            (calls @ [SearchText lat lon (min r (MAX_SEARCH_RADIUS e)) q]) acc"
    by simp
next
  assume "prov (length calls)
         (SearchNearby lat lon (min r (MAX_SEARCH_RADIUS e)) (fst (search_strategies c tys))) = Inl err"
  with search_category_error [where prov = prov and calls = calls and lat = lat and lon = lon
                                   and r = r and e = e and c = c and tys = tys and err = err]
  show "search_categories e prov lat lon r ((c, tys) # cats) (calls, results, tot)
        = search_categories e prov lat lon r cats
            (calls @ [SearchNearby lat lon (min r (MAX_SEARCH_RADIUS e)) (fst (search_strategies c tys))],
             AList.update c [] results, tot)"
    by simp
qed

text \<open>Claim C4, amended, at a provider whose every call fails.\<close>

theorem provider_errors_contained_witness:
  "search_nearby example_env [] limited_provider (hotel_request 1000)
     = ([SearchNearby 21.034087 105.85114 1000 [''restaurant''],
         SearchNearby 21.034087 105.85114 1000 [''tourist_attraction''],
         SearchNearby 21.034087 105.85114 1000 [''cafe''],
         SearchNearby 21.034087 105.85114 1000 [''museum''],
         GeocodeProbe 21.034087 105.85114],
        Status200 \<lparr> ok_radius = 1000, ok_recommend = None,
                    ok_results = [(''restaurants'', []), (''landmarks'', []), (''coffee'', []), (''culture'', [])],
                    ok_totalPlacesFound = 0 \<rparr>)
   \<and> (\<exists>calls body. search_nearby example_env [] limited_provider (hotel_request 1000) = (calls, Status200 body)
           \<and> fst ` set (ok_results body) = fst ` set PLACE_TYPES)
   \<and> run_text_searches example_env limited_provider 21.034087 105.85114 1000
        [(''coffee shop'', ''Unknown Coffee Shop'')] [] [pho_record]
       = ([SearchText 21.034087 105.85114 1000 ''coffee shop''], [pho_record])
   \<and> search_categories example_env limited_provider 21.034087 105.85114 1000
        [(''coffee'', [''cafe''])] ([], [], 0)
       = ([SearchNearby 21.034087 105.85114 1000 [''cafe'']], [(''coffee'', [])], 0)"
proof -
  note t = provider_errors_contained
             [where req = "hotel_request 1000" and lat = "21.034087" and lon = "105.85114"
                and e = example_env and recs = "[]" and prov = limited_provider
                and calls = "[]" and r = 1000 and q = "''coffee shop''" and err = RateLimited
                and ph = "''Unknown Coffee Shop''" and rest = "[]" and acc = "[pho_record]"
                and c = "''coffee''" and tys = "[''cafe'']" and cats = "[]" and results = "[]"
                and tot = 0]
  have r: "search_nearby example_env [] limited_provider (hotel_request 1000)
     = ([SearchNearby 21.034087 105.85114 1000 [''restaurant''],
         SearchNearby 21.034087 105.85114 1000 [''tourist_attraction''],
         SearchNearby 21.034087 105.85114 1000 [''cafe''],
         SearchNearby 21.034087 105.85114 1000 [''museum''],
         GeocodeProbe 21.034087 105.85114],
        Status200 \<lparr> ok_radius = 1000, ok_recommend = None,
                    ok_results = [(''restaurants'', []), (''landmarks'', []), (''coffee'', []), (''culture'', [])],
                    ok_totalPlacesFound = 0 \<rparr>)"
    by (simp add: run_defs example_defs)
  from t r show ?thesis
    by (simp add: hotel_request_def example_env_def limited_provider_def search_strategies_def)
qed

text \<open>
  Claim C7 as stated fails: there is no retry. In the example the cafe search is rate
  limited at the seventh call and would succeed at the eighth; the handler issues it
  once, and the category \<open>coffee\<close> is returned empty.
\<close>

theorem rate_limit_not_retried_counterexample:
  "example_provider 6 (SearchNearby 21.034087 105.85114 1000 [''cafe'']) = Inl RateLimited
   \<and> example_provider 7 (SearchNearby 21.034087 105.85114 1000 [''cafe'']) = Inr (Some [giang_record])
   \<and> fst (search_nearby example_env [polar_rec, walk_rec] example_provider (hotel_request 1000))
       = example_calls
   \<and> example_calls ! 6 = SearchNearby 21.034087 105.85114 1000 [''cafe'']
   \<and> count_list example_calls (SearchNearby 21.034087 105.85114 1000 [''cafe'']) = 1
   \<and> results_of (search_nearby example_env [polar_rec, walk_rec] example_provider (hotel_request 1000)) ''coffee'' = []"
  by (simp add: run_defs example_defs)

text \<open>
  Claim C7, amended. The handler has neither a retry nor a delay: in every invocation no
  call is issued twice, whatever the provider answers. A rate-limited tag-based search
  ends its category with the error after that one call, and a rate-limited free-text
  search contributes no records after its one call.
\<close>

theorem each_sub_query_attempted_once:
  "distinct (fst (search_nearby e recs prov req))
   \<and> (prov (length calls)
         (SearchNearby lat lon (min r (MAX_SEARCH_RADIUS e)) (fst (search_strategies c tys))) = Inl RateLimited
    \<longrightarrow> search_category e prov lat lon r c tys calls
        = (calls @ [SearchNearby lat lon (min r (MAX_SEARCH_RADIUS e)) (fst (search_strategies c tys))], None))
   \<and> (prov (length calls) (SearchText lat lon (min r (MAX_SEARCH_RADIUS e)) q) = Inl RateLimited
    \<longrightarrow> textSearch e prov calls lat lon r q ph
        = (calls @ [SearchText lat lon (min r (MAX_SEARCH_RADIUS e)) q], []))"
proof (intro conjI impI)
  show "distinct (fst (search_nearby e recs prov req))"
    by (rule search_nearby_calls_distinct)
next
  assume "prov (length calls)
         (SearchNearby lat lon (min r (MAX_SEARCH_RADIUS e)) (fst (search_strategies c tys))) = Inl RateLimited"
  with search_category_error [where prov = prov and calls = calls and lat = lat and lon = lon
                                   and r = r and e = e and c = c and tys = tys and err = RateLimited]
  show "search_category e prov lat lon r c tys calls
        = (calls @ [SearchNearby lat lon (min r (MAX_SEARCH_RADIUS e)) (fst (search_strategies c tys))], None)"
    by simp
next
  assume "prov (length calls) (SearchText lat lon (min r (MAX_SEARCH_RADIUS e)) q) = Inl RateLimited"
  with textSearch_error [where prov = prov and calls = calls and lat = lat and lon = lon
                             and r = r and e = e and q = q and err = RateLimited and ph = ph]
  show "textSearch e prov calls lat lon r q ph
        = (calls @ [SearchText lat lon (min r (MAX_SEARCH_RADIUS e)) q], [])"
    by simp
qed

text \<open>Claim C7, amended, at the example and at a provider that always rate limits.\<close>

theorem each_sub_query_attempted_once_witness:
  "distinct (fst (search_nearby example_env [polar_rec, walk_rec] example_provider (hotel_request 1000)))
   \<and> limited_provider 0 (SearchNearby 21.034087 105.85114 1000 [''cafe'']) = Inl RateLimited
   \<and> search_category example_env limited_provider 21.034087 105.85114 1000 ''coffee'' [''cafe''] []
       = ([SearchNearby 21.034087 105.85114 1000 [''cafe'']], None)
   \<and> limited_provider 0 (SearchText 21.034087 105.85114 1000 ''coffee shop'') = Inl RateLimited
   \<and> textSearch example_env limited_provider [] 21.034087 105.85114 1000 ''coffee shop'' ''Unknown Coffee Shop''
       = ([SearchText 21.034087 105.85114 1000 ''coffee shop''], [])"
  using each_sub_query_attempted_once
          [where e = example_env and recs = "[polar_rec, walk_rec]" and prov = example_provider
             and req = "hotel_request 1000"]
        each_sub_query_attempted_once
          [where e = example_env and prov = limited_provider and calls = "[]"
             and lat = "21.034087" and lon = "105.85114" and r = 1000 and c = "''coffee''"
             and tys = "[''cafe'']" and q = "''coffee shop''" and ph = "''Unknown Coffee Shop''"]
  by (simp add: example_env_def limited_provider_def search_strategies_def)


subsection \<open>Names\<close>

text \<open>
  Claim C3 as stated fails in four ways.

  The records of a free-text search are named by the conversion of that search. The
  example provider answers a free-text restaurant search with a record that has no
  display name, no plain name and no types, and the formatted address
  \<open>12 Hang Bac, Hanoi\<close>. Its first address segment starts with a digit and its second is
  the city token, so the four tiers of the claim yield no name and the record should be
  absent; the handler returns it under the name \<open>12 Hang Bac\<close>.

  The third tier of the handler skips every segment that contains \<open>Vietnam\<close> or
  \<open>Hanoi\<close>, not only a segment that is such a token. For a record of the tag-based
  landmark search with the address \<open>Hanoi Opera House, Trang Tien\<close> and no names the
  tiers of the claim yield \<open>Hanoi Opera House\<close>; the handler returns \<open>Trang Tien\<close>.

  The fourth tier of the handler is the last branch of an \<open>else if\<close> chain whose third
  branch is taken for every non-blank address. For a record of the tag-based cafe search
  with the address \<open>36, Hanoi, Vietnam\<close>, no names and the type \<open>cafe\<close> the tiers of the
  claim yield \<open>Coffee Shop at 21.0341,105.8511\<close>; the handler drops the record.

  The fourth tier of the handler looks a type up in an object literal, which also finds
  the properties of \<open>Object.prototype\<close>. For a record of the same search with the only
  type \<open>constructor\<close> the tiers of the claim yield no name; the handler returns the
  record under a name printed from the function \<open>Object\<close>.
\<close>

theorem text_record_name_counterexample:
  "raw_displayName_text address_only = None \<and> raw_name address_only = None
   \<and> raw_formattedAddress address_only = Some ''12 Hang Bac, Hanoi''
   \<and> raw_types address_only = None
   \<and> match_leading_digits ''12 Hang Bac'' \<and> is_token ''Hanoi''
   \<and> four_tier_name is_token address_only hotel = None
   \<and> example_provider 1 (SearchText 21.034087 105.85114 1000 ''restaurant dining food eat meal'')
       = Inr (Some [pho_again, address_only])
   \<and> map place_id (results_of (search_nearby example_env [polar_rec, walk_rec] example_provider
                                  (hotel_request 1000)) ''restaurants'')
       = [Some ''p2'', Some ''p1'', Some ''p3'']
   \<and> map name (results_of (search_nearby example_env [polar_rec, walk_rec] example_provider
                              (hotel_request 1000)) ''restaurants'')
       = [''Bun Cha 34'', ''Pho 10'', ''12 Hang Bac'']
   \<and> landmark_provider 3 (SearchNearby 21.034087 105.85114 1000 [''tourist_attraction''])
       = Inr (Some [kiosk_record, lake_record, opera_record])
   \<and> raw_formattedAddress opera_record = Some ''Hanoi Opera House, Trang Tien''
   \<and> \<not> is_token ''Hanoi Opera House''
   \<and> four_tier_name is_token opera_record hotel = Some ''Hanoi Opera House''
   \<and> map place_id (results_of (search_nearby example_env [] landmark_provider (hotel_request 1000))
                      ''landmarks'')
       = [Some ''l1'', Some ''l2'', Some ''l3'', Some ''l0'']
   \<and> map name (results_of (search_nearby example_env [] landmark_provider (hotel_request 1000))
                  ''landmarks'')
       = [''Hoan Kiem Lake'', ''Trang Tien'', ''Bach Ma Temple'', ''Lakeside Kiosk'']
   \<and> unnamed_provider 6 (SearchNearby 21.034087 105.85114 1000 [''cafe''])
       = Inr (Some [numbered_record, constructor_record])
   \<and> four_tier_name is_token numbered_record hotel = Some ''Coffee Shop at 21.0341,105.8511''
   \<and> four_tier_name is_token constructor_record hotel = None
   \<and> map place_id (results_of (search_nearby example_env [] unnamed_provider (hotel_request 1000))
                      ''coffee'')
       = [Some ''p6'']
   \<and> map name (results_of (search_nearby example_env [] unnamed_provider (hotel_request 1000))
                  ''coffee'')
       = [''function Object() { [native code] } at 21.0341,105.8511'']"
proof -
  let ?coffee = "results_of (search_nearby example_env [] unnamed_provider (hotel_request 1000)) ''coffee''"
  have "map place_id ?coffee = map fst (map (\<lambda>p. (place_id p, name p)) ?coffee)"
    and "map name ?coffee = map snd (map (\<lambda>p. (place_id p, name p)) ?coffee)"
    by (simp_all add: comp_def)
  then have coffee: "map place_id ?coffee = [Some ''p6'']"
    "map name ?coffee = [''function Object() { [native code] } at 21.0341,105.8511'']"
    unfolding unnamed_coffee by simp_all
  have restaurants:
    "results_of (search_nearby example_env [polar_rec, walk_rec] example_provider (hotel_request 1000))
       ''restaurants'' = [bun_place, pho_place, hang_bac_place]"
    by (simp add: results_of_def example_run example_body_def)
  have landmarks:
    "results_of (search_nearby example_env [] landmark_provider (hotel_request 1000)) ''landmarks''
       = [lake_place, trang_tien_place, temple_place, kiosk_place]"
    by (simp add: results_of_def landmark_run landmark_body_def)
  have records:
    "raw_displayName_text address_only = None \<and> raw_name address_only = None
     \<and> raw_formattedAddress address_only = Some ''12 Hang Bac, Hanoi''
     \<and> raw_types address_only = None
     \<and> raw_formattedAddress opera_record = Some ''Hanoi Opera House, Trang Tien''"
    by (simp add: address_only_def opera_record_def empty_record_def)
  have tokens: "match_leading_digits ''12 Hang Bac'' \<and> is_token ''Hanoi''
     \<and> \<not> is_token ''Hanoi Opera House''"
    by (simp add: match_leading_digits_def is_digit_def is_token_def)
  have t1: "four_tier_name is_token address_only hotel = None"
    by (simp add: run_defs example_defs)
  have t2: "four_tier_name is_token opera_record hotel = Some ''Hanoi Opera House''"
    by (simp add: run_defs example_defs)
  have t3: "four_tier_name is_token numbered_record hotel = Some ''Coffee Shop at 21.0341,105.8511''"
    by (simp add: run_defs example_defs)
  have t4: "four_tier_name is_token constructor_record hotel = None"
    by (simp add: run_defs example_defs)
  have p1: "example_provider 1 (SearchText 21.034087 105.85114 1000 ''restaurant dining food eat meal'')
       = Inr (Some [pho_again, address_only])"
    by (simp add: example_provider_def)
  have p2: "landmark_provider 3 (SearchNearby 21.034087 105.85114 1000 [''tourist_attraction''])
       = Inr (Some [kiosk_record, lake_record, opera_record])"
    by (simp add: landmark_provider_def)
  have p3: "unnamed_provider 6 (SearchNearby 21.034087 105.85114 1000 [''cafe''])
       = Inr (Some [numbered_record, constructor_record])"
    by (simp add: unnamed_provider_def)
  have names:
    "map place_id [bun_place, pho_place, hang_bac_place] = [Some ''p2'', Some ''p1'', Some ''p3'']"
    "map name [bun_place, pho_place, hang_bac_place] = [''Bun Cha 34'', ''Pho 10'', ''12 Hang Bac'']"
    "map place_id [lake_place, trang_tien_place, temple_place, kiosk_place]
       = [Some ''l1'', Some ''l2'', Some ''l3'', Some ''l0'']"
    "map name [lake_place, trang_tien_place, temple_place, kiosk_place]
       = [''Hoan Kiem Lake'', ''Trang Tien'', ''Bach Ma Temple'', ''Lakeside Kiosk'']"
    by (simp_all add: bun_place_def pho_place_def hang_bac_place_def lake_place_def
          trang_tien_place_def temple_place_def kiosk_place_def)
  show ?thesis
    unfolding restaurants landmarks coffee names
    using records tokens t1 t2 t3 t4 p1 p2 p3 by simp
qed

text \<open>
  Claim C3, amended. The final normalisation resolves the name of a record by the four
  tiers in order: the trimmed display name; if that is blank the trimmed plain name; if
  that is blank the first comma-separated segment of the address that, trimmed, is not
  empty, does not start with a digit and does not contain \<open>Vietnam\<close> or \<open>Hanoi\<close>; if
  there is none the label of the first recognised type with the coordinates. This is
  stated for every record except in two cases, about which nothing is stated: blank
  names together with a non-blank address that has no suitable segment, and a type that
  is the name of a property of \<open>Object.prototype\<close>. A record for which the four tiers
  yield no name gets the placeholder \<open>Unknown Place\<close>, outside the second case. A record
  of a free-text search is named by the conversion of that search (display name, else
  plain name, else first address segment), trimmed. No place of a returned category list
  has an empty name or the name \<open>Unknown Place\<close>, and each of them is the normalisation
  of a record that the provider returned for a tag-based search of the request, or of a
  converted record of a free-text search, and bears the name resolved for that record.
\<close>

theorem name_resolution:
  "(\<not> (\<not> nonblank (raw_displayName_text p) \<and> \<not> nonblank (raw_name p)
         \<and> nonblank (raw_formattedAddress p)
         \<and> find (segment_ok mentions_token)
               (map trim (split_on CHR '','' (str_or (raw_formattedAddress p) []))) = None)
      \<and> list_all (\<lambda>t. Object_prototype t = None) (case raw_types p of None \<Rightarrow> [] | Some ts \<Rightarrow> ts)
    \<longrightarrow> resolve_placeName p loc
        = (case four_tier_name mentions_token p loc of None \<Rightarrow> ''Unknown Place'' | Some n \<Rightarrow> n))
   \<and> (four_tier_name mentions_token p loc = None
      \<and> list_all (\<lambda>t. Object_prototype t = None) (case raw_types p of None \<Rightarrow> [] | Some ts \<Rightarrow> ts)
    \<longrightarrow> resolve_placeName p loc = ''Unknown Place'')
   \<and> (\<exists>q. to_place lat lon (text_record lat lon ph raw) = Some q
          \<and> name q = (if 0 < length (trim (text_placeName ph raw))
                      then trim (text_placeName ph raw) else ''Unknown Place''))
   \<and> (search_nearby e recs prov req = (calls, Status200 body)
    \<longrightarrow> (\<forall>(c, ps)\<in>set (ok_results body). \<forall>x\<in>set ps. name x \<noteq> [] \<and> name x \<noteq> ''Unknown Place''))
   \<and> (search_nearby e recs prov req = (calls, Status200 body)
      \<and> req_latitude req = Some lat \<and> req_longitude req = Some lon
    \<longrightarrow> (\<forall>(c, ps)\<in>set (ok_results body). \<forall>x\<in>set ps.
           \<exists>src. to_place lat lon src = Some x
              \<and> name x = resolve_placeName src (location x)
              \<and> ((\<exists>n tys raws. prov n (SearchNearby lat lon (ok_radius body) tys) = Inr (Some raws)
                       \<and> src \<in> set raws)
                  \<or> (\<exists>placeholder raw0. src = text_record lat lon placeholder raw0))))"
proof (intro conjI impI)
  assume "\<not> (\<not> nonblank (raw_displayName_text p) \<and> \<not> nonblank (raw_name p)
         \<and> nonblank (raw_formattedAddress p)
         \<and> find (segment_ok mentions_token)
               (map trim (split_on CHR '','' (str_or (raw_formattedAddress p) []))) = None)
      \<and> list_all (\<lambda>t. Object_prototype t = None) (case raw_types p of None \<Rightarrow> [] | Some ts \<Rightarrow> ts)"
  then show "resolve_placeName p loc
        = (case four_tier_name mentions_token p loc of None \<Rightarrow> ''Unknown Place'' | Some n \<Rightarrow> n)"
    using resolve_placeName_four_tier [of p loc] by blast
next
  assume "four_tier_name mentions_token p loc = None
      \<and> list_all (\<lambda>t. Object_prototype t = None) (case raw_types p of None \<Rightarrow> [] | Some ts \<Rightarrow> ts)"
  then show "resolve_placeName p loc = ''Unknown Place''"
    using four_tier_none [of p loc] by blast
next
  show "\<exists>q. to_place lat lon (text_record lat lon ph raw) = Some q
          \<and> name q = (if 0 < length (trim (text_placeName ph raw))
                      then trim (text_placeName ph raw) else ''Unknown Place'')"
    by (rule text_record_name)
next
  assume "search_nearby e recs prov req = (calls, Status200 body)"
  then show "\<forall>(c, ps)\<in>set (ok_results body). \<forall>x\<in>set ps. name x \<noteq> [] \<and> name x \<noteq> ''Unknown Place''"
    using category_names by blast
next
  let ?r = "ok_radius body"
  assume a: "search_nearby e recs prov req = (calls, Status200 body)
      \<and> req_latitude req = Some lat \<and> req_longitude req = Some lon"
  then have run: "search_nearby e recs prov req = (calls, Status200 body)"
    and lat: "req_latitude req = Some lat" and lon: "req_longitude req = Some lon"
    by simp_all
  from search_nearby_Status200 [OF run] have
    "?r = min (parseInt_number e (case req_radius req of None \<Rightarrow> DEFAULT_SEARCH_RADIUS e | Some r \<Rightarrow> r)) (MAX_SEARCH_RADIUS e)"
    by auto
  then have clamp: "min ?r (MAX_SEARCH_RADIUS e) = ?r" by simp
  show "\<forall>(c, ps)\<in>set (ok_results body). \<forall>x\<in>set ps.
           \<exists>src. to_place lat lon src = Some x
              \<and> name x = resolve_placeName src (location x)
              \<and> ((\<exists>n tys raws. prov n (SearchNearby lat lon (ok_radius body) tys) = Inr (Some raws)
                       \<and> src \<in> set raws)
                  \<or> (\<exists>placeholder raw0. src = text_record lat lon placeholder raw0))"
  proof (clarify)
    fix c ps x assume m: "(c, ps) \<in> set (ok_results body)" and x: "x \<in> set ps"
    from category_list_cases [OF run m] x lat lon obtain tys cs cs' where
      sc: "search_category e prov lat lon ?r c tys cs = (cs', Some ps)"
      by auto
    from search_category_Some [OF sc] obtain rbody allPlaces where
      pr: "prov (length cs) (hd (planned_calls e lat lon ?r (c, tys))) = Inr rbody"
      and fin: "finalize_category lat lon c allPlaces = Some ps"
      and src: "\<forall>y\<in>set allPlaces. y \<in> set (case rbody of None \<Rightarrow> [] | Some xs \<Rightarrow> xs)
                 \<or> (\<exists>ph raw. y = text_record lat lon ph raw \<and> text_keep ?r ph y)"
      by blast
    from finalize_category_members [OF fin x] obtain y where
      y: "y \<in> set allPlaces" and tp: "to_place lat lon y = Some x" by blast
    from to_place_name [OF tp] have nm: "name x = resolve_placeName y (location x)" .
    from src y have "y \<in> set (case rbody of None \<Rightarrow> [] | Some xs \<Rightarrow> xs)
                 \<or> (\<exists>ph raw. y = text_record lat lon ph raw \<and> text_keep ?r ph y)" by blast
    then have "(\<exists>n tys raws. prov n (SearchNearby lat lon ?r tys) = Inr (Some raws) \<and> y \<in> set raws)
                  \<or> (\<exists>placeholder raw0. y = text_record lat lon placeholder raw0)"
    proof
      assume "y \<in> set (case rbody of None \<Rightarrow> [] | Some xs \<Rightarrow> xs)"
      then obtain raws where rb: "rbody = Some raws" and yr: "y \<in> set raws"
        by (cases rbody) auto
      from pr rb have "prov (length cs)
          (SearchNearby lat lon ?r (fst (search_strategies c tys))) = Inr (Some raws)"
        by (simp add: planned_calls_def clamp)
      with yr show ?thesis by blast
    next
      assume "\<exists>ph raw. y = text_record lat lon ph raw \<and> text_keep ?r ph y"
      then show ?thesis by blast
    qed
    with tp nm show "\<exists>src. to_place lat lon src = Some x
              \<and> name x = resolve_placeName src (location x)
              \<and> ((\<exists>n tys raws. prov n (SearchNearby lat lon ?r tys) = Inr (Some raws)
                       \<and> src \<in> set raws)
                  \<or> (\<exists>placeholder raw0. src = text_record lat lon placeholder raw0))"
      by blast
  qed
qed

text \<open>
  Claim C3, amended, at records that are named by the first, the third and the fourth
  tier, at a record without any name, at the free-text record of the counterexample and
  at the example outcome.
\<close>

theorem name_resolution_witness:
  "resolve_placeName bun_record hotel = ''Bun Cha 34''
   \<and> four_tier_name mentions_token bun_record hotel = Some ''Bun Cha 34''
   \<and> resolve_placeName quarter_record hotel = ''Old Quarter''
   \<and> four_tier_name mentions_token quarter_record hotel = Some ''Old Quarter''
   \<and> resolve_placeName opera_record hotel = ''Trang Tien''
   \<and> four_tier_name mentions_token opera_record hotel = Some ''Trang Tien''
   \<and> resolve_placeName tagged_record hotel = ''Coffee Shop at 21.0341,105.8511''
   \<and> four_tier_name mentions_token tagged_record hotel = Some ''Coffee Shop at 21.0341,105.8511''
   \<and> four_tier_name mentions_token empty_record hotel = None
   \<and> resolve_placeName empty_record hotel = ''Unknown Place''
   \<and> (\<exists>q. to_place 21.034087 105.85114
               (text_record 21.034087 105.85114 ''Unknown Restaurant'' address_only) = Some q
          \<and> name q = ''12 Hang Bac'')
   \<and> search_nearby example_env [polar_rec, walk_rec] example_provider (hotel_request 1000)
       = (example_calls, Status200 example_body)
   \<and> list_all (\<lambda>x. name x \<noteq> [] \<and> name x \<noteq> ''Unknown Place'') [bun_place, pho_place, hang_bac_place]
   \<and> list_all (\<lambda>x. \<exists>src. to_place 21.034087 105.85114 src = Some x
                       \<and> name x = resolve_placeName src (location x))
        [bun_place, pho_place, hang_bac_place]"
proof -
  have f1: "four_tier_name mentions_token bun_record hotel = Some ''Bun Cha 34''"
    and f2: "four_tier_name mentions_token quarter_record hotel = Some ''Old Quarter''"
    and f3: "four_tier_name mentions_token tagged_record hotel = Some ''Coffee Shop at 21.0341,105.8511''"
    and f4: "four_tier_name mentions_token empty_record hotel = None"
    and f5: "four_tier_name mentions_token opera_record hotel = Some ''Trang Tien''"
    by (simp_all add: run_defs example_defs)
  have h1: "\<not> (\<not> nonblank (raw_displayName_text bun_record) \<and> \<not> nonblank (raw_name bun_record)
         \<and> nonblank (raw_formattedAddress bun_record)
         \<and> find (segment_ok mentions_token)
               (map trim (split_on CHR '','' (str_or (raw_formattedAddress bun_record) []))) = None)
      \<and> list_all (\<lambda>t. Object_prototype t = None)
           (case raw_types bun_record of None \<Rightarrow> [] | Some ts \<Rightarrow> ts)"
    and h2: "\<not> (\<not> nonblank (raw_displayName_text quarter_record) \<and> \<not> nonblank (raw_name quarter_record)
         \<and> nonblank (raw_formattedAddress quarter_record)
         \<and> find (segment_ok mentions_token)
               (map trim (split_on CHR '','' (str_or (raw_formattedAddress quarter_record) []))) = None)
      \<and> list_all (\<lambda>t. Object_prototype t = None)
           (case raw_types quarter_record of None \<Rightarrow> [] | Some ts \<Rightarrow> ts)"
    and h3: "\<not> (\<not> nonblank (raw_displayName_text tagged_record) \<and> \<not> nonblank (raw_name tagged_record)
         \<and> nonblank (raw_formattedAddress tagged_record)
         \<and> find (segment_ok mentions_token)
               (map trim (split_on CHR '','' (str_or (raw_formattedAddress tagged_record) []))) = None)
      \<and> list_all (\<lambda>t. Object_prototype t = None)
           (case raw_types tagged_record of None \<Rightarrow> [] | Some ts \<Rightarrow> ts)"
    and h4: "list_all (\<lambda>t. Object_prototype t = None)
           (case raw_types empty_record of None \<Rightarrow> [] | Some ts \<Rightarrow> ts)"
    and h5: "\<not> (\<not> nonblank (raw_displayName_text opera_record) \<and> \<not> nonblank (raw_name opera_record)
         \<and> nonblank (raw_formattedAddress opera_record)
         \<and> find (segment_ok mentions_token)
               (map trim (split_on CHR '','' (str_or (raw_formattedAddress opera_record) []))) = None)
      \<and> list_all (\<lambda>t. Object_prototype t = None)
           (case raw_types opera_record of None \<Rightarrow> [] | Some ts \<Rightarrow> ts)"
    by (simp_all add: run_defs example_defs)
  note t1 = name_resolution [where p = bun_record and loc = hotel]
  note t2 = name_resolution [where p = quarter_record and loc = hotel]
  note t3 = name_resolution [where p = tagged_record and loc = hotel]
  note t5 = name_resolution [where p = opera_record and loc = hotel]
  note t4 = name_resolution
              [where p = empty_record and loc = hotel and lat = "21.034087" and lon = "105.85114"
                 and ph = "''Unknown Restaurant''" and raw = address_only
                 and e = example_env and recs = "[polar_rec, walk_rec]" and prov = example_provider
                 and req = "hotel_request 1000" and calls = example_calls and body = example_body]
  from t1 h1 f1 have r1: "resolve_placeName bun_record hotel = ''Bun Cha 34''" by simp
  from t2 h2 f2 have r2: "resolve_placeName quarter_record hotel = ''Old Quarter''" by simp
  from t3 h3 f3 have r3: "resolve_placeName tagged_record hotel = ''Coffee Shop at 21.0341,105.8511''"
    by simp
  from t5 h5 f5 have r7: "resolve_placeName opera_record hotel = ''Trang Tien''" by simp
  from t4 f4 h4 have r4: "resolve_placeName empty_record hotel = ''Unknown Place''" by simp
  have tn: "trim (text_placeName ''Unknown Restaurant'' address_only) = ''12 Hang Bac''"
    by (simp add: run_defs example_defs)
  from t4 have "\<exists>q. to_place 21.034087 105.85114
               (text_record 21.034087 105.85114 ''Unknown Restaurant'' address_only) = Some q
          \<and> name q = (if 0 < length (trim (text_placeName ''Unknown Restaurant'' address_only))
                      then trim (text_placeName ''Unknown Restaurant'' address_only)
                      else ''Unknown Place'')"
    by blast
  then have r5: "\<exists>q. to_place 21.034087 105.85114
               (text_record 21.034087 105.85114 ''Unknown Restaurant'' address_only) = Some q
          \<and> name q = ''12 Hang Bac''"
    unfolding tn by simp
  have m: "(''restaurants'', [bun_place, pho_place, hang_bac_place]) \<in> set (ok_results example_body)"
    by (simp add: example_body_def)
  from t4 example_run have
    "\<forall>(c, ps)\<in>set (ok_results example_body). \<forall>x\<in>set ps. name x \<noteq> [] \<and> name x \<noteq> ''Unknown Place''"
    by blast
  from bspec [OF this m] have r6:
    "list_all (\<lambda>x. name x \<noteq> [] \<and> name x \<noteq> ''Unknown Place'') [bun_place, pho_place, hang_bac_place]"
    by simp
  have l: "req_latitude (hotel_request 1000) = Some 21.034087"
    and g: "req_longitude (hotel_request 1000) = Some 105.85114"
    by (simp_all add: hotel_request_def)
  from t4 example_run l g have
    "\<forall>(c, ps)\<in>set (ok_results example_body). \<forall>x\<in>set ps.
           \<exists>src. to_place 21.034087 105.85114 src = Some x
              \<and> name x = resolve_placeName src (location x)
              \<and> ((\<exists>n tys raws. example_provider n (SearchNearby 21.034087 105.85114 (ok_radius example_body) tys) = Inr (Some raws)
                       \<and> src \<in> set raws)
                  \<or> (\<exists>placeholder raw0. src = text_record 21.034087 105.85114 placeholder raw0))"
    by blast
  from bspec [OF this m] have r8:
    "list_all (\<lambda>x. \<exists>src. to_place 21.034087 105.85114 src = Some x
                       \<and> name x = resolve_placeName src (location x))
        [bun_place, pho_place, hang_bac_place]"
    by (simp add: list_all_iff) blast
  from r1 r2 r3 r4 r5 r6 r7 r8 f1 f2 f3 f4 f5 example_run show ?thesis by blast
qed


end
